theory Spec2Isabelle
  imports Complex_Main "HOL-Library.Word"
begin

unbundle bit_operations_syntax

section \<open>Values that cross the boundary\<close>

text \<open>
  The file under study is \<^verbatim>\<open>src/main/cpp/pdfium_jni.cpp\<close>: a layer of exported
  functions between a managed caller and the PDFium library. A handle is a pointer that
  travels as a 64-bit integer (\<^verbatim>\<open>jlong\<close>); the null handle is 0. The wrapped library and
  the operating system are not part of the file: every call into them appears in the
  model twice, as an entry of a call log (what was called, with which arguments, in which
  order) and as a parameter that says what the call answered.
\<close>

type_synonym jlong = "64 word"
type_synonym jint = "32 word"
type_synonym jchar = "16 word"
type_synonym jbyte = "8 word"

text \<open>
  Where the source hands a wider integer to a 32-bit parameter (an \<^verbatim>\<open>int\<close>, a
  \<^verbatim>\<open>jsize\<close>), the value that arrives is the narrowed one: the low 32 bits, read as a
  signed number.
\<close>

definition to_int32 :: "int \<Rightarrow> int" where
  "to_int32 i = sint (word_of_int i :: 32 word)"


section \<open>Library lifecycle: \<^verbatim>\<open>nativeInitLibrary\<close>, \<^verbatim>\<open>nativeDestroyLibrary\<close>\<close>

text \<open>
  \<^verbatim>\<open>static int libraryReferenceCount = 0;\<close> is a 32-bit counter. The field
  \<open>pdfium_alive\<close> is the state of the wrapped library itself (between its own
  initialisation and destruction); \<open>lifecycle_calls\<close> lists the calls made into it.
\<close>

datatype lifecycle_call = FPDF_InitLibraryWithConfig | FPDF_DestroyLibrary

record lib_world =
  libraryReferenceCount :: "32 word"
  pdfium_alive :: bool
  lifecycle_calls :: "lifecycle_call list"

definition initial_lib_world :: lib_world where
  "initial_lib_world =
     \<lparr>libraryReferenceCount = 0, pdfium_alive = False, lifecycle_calls = []\<rparr>"

definition nativeInitLibrary :: "lib_world \<Rightarrow> lib_world" where
  "nativeInitLibrary s =
     (let s1 = (if libraryReferenceCount s = 0
                then s\<lparr>pdfium_alive := True,
                       lifecycle_calls := lifecycle_calls s @ [FPDF_InitLibraryWithConfig]\<rparr>
                else s)
      in s1\<lparr>libraryReferenceCount := libraryReferenceCount s1 + 1\<rparr>)"

definition nativeDestroyLibrary :: "lib_world \<Rightarrow> lib_world" where
  "nativeDestroyLibrary s =
     (let s1 = s\<lparr>libraryReferenceCount := libraryReferenceCount s - 1\<rparr>
      in if libraryReferenceCount s1 = 0
         then s1\<lparr>pdfium_alive := False,
                 lifecycle_calls := lifecycle_calls s1 @ [FPDF_DestroyLibrary]\<rparr>
         else s1)"


section \<open>Page size by index: \<^verbatim>\<open>nativeGetPageSizeByIndex\<close>\<close>

text \<open>
  The library call writes the size through two pointers and returns a success flag. Its
  answer is the parameter \<open>FPDF_GetPageSizeByIndex\<close>: given the handle, the index and the
  initial contents of the two variables (both 0.0), it yields the flag and the contents
  of the two variables afterwards. The result array of two doubles is a list; a null
  result is \<open>None\<close>. No arithmetic is done on the doubles, so they are read as reals.
\<close>

definition nativeGetPageSizeByIndex ::
  "(jlong \<Rightarrow> jint \<Rightarrow> real \<times> real \<Rightarrow> int \<times> real \<times> real) \<Rightarrow> jlong \<Rightarrow> jint \<Rightarrow> real list option" where
  "nativeGetPageSizeByIndex FPDF_GetPageSizeByIndex docPtr pageIndex =
     (if docPtr = 0 then None
      else
        let (success, w, h) = FPDF_GetPageSizeByIndex docPtr pageIndex (0, 0);
            (w', h') = (if success = 0 then (595, 842) else (w, h))
        in Some [w', h'])"


section \<open>Null handles: a sample of the exported operations\<close>

text \<open>
  The calls into the library that the sampled operations make; the first argument of
  each is the handle the call hands to the library as its subject.
\<close>

datatype pdfium_call =
    FPDF_GetPageCount jlong
  | FPDFPageObj_GetType jlong
  | FPDFPageObj_SetFillColor jlong jint jint jint jint
  | FPDFPath_MoveTo jlong real real
  | FPDFPath_LineTo jlong real real
  | FPDFPath_BezierTo jlong real real real real real real
  | FPDFPath_Close jlong
  | FPDFPath_SetDrawMode jlong jint jint
  | FPDFPageObj_SetStrokeWidth jlong real

text \<open>
  Each operation takes \<open>pdfium\<close>, the value the library returns for a call, and yields
  its own result with the calls it made. \<^verbatim>\<open>JNI_TRUE\<close> and \<^verbatim>\<open>JNI_FALSE\<close> are the
  booleans; a \<^verbatim>\<open>void\<close> operation yields only its calls.
\<close>

definition nativeGetPageCount :: "(pdfium_call \<Rightarrow> jint) \<Rightarrow> jlong \<Rightarrow> jint \<times> pdfium_call list" where
  "nativeGetPageCount pdfium docPtr =
     (if docPtr = 0 then (0, [])
      else (pdfium (FPDF_GetPageCount docPtr), [FPDF_GetPageCount docPtr]))"

definition nativeGetPageObjectType :: "(pdfium_call \<Rightarrow> jint) \<Rightarrow> jlong \<Rightarrow> jint \<times> pdfium_call list" where
  "nativeGetPageObjectType pdfium pageObjPtr =
     (if pageObjPtr = 0 then (- 1, [])
      else (pdfium (FPDFPageObj_GetType pageObjPtr), [FPDFPageObj_GetType pageObjPtr]))"

definition nativeSetObjectFillColor ::
  "jlong \<Rightarrow> jint \<Rightarrow> jint \<Rightarrow> jint \<Rightarrow> jint \<Rightarrow> pdfium_call list" where
  "nativeSetObjectFillColor pageObjPtr r g b a =
     (if pageObjPtr \<noteq> 0 then [FPDFPageObj_SetFillColor pageObjPtr r g b a] else [])"

definition nativePathMoveTo ::
  "(pdfium_call \<Rightarrow> jint) \<Rightarrow> jlong \<Rightarrow> real \<Rightarrow> real \<Rightarrow> bool \<times> pdfium_call list" where
  "nativePathMoveTo pdfium pathObjPtr x y =
     (pdfium (FPDFPath_MoveTo pathObjPtr x y) \<noteq> 0, [FPDFPath_MoveTo pathObjPtr x y])"

definition nativePathLineTo ::
  "(pdfium_call \<Rightarrow> jint) \<Rightarrow> jlong \<Rightarrow> real \<Rightarrow> real \<Rightarrow> bool \<times> pdfium_call list" where
  "nativePathLineTo pdfium pathObjPtr x y =
     (pdfium (FPDFPath_LineTo pathObjPtr x y) \<noteq> 0, [FPDFPath_LineTo pathObjPtr x y])"

definition nativePathBezierTo ::
  "(pdfium_call \<Rightarrow> jint) \<Rightarrow> jlong \<Rightarrow> real \<Rightarrow> real \<Rightarrow> real \<Rightarrow> real \<Rightarrow> real \<Rightarrow> real
     \<Rightarrow> bool \<times> pdfium_call list" where
  "nativePathBezierTo pdfium pathObjPtr x1 y1 x2 y2 x3 y3 =
     (pdfium (FPDFPath_BezierTo pathObjPtr x1 y1 x2 y2 x3 y3) \<noteq> 0,
      [FPDFPath_BezierTo pathObjPtr x1 y1 x2 y2 x3 y3])"

definition nativePathClose :: "(pdfium_call \<Rightarrow> jint) \<Rightarrow> jlong \<Rightarrow> bool \<times> pdfium_call list" where
  "nativePathClose pdfium pathObjPtr =
     (pdfium (FPDFPath_Close pathObjPtr) \<noteq> 0, [FPDFPath_Close pathObjPtr])"

definition nativePathSetDrawMode ::
  "(pdfium_call \<Rightarrow> jint) \<Rightarrow> jlong \<Rightarrow> jint \<Rightarrow> bool \<Rightarrow> bool \<times> pdfium_call list" where
  "nativePathSetDrawMode pdfium pathObjPtr fillMode stroke =
     (let c = FPDFPath_SetDrawMode pathObjPtr fillMode (if stroke then 1 else 0)
      in (pdfium c \<noteq> 0, [c]))"

definition nativePathSetStrokeWidth ::
  "(pdfium_call \<Rightarrow> jint) \<Rightarrow> jlong \<Rightarrow> real \<Rightarrow> bool \<times> pdfium_call list" where
  "nativePathSetStrokeWidth pdfium pathObjPtr w =
     (pdfium (FPDFPageObj_SetStrokeWidth pathObjPtr w) \<noteq> 0,
      [FPDFPageObj_SetStrokeWidth pathObjPtr w])"


section \<open>Strings by size query and fill\<close>

text \<open>
  Twenty-two exported functions return a string that the wrapped library produces in two
  calls: a size query (null buffer, length 0) and a fill call into a buffer the function
  allocates. They come in four shapes, which this section follows in the order of the
  source file:

    \<^item> UTF-16 text, tested with \<^verbatim>\<open>size == 0\<close>: the buffer is
      \<^verbatim>\<open>new unsigned short[size]\<close> and the string is
      \<^verbatim>\<open>NewString(buffer, size / 2 - 1)\<close> (\<^verbatim>\<open>nativeGetMetaText\<close>,
      \<^verbatim>\<open>nativeGetPageLabel\<close>, \<^verbatim>\<open>nativeGetBookmarkTitle\<close>,
      \<^verbatim>\<open>nativeGetAttachmentName\<close>, \<^verbatim>\<open>nativeStructElementGetType\<close>,
      \<^verbatim>\<open>nativeStructElementGetAltText\<close>);
    \<^item> UTF-16 text, tested with \<^verbatim>\<open>bufSize <= 2\<close>: the buffer is
      \<^verbatim>\<open>new unsigned short[bufSize / 2]\<close> (the five form-field queries and the five
      annotation queries);
    \<^item> byte strings: the buffer is \<^verbatim>\<open>new char[size]\<close> and the string is
      \<^verbatim>\<open>NewStringUTF(buffer)\<close> (\<^verbatim>\<open>nativeGetLinkURI\<close>, the two signature queries,
      \<^verbatim>\<open>nativeGetActionFilePath\<close>, \<^verbatim>\<open>nativeGetXFAPacketName\<close>);
    \<^item> \<^verbatim>\<open>nativeGetWebLinkURL\<close>, whose library call counts UTF-16 units in an \<^verbatim>\<open>int\<close>.

  The only other export that returns a string, \<^verbatim>\<open>nativeGetText\<close>, makes a single call
  and uses the count that call returns; it is not part of this protocol.

  A buffer obtained with \<^verbatim>\<open>new T[n]\<close> holds indeterminate values until something is
  stored in it: a cell is \<open>None\<close> as long as it was never written. A string handed to the
  caller keeps its cells, so that a unit read from memory nobody wrote shows as \<open>None\<close>
  in the result. \<open>JString\<close> is a string made by \<^verbatim>\<open>NewString\<close> from 16-bit units,
  \<open>JStringUTF\<close> one made by \<^verbatim>\<open>NewStringUTF\<close> from the bytes it was given to decode,
  \<open>JNull\<close> the null reference and \<open>JniAbort\<close> the abort of the runtime.

  \<open>text_query\<close> is what the wrapped library does for one field of one handle:
  \<open>needed_bytes\<close> is the value of the size query, \<open>stored_units\<close> are the units the
  fill call has to store (terminator included) and \<open>fill_return\<close> is the value the fill
  call returns. The library never stores more than the buffer length it was given; a
  unit is \<open>w\<close> bytes wide (2 for UTF-16, 1 for bytes). \<open>url_query\<close> is the same for
  \<^verbatim>\<open>FPDFLink_GetURL\<close>, which counts units instead of bytes and returns \<^verbatim>\<open>int\<close>.
\<close>

datatype jstring =
    JNull
  | JString "jchar option list"
  | JStringUTF "jbyte option list"
  | JniAbort

record 'u text_query =
  needed_bytes :: nat
  stored_units :: "'u list"
  fill_return :: nat

record url_query =
  url_size :: jint
  url_units :: "jchar list"
  url_return :: jint

text \<open>
  The calls a query makes into the library: \<open>HandleLookup\<close> is the call that turns an
  index or a link into the handle the text is asked of (\<^verbatim>\<open>FPDFDoc_GetAttachment\<close>,
  \<^verbatim>\<open>FPDFLink_GetAction\<close>), \<open>Fill n\<close> the fill call with the buffer length it passes.
\<close>

datatype text_call = HandleLookup | SizeQuery | Fill nat

definition store_units :: "'u list \<Rightarrow> 'u option list \<Rightarrow> 'u option list" where
  "store_units w buffer = map Some w @ drop (length w) buffer"

definition units_stored :: "nat \<Rightarrow> 'u text_query \<Rightarrow> nat \<Rightarrow> 'u list" where
  "units_stored w q buflen = take (buflen div w) (stored_units q)"

definition written_bytes :: "nat \<Rightarrow> 'u text_query \<Rightarrow> nat \<Rightarrow> nat" where
  "written_bytes w q buflen = w * length (units_stored w q buflen)"

definition fill_buffer ::
  "nat \<Rightarrow> 'u text_query \<Rightarrow> nat \<Rightarrow> 'u option list \<Rightarrow> 'u option list" where
  "fill_buffer w q buflen buffer = store_units (units_stored w q buflen) buffer"

text \<open>
  \<^verbatim>\<open>NewString(chars, len)\<close> copies \<open>len\<close> units starting at \<open>chars\<close>; \<open>len\<close> is a
  \<^verbatim>\<open>jsize\<close> and the runtime aborts on a negative one. Units past the end of the buffer
  were never written either.

  \<^verbatim>\<open>NewStringUTF(bytes)\<close> reads bytes up to the first NUL. What it finds in a cell that
  was never written is not determined; the model lets the read go through such a cell,
  and past the end of the block when no written NUL stops it before, so that a string
  made this way shows a \<open>None\<close>. \<^verbatim>\<open>NewStringUTF("")\<close> is the empty string.
\<close>

definition NewString :: "jchar option list \<Rightarrow> int \<Rightarrow> jstring" where
  "NewString buffer len =
     (if len < 0 then JniAbort
      else JString (take (nat len) (buffer @ replicate (nat len) None)))"

definition NewStringUTF :: "jbyte option list \<Rightarrow> jstring" where
  "NewStringUTF buffer =
     JStringUTF (takeWhile (\<lambda>c. c \<noteq> Some 0) buffer @
                 (if Some 0 \<in> set buffer then [] else [None]))"

definition NewStringUTF_empty :: jstring where
  "NewStringUTF_empty = JStringUTF []"

text \<open>
  The sizes are \<^verbatim>\<open>unsigned long\<close>. The length expression \<^verbatim>\<open>size / 2 - 1\<close> is computed
  in that type and narrowed to the 32-bit \<^verbatim>\<open>jsize\<close> of \<^verbatim>\<open>NewString\<close>: the value
  that arrives is \<open>to_int32 (int (size div 2) - 1)\<close>, whether \<^verbatim>\<open>unsigned long\<close> has 32
  or 64 bits (for \<open>size < 2\<close> the subtraction wraps and \<open>-1\<close> arrives). The product
  \<^verbatim>\<open>size * sizeof(unsigned short)\<close> of \<^verbatim>\<open>nativeGetPageLabel\<close> does depend on that width,
  which the function takes as \<open>ulong_bits\<close>.
\<close>

definition nativeGetMetaText ::
  "(jlong \<Rightarrow> string \<Rightarrow> jchar text_query) \<Rightarrow> jlong \<Rightarrow> string \<Rightarrow> jstring \<times> text_call list" where
  "nativeGetMetaText FPDF_GetMetaText docPtr tag =
     (if docPtr = 0 then (JNull, [])
      else
        let q = FPDF_GetMetaText docPtr tag;
            sz = needed_bytes q
        in if sz = 0 then (NewStringUTF_empty, [SizeQuery])
           else
             let buffer = replicate sz None;
                 buffer' = fill_buffer 2 q sz buffer;
                 result = NewString buffer' (to_int32 (int (sz div 2) - 1))
             in (result, [SizeQuery, Fill sz]))"

definition nativeGetPageLabel ::
  "nat \<Rightarrow> (jlong \<Rightarrow> jint \<Rightarrow> jchar text_query) \<Rightarrow> jlong \<Rightarrow> jint \<Rightarrow>
     jstring \<times> text_call list" where
  "nativeGetPageLabel ulong_bits FPDF_GetPageLabel docPtr pageIndex =
     (if docPtr = 0 then (NewStringUTF_empty, [])
      else
        let q = FPDF_GetPageLabel docPtr pageIndex;
            sz = needed_bytes q
        in if sz = 0 then (NewStringUTF_empty, [SizeQuery])
           else
             let buffer = replicate sz None;
                 buflen = (sz * 2) mod 2 ^ ulong_bits;
                 buffer' = fill_buffer 2 q buflen buffer;
                 result = NewString buffer' (to_int32 (int (sz div 2) - 1))
             in (if result = JNull then NewStringUTF_empty else result,
                 [SizeQuery, Fill buflen]))"

definition nativeGetBookmarkTitle ::
  "(jlong \<Rightarrow> jchar text_query) \<Rightarrow> jlong \<Rightarrow> jstring \<times> text_call list" where
  "nativeGetBookmarkTitle FPDFBookmark_GetTitle bookmarkPtr =
     (if bookmarkPtr = 0 then (JNull, [])
      else
        let q = FPDFBookmark_GetTitle bookmarkPtr;
            sz = needed_bytes q
        in if sz = 0 then (NewStringUTF_empty, [SizeQuery])
           else
             let buffer = replicate sz None;
                 buffer' = fill_buffer 2 q sz buffer;
                 result = NewString buffer' (to_int32 (int (sz div 2) - 1))
             in (result, [SizeQuery, Fill sz]))"

text \<open>
  \<^verbatim>\<open>nativeGetLinkURI\<close> is the one query that answers a size of 0 with the null
  reference.
\<close>

definition nativeGetLinkURI ::
  "(jlong \<Rightarrow> jlong) \<Rightarrow> (jlong \<Rightarrow> jlong \<Rightarrow> jbyte text_query) \<Rightarrow> jlong \<Rightarrow> jlong \<Rightarrow>
     jstring \<times> text_call list" where
  "nativeGetLinkURI FPDFLink_GetAction FPDFAction_GetURIPath docPtr linkPtr =
     (if docPtr = 0 \<or> linkPtr = 0 then (JNull, [])
      else
        let action = FPDFLink_GetAction linkPtr
        in if action = 0 then (JNull, [HandleLookup])
           else
             let q = FPDFAction_GetURIPath docPtr action;
                 sz = needed_bytes q
             in if sz = 0 then (JNull, [HandleLookup, SizeQuery])
                else
                  let buffer = replicate sz None;
                      buffer' = fill_buffer 1 q sz buffer;
                      result = NewStringUTF buffer'
                  in (result, [HandleLookup, SizeQuery, Fill sz]))"

text \<open>
  The form handle of the form-field queries is passed on as it came
  (\<^verbatim>\<open>formPtr ? (FPDF_FORMHANDLE)formPtr : nullptr\<close>); only the annotation is tested.
\<close>

definition nativeGetFormFieldName ::
  "(jlong \<Rightarrow> jlong \<Rightarrow> jchar text_query) \<Rightarrow> jlong \<Rightarrow> jlong \<Rightarrow> jstring \<times> text_call list" where
  "nativeGetFormFieldName FPDFAnnot_GetFormFieldName formPtr annotPtr =
     (if annotPtr = 0 then (JNull, [])
      else
        let q = FPDFAnnot_GetFormFieldName formPtr annotPtr;
            bufSize = needed_bytes q
        in if bufSize \<le> 2 then (NewStringUTF_empty, [SizeQuery])
           else
             let buffer = replicate (bufSize div 2) None;
                 buffer' = fill_buffer 2 q bufSize buffer;
                 result = NewString buffer' (to_int32 (int (bufSize div 2) - 1))
             in (result, [SizeQuery, Fill bufSize]))"

definition nativeGetFormFieldValue ::
  "(jlong \<Rightarrow> jlong \<Rightarrow> jchar text_query) \<Rightarrow> jlong \<Rightarrow> jlong \<Rightarrow> jstring \<times> text_call list" where
  "nativeGetFormFieldValue FPDFAnnot_GetFormFieldValue formPtr annotPtr =
     (if annotPtr = 0 then (JNull, [])
      else
        let q = FPDFAnnot_GetFormFieldValue formPtr annotPtr;
            bufSize = needed_bytes q
        in if bufSize \<le> 2 then (NewStringUTF_empty, [SizeQuery])
           else
             let buffer = replicate (bufSize div 2) None;
                 buffer' = fill_buffer 2 q bufSize buffer;
                 result = NewString buffer' (to_int32 (int (bufSize div 2) - 1))
             in (result, [SizeQuery, Fill bufSize]))"

definition nativeGetFormFieldOptionLabel ::
  "(jlong \<Rightarrow> jlong \<Rightarrow> jint \<Rightarrow> jchar text_query) \<Rightarrow> jlong \<Rightarrow> jlong \<Rightarrow> jint \<Rightarrow> jstring \<times> text_call list" where
  "nativeGetFormFieldOptionLabel FPDFAnnot_GetOptionLabel formPtr annotPtr index =
     (if annotPtr = 0 then (JNull, [])
      else
        let q = FPDFAnnot_GetOptionLabel formPtr annotPtr index;
            bufSize = needed_bytes q
        in if bufSize \<le> 2 then (NewStringUTF_empty, [SizeQuery])
           else
             let buffer = replicate (bufSize div 2) None;
                 buffer' = fill_buffer 2 q bufSize buffer;
                 result = NewString buffer' (to_int32 (int (bufSize div 2) - 1))
             in (result, [SizeQuery, Fill bufSize]))"

definition nativeGetAttachmentName ::
  "(jlong \<Rightarrow> jint \<Rightarrow> jlong) \<Rightarrow> (jlong \<Rightarrow> jchar text_query) \<Rightarrow> jlong \<Rightarrow> jint \<Rightarrow>
     jstring \<times> text_call list" where
  "nativeGetAttachmentName FPDFDoc_GetAttachment FPDFAttachment_GetName docPtr index =
     (if docPtr = 0 then (JNull, [])
      else
        let attachment = FPDFDoc_GetAttachment docPtr index
        in if attachment = 0 then (JNull, [HandleLookup])
           else
             let q = FPDFAttachment_GetName attachment;
                 sz = needed_bytes q
             in if sz = 0 then (NewStringUTF_empty, [HandleLookup, SizeQuery])
                else
                  let buffer = replicate sz None;
                      buffer' = fill_buffer 2 q sz buffer;
                      result = NewString buffer' (to_int32 (int (sz div 2) - 1))
                  in (result, [HandleLookup, SizeQuery, Fill sz]))"

definition nativeStructElementGetType ::
  "(jlong \<Rightarrow> jchar text_query) \<Rightarrow> jlong \<Rightarrow> jstring \<times> text_call list" where
  "nativeStructElementGetType FPDF_StructElement_GetType structElemPtr =
     (if structElemPtr = 0 then (JNull, [])
      else
        let q = FPDF_StructElement_GetType structElemPtr;
            sz = needed_bytes q
        in if sz = 0 then (NewStringUTF_empty, [SizeQuery])
           else
             let buffer = replicate sz None;
                 buffer' = fill_buffer 2 q sz buffer;
                 result = NewString buffer' (to_int32 (int (sz div 2) - 1))
             in (result, [SizeQuery, Fill sz]))"

definition nativeStructElementGetAltText ::
  "(jlong \<Rightarrow> jchar text_query) \<Rightarrow> jlong \<Rightarrow> jstring \<times> text_call list" where
  "nativeStructElementGetAltText FPDF_StructElement_GetAltText structElemPtr =
     (if structElemPtr = 0 then (JNull, [])
      else
        let q = FPDF_StructElement_GetAltText structElemPtr;
            sz = needed_bytes q
        in if sz = 0 then (NewStringUTF_empty, [SizeQuery])
           else
             let buffer = replicate sz None;
                 buffer' = fill_buffer 2 q sz buffer;
                 result = NewString buffer' (to_int32 (int (sz div 2) - 1))
             in (result, [SizeQuery, Fill sz]))"

definition nativeGetSignatureReason ::
  "(jlong \<Rightarrow> jbyte text_query) \<Rightarrow> jlong \<Rightarrow> jstring \<times> text_call list" where
  "nativeGetSignatureReason FPDFSignatureObj_GetReason sigObjPtr =
     (if sigObjPtr = 0 then (JNull, [])
      else
        let q = FPDFSignatureObj_GetReason sigObjPtr;
            sz = needed_bytes q
        in if sz = 0 then (NewStringUTF_empty, [SizeQuery])
           else
             let buffer = replicate sz None;
                 buffer' = fill_buffer 1 q sz buffer;
                 result = NewStringUTF buffer'
             in (result, [SizeQuery, Fill sz]))"

definition nativeGetSignatureTime ::
  "(jlong \<Rightarrow> jbyte text_query) \<Rightarrow> jlong \<Rightarrow> jstring \<times> text_call list" where
  "nativeGetSignatureTime FPDFSignatureObj_GetTime sigObjPtr =
     (if sigObjPtr = 0 then (JNull, [])
      else
        let q = FPDFSignatureObj_GetTime sigObjPtr;
            sz = needed_bytes q
        in if sz = 0 then (NewStringUTF_empty, [SizeQuery])
           else
             let buffer = replicate sz None;
                 buffer' = fill_buffer 1 q sz buffer;
                 result = NewStringUTF buffer'
             in (result, [SizeQuery, Fill sz]))"

text \<open>
  \<^verbatim>\<open>FPDFLink_GetURL\<close> returns the number of units as an \<^verbatim>\<open>int\<close>, and the same number
  is the buffer length of the fill call; \<^verbatim>\<open>size - 1\<close> cannot overflow for \<open>size > 0\<close>.
\<close>

definition nativeGetWebLinkURL ::
  "(jlong \<Rightarrow> jint \<Rightarrow> url_query) \<Rightarrow> jlong \<Rightarrow> jint \<Rightarrow> jstring \<times> text_call list" where
  "nativeGetWebLinkURL FPDFLink_GetURL pageLinksPtr index =
     (if pageLinksPtr = 0 then (JNull, [])
      else
        let q = FPDFLink_GetURL pageLinksPtr index;
            sz = sint (url_size q)
        in if sz \<le> 0 then (NewStringUTF_empty, [SizeQuery])
           else
             let buffer = replicate (nat sz) None;
                 buffer' = store_units (take (nat sz) (url_units q)) buffer;
                 result = NewString buffer' (sz - 1)
             in (result, [SizeQuery, Fill (nat sz)]))"

text \<open>The five annotation queries differ in the key they pass.\<close>

definition nativeGetAnnotContents ::
  "(jlong \<Rightarrow> string \<Rightarrow> jchar text_query) \<Rightarrow> jlong \<Rightarrow> jstring \<times> text_call list" where
  "nativeGetAnnotContents FPDFAnnot_GetStringValue annotPtr =
     (if annotPtr = 0 then (JNull, [])
      else
        let q = FPDFAnnot_GetStringValue annotPtr ''Contents'';
            bufSize = needed_bytes q
        in if bufSize \<le> 2 then (NewStringUTF_empty, [SizeQuery])
           else
             let buffer = replicate (bufSize div 2) None;
                 buffer' = fill_buffer 2 q bufSize buffer;
                 result = NewString buffer' (to_int32 (int (bufSize div 2) - 1))
             in (result, [SizeQuery, Fill bufSize]))"

definition nativeGetAnnotAuthor ::
  "(jlong \<Rightarrow> string \<Rightarrow> jchar text_query) \<Rightarrow> jlong \<Rightarrow> jstring \<times> text_call list" where
  "nativeGetAnnotAuthor FPDFAnnot_GetStringValue annotPtr =
     (if annotPtr = 0 then (JNull, [])
      else
        let q = FPDFAnnot_GetStringValue annotPtr ''T'';
            bufSize = needed_bytes q
        in if bufSize \<le> 2 then (NewStringUTF_empty, [SizeQuery])
           else
             let buffer = replicate (bufSize div 2) None;
                 buffer' = fill_buffer 2 q bufSize buffer;
                 result = NewString buffer' (to_int32 (int (bufSize div 2) - 1))
             in (result, [SizeQuery, Fill bufSize]))"

definition nativeGetAnnotSubject ::
  "(jlong \<Rightarrow> string \<Rightarrow> jchar text_query) \<Rightarrow> jlong \<Rightarrow> jstring \<times> text_call list" where
  "nativeGetAnnotSubject FPDFAnnot_GetStringValue annotPtr =
     (if annotPtr = 0 then (JNull, [])
      else
        let q = FPDFAnnot_GetStringValue annotPtr ''Subj'';
            bufSize = needed_bytes q
        in if bufSize \<le> 2 then (NewStringUTF_empty, [SizeQuery])
           else
             let buffer = replicate (bufSize div 2) None;
                 buffer' = fill_buffer 2 q bufSize buffer;
                 result = NewString buffer' (to_int32 (int (bufSize div 2) - 1))
             in (result, [SizeQuery, Fill bufSize]))"

definition nativeGetAnnotModificationDate ::
  "(jlong \<Rightarrow> string \<Rightarrow> jchar text_query) \<Rightarrow> jlong \<Rightarrow> jstring \<times> text_call list" where
  "nativeGetAnnotModificationDate FPDFAnnot_GetStringValue annotPtr =
     (if annotPtr = 0 then (JNull, [])
      else
        let q = FPDFAnnot_GetStringValue annotPtr ''M'';
            bufSize = needed_bytes q
        in if bufSize \<le> 2 then (NewStringUTF_empty, [SizeQuery])
           else
             let buffer = replicate (bufSize div 2) None;
                 buffer' = fill_buffer 2 q bufSize buffer;
                 result = NewString buffer' (to_int32 (int (bufSize div 2) - 1))
             in (result, [SizeQuery, Fill bufSize]))"

definition nativeGetAnnotCreationDate ::
  "(jlong \<Rightarrow> string \<Rightarrow> jchar text_query) \<Rightarrow> jlong \<Rightarrow> jstring \<times> text_call list" where
  "nativeGetAnnotCreationDate FPDFAnnot_GetStringValue annotPtr =
     (if annotPtr = 0 then (JNull, [])
      else
        let q = FPDFAnnot_GetStringValue annotPtr ''CreationDate'';
            bufSize = needed_bytes q
        in if bufSize \<le> 2 then (NewStringUTF_empty, [SizeQuery])
           else
             let buffer = replicate (bufSize div 2) None;
                 buffer' = fill_buffer 2 q bufSize buffer;
                 result = NewString buffer' (to_int32 (int (bufSize div 2) - 1))
             in (result, [SizeQuery, Fill bufSize]))"

text \<open>
  \<^verbatim>\<open>nativeGetFormFieldOptionValue\<close> asks for the option label, and
  \<^verbatim>\<open>nativeGetFormFieldDefaultValue\<close> for the current value, as the source does.
\<close>

definition nativeGetFormFieldOptionValue ::
  "(jlong \<Rightarrow> jlong \<Rightarrow> jint \<Rightarrow> jchar text_query) \<Rightarrow> jlong \<Rightarrow> jlong \<Rightarrow> jint \<Rightarrow> jstring \<times> text_call list" where
  "nativeGetFormFieldOptionValue FPDFAnnot_GetOptionLabel formPtr annotPtr index =
     (if annotPtr = 0 then (JNull, [])
      else
        let q = FPDFAnnot_GetOptionLabel formPtr annotPtr index;
            bufSize = needed_bytes q
        in if bufSize \<le> 2 then (NewStringUTF_empty, [SizeQuery])
           else
             let buffer = replicate (bufSize div 2) None;
                 buffer' = fill_buffer 2 q bufSize buffer;
                 result = NewString buffer' (to_int32 (int (bufSize div 2) - 1))
             in (result, [SizeQuery, Fill bufSize]))"

definition nativeGetActionFilePath ::
  "(jlong \<Rightarrow> jbyte text_query) \<Rightarrow> jlong \<Rightarrow> jstring \<times> text_call list" where
  "nativeGetActionFilePath FPDFAction_GetFilePath actionPtr =
     (if actionPtr = 0 then (JNull, [])
      else
        let q = FPDFAction_GetFilePath actionPtr;
            sz = needed_bytes q
        in if sz = 0 then (NewStringUTF_empty, [SizeQuery])
           else
             let buffer = replicate sz None;
                 buffer' = fill_buffer 1 q sz buffer;
                 result = NewStringUTF buffer'
             in (result, [SizeQuery, Fill sz]))"

definition nativeGetFormFieldDefaultValue ::
  "(jlong \<Rightarrow> jlong \<Rightarrow> jchar text_query) \<Rightarrow> jlong \<Rightarrow> jlong \<Rightarrow> jstring \<times> text_call list" where
  "nativeGetFormFieldDefaultValue FPDFAnnot_GetFormFieldValue formPtr annotPtr =
     (if formPtr = 0 \<or> annotPtr = 0 then (JNull, [])
      else
        let q = FPDFAnnot_GetFormFieldValue formPtr annotPtr;
            bufSize = needed_bytes q
        in if bufSize \<le> 2 then (NewStringUTF_empty, [SizeQuery])
           else
             let buffer = replicate (bufSize div 2) None;
                 buffer' = fill_buffer 2 q bufSize buffer;
                 result = NewString buffer' (to_int32 (int (bufSize div 2) - 1))
             in (result, [SizeQuery, Fill bufSize]))"

definition nativeGetXFAPacketName ::
  "(jlong \<Rightarrow> jint \<Rightarrow> jbyte text_query) \<Rightarrow> jlong \<Rightarrow> jint \<Rightarrow> jstring \<times> text_call list" where
  "nativeGetXFAPacketName FPDF_GetXFAPacketName docPtr index =
     (if docPtr = 0 then (JNull, [])
      else
        let q = FPDF_GetXFAPacketName docPtr index;
            sz = needed_bytes q
        in if sz = 0 then (NewStringUTF_empty, [SizeQuery])
           else
             let buffer = replicate sz None;
                 buffer' = fill_buffer 1 q sz buffer;
                 result = NewStringUTF buffer'
             in (result, [SizeQuery, Fill sz]))"

text \<open>
  What a returned string shows about the memory it was read from: the number of units
  read, and whether every unit read had been written.
\<close>

fun units_read :: "jstring \<Rightarrow> nat" where
  "units_read (JString cs) = length cs"
| "units_read (JStringUTF cs) = length cs"
| "units_read JNull = 0"
| "units_read JniAbort = 0"

fun reads_only_written :: "jstring \<Rightarrow> bool" where
  "reads_only_written (JString cs) = (None \<notin> set cs)"
| "reads_only_written (JStringUTF cs) = (None \<notin> set cs)"
| "reads_only_written JNull = True"
| "reads_only_written JniAbort = True"

text \<open>
  The protocol, as far as it holds. An outcome is the pair of the string returned and
  the calls made. For a UTF-16 query with the test \<^verbatim>\<open>size <= threshold\<close>, the buffer length
  \<open>buflen size\<close> and the calls \<open>before\<close> ahead of the size query: a size up to the
  threshold gives the empty string and no fill call; a larger one gives exactly one fill
  call; and when that call writes exactly the bytes announced, and \<^verbatim>\<open>size / 2 - 1\<close>
  fits a \<^verbatim>\<open>jsize\<close>, the string has \<open>writtenBytes / 2 - 1\<close> units, all of them written.
\<close>

definition wide_protocol ::
  "nat \<Rightarrow> (nat \<Rightarrow> nat) \<Rightarrow> text_call list \<Rightarrow> jchar text_query \<Rightarrow> jstring \<times> text_call list \<Rightarrow> bool"
  where
  "wide_protocol threshold buflen before q outcome =
     (let n = needed_bytes q;
          written = written_bytes 2 q (buflen n)
      in (n \<le> threshold \<longrightarrow> outcome = (NewStringUTF_empty, before @ [SizeQuery]))
       \<and> (threshold < n \<longrightarrow> snd outcome = before @ [SizeQuery, Fill (buflen n)])
       \<and> (threshold < n \<and> written = n \<and> n div 2 - 1 < 2 ^ 31 \<longrightarrow>
            units_read (fst outcome) = written div 2 - 1 \<and> reads_only_written (fst outcome)))"

text \<open>
  For a byte-string query that answers a size of 0 with \<open>absent\<close>: the string has
  \<open>writtenBytes - 1\<close> units, all of them written, when the fill call writes exactly the
  bytes announced and the only NUL among them is the last.
\<close>

definition byte_protocol ::
  "jstring \<Rightarrow> text_call list \<Rightarrow> jbyte text_query \<Rightarrow> jstring \<times> text_call list \<Rightarrow> bool" where
  "byte_protocol absent before q outcome =
     (let n = needed_bytes q;
          written = written_bytes 1 q n
      in (n = 0 \<longrightarrow> outcome = (absent, before @ [SizeQuery]))
       \<and> (0 < n \<longrightarrow> snd outcome = before @ [SizeQuery, Fill n])
       \<and> (0 < n \<and> written = n \<and> last (units_stored 1 q n) = 0 \<and>
          0 \<notin> set (butlast (units_stored 1 q n)) \<longrightarrow>
            units_read (fst outcome) = written div 1 - 1 \<and> reads_only_written (fst outcome)))"

text \<open>For \<^verbatim>\<open>nativeGetWebLinkURL\<close>, with two bytes to the unit.\<close>

definition url_protocol :: "url_query \<Rightarrow> jstring \<times> text_call list \<Rightarrow> bool" where
  "url_protocol q outcome =
     (let n = sint (url_size q);
          written = 2 * length (take (nat n) (url_units q))
      in (n \<le> 0 \<longrightarrow> outcome = (NewStringUTF_empty, [SizeQuery]))
       \<and> (0 < n \<longrightarrow> snd outcome = [SizeQuery, Fill (nat n)])
       \<and> (0 < n \<and> written = 2 * nat n \<longrightarrow>
            units_read (fst outcome) = written div 2 - 1 \<and> reads_only_written (fst outcome)))"

text \<open>A library whose fill call stores two units (4 bytes) after announcing 10 bytes.\<close>

definition short_fill :: "jchar text_query" where
  "short_fill = \<lparr>needed_bytes = 10, stored_units = [0x61, 0], fill_return = 4\<rparr>"

text \<open>A field the library does not have: the size query answers 0.\<close>

definition absent_field :: "'u text_query" where
  "absent_field = \<lparr>needed_bytes = 0, stored_units = [], fill_return = 0\<rparr>"

text \<open>A library that announces and stores the three units of "Hi" and its terminator.\<close>

definition exact_fill :: "jchar text_query" where
  "exact_fill = \<lparr>needed_bytes = 6, stored_units = [0x48, 0x69, 0], fill_return = 6\<rparr>"

text \<open>The same text as three bytes, and as three units counted by \<^verbatim>\<open>FPDFLink_GetURL\<close>.\<close>

definition exact_bytes :: "jbyte text_query" where
  "exact_bytes = \<lparr>needed_bytes = 3, stored_units = [0x48, 0x69, 0], fill_return = 3\<rparr>"

definition exact_url :: url_query where
  "exact_url = \<lparr>url_size = 3, url_units = [0x48, 0x69, 0], url_return = 3\<rparr>"

text \<open>
  A library that announces and stores six bytes with NUL bytes before the last: the same
  text in UTF-16, terminator included.
\<close>

definition utf16_bytes :: "jbyte text_query" where
  "utf16_bytes =
     \<lparr>needed_bytes = 6, stored_units = [0x48, 0, 0x69, 0, 0, 0], fill_return = 6\<rparr>"

text \<open>
  A library that announces \<open>2 ^ 32 + 2\<close> bytes and stores as many: \<open>2 ^ 31\<close> units and the
  terminator.
\<close>

definition oversize_fill :: "jchar text_query" where
  "oversize_fill =
     \<lparr>needed_bytes = 2 ^ 32 + 2, stored_units = replicate (2 ^ 31) 0x61 @ [0],
      fill_return = 2 ^ 32 + 2\<rparr>"


section \<open>Rendering into a surface: \<^verbatim>\<open>nativeRenderPageBitmap\<close>\<close>

text \<open>
  The constants come from the headers of the platform and of the wrapped library
  (\<^verbatim>\<open>android/bitmap.h\<close>, \<^verbatim>\<open>fpdfview.h\<close>, \<^verbatim>\<open>fpdf_progressive.h\<close>), which the file
  includes.
\<close>

definition ANDROID_BITMAP_RESULT_SUCCESS :: int where
  "ANDROID_BITMAP_RESULT_SUCCESS = 0"

definition ANDROID_BITMAP_FORMAT_RGBA_8888 :: "32 word" where
  "ANDROID_BITMAP_FORMAT_RGBA_8888 = 1"

definition ANDROID_BITMAP_FORMAT_RGB_565 :: "32 word" where
  "ANDROID_BITMAP_FORMAT_RGB_565 = 4"

definition FPDFBitmap_BGRA :: "32 word" where
  "FPDFBitmap_BGRA = 4"

definition FPDF_ANNOT :: "32 word" where
  "FPDF_ANNOT = 0x01"

definition FPDF_REVERSE_BYTE_ORDER :: "32 word" where
  "FPDF_REVERSE_BYTE_ORDER = 0x10"

definition opaque_white :: "32 word" where
  "opaque_white = 0xFFFFFFFF"

definition FPDF_RENDER_READY :: jint where
  "FPDF_RENDER_READY = 0"

definition FPDF_RENDER_TOBECONTINUED :: jint where
  "FPDF_RENDER_TOBECONTINUED = 1"

definition FPDF_RENDER_DONE :: jint where
  "FPDF_RENDER_DONE = 2"

definition FPDF_RENDER_FAILED :: jint where
  "FPDF_RENDER_FAILED = 3"

text \<open>
  A surface is the bitmap object as the platform calls present it: the return code and
  the description \<^verbatim>\<open>AndroidBitmap_getInfo\<close> gives, the return code of
  \<^verbatim>\<open>AndroidBitmap_lockPixels\<close>, and the pixel memory. A null object is \<open>None\<close>.
\<close>

record AndroidBitmapInfo =
  width :: "32 word"
  height :: "32 word"
  stride :: "32 word"
  format :: "32 word"

record jbitmap =
  getInfo_result :: int
  info :: AndroidBitmapInfo
  lockPixels_result :: int
  pixels :: "32 word list"

text \<open>
  A pause interface (\<^verbatim>\<open>IFSDK_PAUSE\<close>) answers the question "pause now?"; the
  argument counts the questions asked so far. \<open>None\<close> is the null pointer.
\<close>

type_synonym pause_probe = "nat \<Rightarrow> bool"

datatype render_call =
    AndroidBitmap_getInfo
  | AndroidBitmap_lockPixels
  | AndroidBitmap_unlockPixels
  | FPDFBitmap_CreateEx "32 word" "32 word" "32 word" "32 word"
  | FPDFBitmap_FillRect jlong "32 word" "32 word" "32 word" "32 word" "32 word"
  | FPDF_RenderPageBitmap jlong jlong jint jint jint jint jint "32 word"
  | FPDF_RenderPageBitmap_Start jlong jlong jint jint jint jint jint jint "pause_probe option"
  | FPDF_RenderPage_Continue jlong "pause_probe option"
  | FPDFBitmap_Destroy jlong

text \<open>
  The library's side of rendering: the handle \<^verbatim>\<open>FPDFBitmap_CreateEx\<close> returns for a
  width, height, format and stride (0 on failure), and what \<^verbatim>\<open>FPDFBitmap_FillRect\<close>
  and \<^verbatim>\<open>FPDF_RenderPageBitmap\<close> do to the pixel memory they are given.
\<close>

record pdfium_raster =
  create_bitmap :: "32 word \<Rightarrow> 32 word \<Rightarrow> 32 word \<Rightarrow> 32 word \<Rightarrow> jlong"
  fill_rect :: "32 word list \<Rightarrow> 32 word \<Rightarrow> 32 word \<Rightarrow> 32 word \<Rightarrow> 32 word \<Rightarrow> 32 word \<Rightarrow> 32 word list"
  render_page :: "32 word list \<Rightarrow> jlong \<Rightarrow> jint \<Rightarrow> jint \<Rightarrow> jint \<Rightarrow> jint \<Rightarrow> jint \<Rightarrow> 32 word \<Rightarrow> 32 word list"

definition nativeRenderPageBitmap ::
  "pdfium_raster \<Rightarrow> jlong \<Rightarrow> jbitmap option \<Rightarrow> jint \<Rightarrow> jint \<Rightarrow> jint \<Rightarrow> jint \<Rightarrow> bool
     \<Rightarrow> jbitmap option \<times> render_call list" where
  "nativeRenderPageBitmap pdfium pagePtr bitmap startX startY drawWidth drawHeight renderAnnot =
     (case bitmap of
        None \<Rightarrow> (bitmap, [])
      | Some bmp \<Rightarrow>
          if pagePtr = 0 then (bitmap, [])
          else if getInfo_result bmp \<noteq> ANDROID_BITMAP_RESULT_SUCCESS
            then (bitmap, [AndroidBitmap_getInfo])
          else if width (info bmp) = 0 \<or> height (info bmp) = 0
            then (bitmap, [AndroidBitmap_getInfo])
          else if format (info bmp) \<noteq> ANDROID_BITMAP_FORMAT_RGBA_8888
            then (bitmap, [AndroidBitmap_getInfo])
          else if lockPixels_result bmp \<noteq> ANDROID_BITMAP_RESULT_SUCCESS
            then (bitmap, [AndroidBitmap_getInfo, AndroidBitmap_lockPixels])
          else
            let w = width (info bmp);
                h = height (info bmp);
                created = FPDFBitmap_CreateEx w h FPDFBitmap_BGRA (stride (info bmp));
                fpdfBitmap = create_bitmap pdfium w h FPDFBitmap_BGRA (stride (info bmp))
            in if fpdfBitmap = 0
               then (bitmap, [AndroidBitmap_getInfo, AndroidBitmap_lockPixels, created,
                              AndroidBitmap_unlockPixels])
               else
                 let filled = fill_rect pdfium (pixels bmp) 0 0 w h opaque_white;
                     flags = (if renderAnnot then FPDF_REVERSE_BYTE_ORDER OR FPDF_ANNOT
                              else FPDF_REVERSE_BYTE_ORDER);
                     rendered = render_page pdfium filled pagePtr startX startY
                                  drawWidth drawHeight 0 flags
                 in (Some (bmp\<lparr>pixels := rendered\<rparr>),
                     [AndroidBitmap_getInfo, AndroidBitmap_lockPixels, created,
                      FPDFBitmap_FillRect fpdfBitmap 0 0 w h opaque_white,
                      FPDF_RenderPageBitmap fpdfBitmap pagePtr startX startY
                        drawWidth drawHeight 0 flags,
                      FPDFBitmap_Destroy fpdfBitmap, AndroidBitmap_unlockPixels]))"

text \<open>Sample surfaces: a 2 by 2 surface in the accepted format, and one in RGB 565.\<close>

definition rgba_surface :: jbitmap where
  "rgba_surface =
     \<lparr>getInfo_result = 0,
      info = \<lparr>width = 2, height = 2, stride = 8, format = ANDROID_BITMAP_FORMAT_RGBA_8888\<rparr>,
      lockPixels_result = 0, pixels = [1, 2, 3, 4]\<rparr>"

definition rgb565_surface :: jbitmap where
  "rgb565_surface =
     \<lparr>getInfo_result = 0,
      info = \<lparr>width = 2, height = 2, stride = 4, format = ANDROID_BITMAP_FORMAT_RGB_565\<rparr>,
      lockPixels_result = 0, pixels = [1, 2, 3, 4]\<rparr>"

text \<open>
  A sample library: bitmaps get the handle 7, a fill stores the colour in every pixel,
  rendering stores the flags it was given in the first pixel.
\<close>

definition sample_raster :: pdfium_raster where
  "sample_raster =
     \<lparr>create_bitmap = (\<lambda>w h f st. 7),
      fill_rect = (\<lambda>px l t w h c. map (\<lambda>p. c) px),
      render_page = (\<lambda>px page sx sy dw dh rot flags. flags # tl px)\<rparr>"


section \<open>Progressive rendering: \<^verbatim>\<open>nativeRenderPageBitmapStart\<close>, \<^verbatim>\<open>nativeRenderPageContinue\<close>\<close>

text \<open>
  The library's side of progressive rendering, over a rasterizer state \<open>'r\<close>: what
  \<^verbatim>\<open>FPDF_RenderPageBitmap_Start\<close> and \<^verbatim>\<open>FPDF_RenderPage_Continue\<close> return, and the state
  they leave, when they are given a pause interface or the null pointer.
\<close>

record 'r pdfium_progressive =
  render_start :: "pause_probe option \<Rightarrow> 'r \<Rightarrow> jint \<times> 'r"
  render_continue :: "pause_probe option \<Rightarrow> 'r \<Rightarrow> jint \<times> 'r"

definition nativeRenderPageBitmapStart ::
  "pdfium_raster \<Rightarrow> 'r pdfium_progressive \<Rightarrow> jbitmap option \<Rightarrow> jlong
     \<Rightarrow> jint \<Rightarrow> jint \<Rightarrow> jint \<Rightarrow> jint \<Rightarrow> jint \<Rightarrow> jint \<Rightarrow> 'r \<Rightarrow> jint \<times> 'r \<times> render_call list" where
  "nativeRenderPageBitmapStart pdfium prog bitmap pagePtr startX startY drawWidth drawHeight
       rot flags r =
     (case bitmap of
        None \<Rightarrow> (FPDF_RENDER_FAILED, r, [])
      | Some bmp \<Rightarrow>
          if pagePtr = 0 then (FPDF_RENDER_FAILED, r, [])
          else if getInfo_result bmp \<noteq> ANDROID_BITMAP_RESULT_SUCCESS
            then (FPDF_RENDER_FAILED, r, [AndroidBitmap_getInfo])
          else if format (info bmp) \<noteq> ANDROID_BITMAP_FORMAT_RGBA_8888
            then (FPDF_RENDER_FAILED, r, [AndroidBitmap_getInfo])
          else if lockPixels_result bmp \<noteq> ANDROID_BITMAP_RESULT_SUCCESS
            then (FPDF_RENDER_FAILED, r, [AndroidBitmap_getInfo, AndroidBitmap_lockPixels])
          else
            let w = width (info bmp);
                h = height (info bmp);
                created = FPDFBitmap_CreateEx w h FPDFBitmap_BGRA (stride (info bmp));
                fpdfBitmap = create_bitmap pdfium w h FPDFBitmap_BGRA (stride (info bmp))
            in if fpdfBitmap = 0
               then (FPDF_RENDER_FAILED, r,
                     [AndroidBitmap_getInfo, AndroidBitmap_lockPixels, created,
                      AndroidBitmap_unlockPixels])
               else
                 let (status, r') = render_start prog None r
                 in (status, r',
                     [AndroidBitmap_getInfo, AndroidBitmap_lockPixels, created,
                      FPDFBitmap_FillRect fpdfBitmap 0 0 w h opaque_white,
                      FPDF_RenderPageBitmap_Start fpdfBitmap pagePtr startX startY
                        drawWidth drawHeight rot flags None,
                      FPDFBitmap_Destroy fpdfBitmap, AndroidBitmap_unlockPixels]))"

definition nativeRenderPageContinue ::
  "'r pdfium_progressive \<Rightarrow> jlong \<Rightarrow> 'r \<Rightarrow> jint \<times> 'r \<times> render_call list" where
  "nativeRenderPageContinue prog pagePtr r =
     (if pagePtr = 0 then (FPDF_RENDER_FAILED, r, [])
      else
        let (status, r') = render_continue prog None r
        in (status, r', [FPDF_RenderPage_Continue pagePtr None]))"

text \<open>The pause interface a call hands to the library, if it hands one.\<close>

fun pause_passed :: "render_call \<Rightarrow> pause_probe option" where
  "pause_passed (FPDF_RenderPageBitmap_Start b p sx sy dw dh rot fl pause) = pause"
| "pause_passed (FPDF_RenderPage_Continue p pause) = pause"
| "pause_passed c = None"

definition terminal_status :: "jint \<Rightarrow> bool" where
  "terminal_status st = (st = FPDF_RENDER_DONE \<or> st = FPDF_RENDER_FAILED)"

text \<open>
  The contract of the wrapped library that the file's comments rely on ("will complete in
  one go", "will finish immediately"): without a pause interface the rasterizer does not
  stop half way.
\<close>

definition pauses_only_when_asked :: "'r pdfium_progressive \<Rightarrow> bool" where
  "pauses_only_when_asked prog =
     (\<forall>r. terminal_status (fst (render_start prog None r)) \<and>
          terminal_status (fst (render_continue prog None r)))"

text \<open>
  A rasterizer that honours a pause interface, to instantiate the library with: it has
  \<open>work_left\<close> steps to do, asks the interface after each step, and stops with "to be
  continued" as soon as the answer is yes. With the null pointer it asks nobody.
\<close>

record raster_job =
  work_left :: nat
  questions_asked :: nat

fun rasterize :: "pause_probe option \<Rightarrow> nat \<Rightarrow> nat \<Rightarrow> jint \<times> raster_job" where
  "rasterize pause 0 k = (FPDF_RENDER_DONE, \<lparr>work_left = 0, questions_asked = k\<rparr>)"
| "rasterize pause (Suc n) k =
     (case pause of
        None \<Rightarrow> rasterize pause n k
      | Some need_to_pause_now \<Rightarrow>
          if need_to_pause_now k
          then (FPDF_RENDER_TOBECONTINUED, \<lparr>work_left = n, questions_asked = Suc k\<rparr>)
          else rasterize pause n (Suc k))"

definition cooperative_pdfium :: "raster_job pdfium_progressive" where
  "cooperative_pdfium =
     \<lparr>render_start = (\<lambda>pause j. rasterize pause (work_left j) (questions_asked j)),
      render_continue = (\<lambda>pause j. rasterize pause (work_left j) (questions_asked j))\<rparr>"

definition always_pause :: pause_probe where
  "always_pause = (\<lambda>k. True)"

definition three_steps :: raster_job where
  "three_steps = \<lparr>work_left = 3, questions_asked = 0\<rparr>"


section \<open>Documents and their source buffers\<close>

text \<open>
  \<^verbatim>\<open>static std::map<FPDF_DOCUMENT, char*> g_docBuffers;\<close> is the ownership table. Around
  it the model keeps what the code acts on but does not own: \<open>allocated\<close>, the blocks
  obtained from \<^verbatim>\<open>new[]\<close> and not yet given to \<^verbatim>\<open>delete[]\<close>; \<open>double_free\<close>, raised when
  \<^verbatim>\<open>delete[]\<close> is applied to a block that is not allocated; \<open>open_documents\<close>, the
  documents alive inside the wrapped library, each with the route that opened it; and
  \<open>doc_calls\<close>, the calls made to the allocator, the operating system and the library
  (\<open>PageCountQuery\<close> is the \<^verbatim>\<open>FPDF_GetPageCount\<close> whose value only goes into the log
  message of a successful open).
\<close>

datatype route = ViaDescriptor | ViaBytes | ViaPath

datatype doc_call =
    Lseek jint
  | NewArray nat
  | Read jint nat int
  | DeleteArray jlong
  | FPDF_LoadMemDocument jlong "jbyte list" int "string option"
  | FPDF_LoadDocument string "string option"
  | PageCountQuery jlong
  | FPDF_CloseDocument jlong

record doc_world =
  g_docBuffers :: "jlong \<rightharpoonup> jlong"
  allocated :: "jlong set"
  double_free :: bool
  open_documents :: "jlong \<rightharpoonup> route"
  doc_calls :: "doc_call list"

definition initial_doc_world :: doc_world where
  "initial_doc_world =
     \<lparr>g_docBuffers = Map.empty, allocated = {}, double_free = False,
      open_documents = Map.empty, doc_calls = []\<rparr>"

text \<open>
  One \<^verbatim>\<open>read(fd, ptr, count)\<close>: the descriptor either fails (the call returns -1) or has
  some bytes at hand, of which the call stores at most \<open>count\<close> and returns how many it
  stored; no bytes at hand is the end of the file (the call returns 0).
\<close>

datatype read_result = ReadError | ReadData "jbyte list"

fun sys_read :: "read_result \<Rightarrow> nat \<Rightarrow> int \<times> jbyte list" where
  "sys_read ReadError count = (- 1, [])"
| "sys_read (ReadData bs) count = (int (length (take count bs)), take count bs)"

text \<open>
  What surrounds one open call: the value of \<^verbatim>\<open>lseek(fd, 0, SEEK_END)\<close>, the address
  the allocator hands out (0 when \<^verbatim>\<open>new (std::nothrow)\<close> fails), what the successive
  \<^verbatim>\<open>read\<close> calls find (after the last entry the descriptor is at its end), and the
  handle the library's loader returns for a block with given contents, a given size
  argument and password, or for a given path and password (0 when it refuses).
\<close>

record open_env =
  lseek_end :: int
  new_block :: jlong
  reads :: "read_result list"
  load_mem :: "jbyte list \<Rightarrow> int \<Rightarrow> string option \<Rightarrow> jlong"
  load_path :: "string \<Rightarrow> string option \<Rightarrow> jlong"

definition log_calls :: "doc_call list \<Rightarrow> doc_world \<Rightarrow> doc_world" where
  "log_calls cs s = s\<lparr>doc_calls := doc_calls s @ cs\<rparr>"

definition new_array :: "jlong \<Rightarrow> nat \<Rightarrow> doc_world \<Rightarrow> doc_world" where
  "new_array p n s =
     log_calls [NewArray n] (if p = 0 then s else s\<lparr>allocated := insert p (allocated s)\<rparr>)"

definition delete_array :: "jlong \<Rightarrow> doc_world \<Rightarrow> doc_world" where
  "delete_array p s =
     log_calls [DeleteArray p]
       (if p = 0 then s
        else if p \<in> allocated s then s\<lparr>allocated := allocated s - {p}\<rparr>
        else s\<lparr>double_free := True\<rparr>)"

text \<open>
  The loop \<^verbatim>\<open>while (remaining > 0)\<close> of \<^verbatim>\<open>nativeOpenDocument\<close>: the bytes gathered so
  far, or \<open>None\<close> once a \<^verbatim>\<open>read\<close> returned 0 or less, with the \<^verbatim>\<open>read\<close> calls made.
\<close>

fun read_loop ::
  "jint \<Rightarrow> read_result list \<Rightarrow> nat \<Rightarrow> jbyte list \<Rightarrow> jbyte list option \<times> doc_call list" where
  "read_loop fd [] remaining buf =
     (if remaining = 0 then (Some buf, []) else (None, [Read fd remaining 0]))"
| "read_loop fd (r # rest) remaining buf =
     (if remaining = 0 then (Some buf, [])
      else
        let (bytesRead, got) = sys_read r remaining
        in if bytesRead \<le> 0 then (None, [Read fd remaining bytesRead])
           else
             let (result, calls) = read_loop fd rest (remaining - nat bytesRead) (buf @ got)
             in (result, Read fd remaining bytesRead # calls))"

text \<open>
  \<^verbatim>\<open>fileSize\<close> is an \<^verbatim>\<open>off_t\<close> and the size parameter of \<^verbatim>\<open>FPDF_LoadMemDocument\<close> an
  \<^verbatim>\<open>int\<close>: the loader is given the block, which holds \<open>fileSize\<close> bytes, and is told
  \<open>to_int32 fileSize\<close>, which is the file size only below 2 GiB. An entry
  \<open>FPDF_LoadMemDocument\<close> of the log holds the address of the block, its contents, the
  size argument and the password. \<^verbatim>\<open>nativeOpenMemDocument\<close> passes the length of the array
  it was given, which is a \<^verbatim>\<open>jsize\<close> already.
\<close>

definition nativeOpenDocument ::
  "open_env \<Rightarrow> jint \<Rightarrow> string option \<Rightarrow> doc_world \<Rightarrow> jlong \<times> doc_world" where
  "nativeOpenDocument env fd password s =
     (let fileSize = lseek_end env;
          s0 = log_calls [Lseek fd] s
      in if fileSize \<le> 0 then (0, s0)
         else
           let s1 = log_calls [Lseek fd] s0;
               buffer = new_block env;
               s2 = new_array buffer (nat fileSize) s1
           in if buffer = 0 then (0, s2)
              else
                let (filled, read_calls) = read_loop fd (reads env) (nat fileSize) [];
                    s3 = log_calls read_calls s2
                in case filled of
                     None \<Rightarrow> (0, delete_array buffer s3)
                   | Some bytes \<Rightarrow>
                       let int_size = to_int32 fileSize;
                           doc = load_mem env bytes int_size password;
                           s4 = log_calls
                                  [FPDF_LoadMemDocument buffer bytes int_size password] s3
                       in if doc = 0 then (0, delete_array buffer s4)
                          else (doc,
                                log_calls [PageCountQuery doc]
                                  (s4\<lparr>open_documents :=
                                        (open_documents s4)(doc \<mapsto> ViaDescriptor),
                                      g_docBuffers := (g_docBuffers s4)(doc \<mapsto> buffer)\<rparr>)))"

definition nativeOpenMemDocument ::
  "open_env \<Rightarrow> jbyte list \<Rightarrow> string option \<Rightarrow> doc_world \<Rightarrow> jlong \<times> doc_world" where
  "nativeOpenMemDocument env data password s =
     (let docBuffer = new_block env;
          s1 = new_array docBuffer (length data) s;
          len = int (length data);
          doc = load_mem env data len password;
          s2 = log_calls [FPDF_LoadMemDocument docBuffer data len password] s1
      in if doc = 0 then (0, delete_array docBuffer s2)
         else (doc,
               log_calls [PageCountQuery doc]
                 (s2\<lparr>open_documents := (open_documents s2)(doc \<mapsto> ViaBytes),
                     g_docBuffers := (g_docBuffers s2)(doc \<mapsto> docBuffer)\<rparr>)))"

definition nativeOpenDocumentPath ::
  "open_env \<Rightarrow> string \<Rightarrow> string option \<Rightarrow> doc_world \<Rightarrow> jlong \<times> doc_world" where
  "nativeOpenDocumentPath env path password s =
     (let doc = load_path env path password;
          s1 = log_calls [FPDF_LoadDocument path password] s
      in if doc = 0 then (0, s1)
         else (doc, s1\<lparr>open_documents := (open_documents s1)(doc \<mapsto> ViaPath)\<rparr>))"

definition nativeCloseDocument :: "jlong \<Rightarrow> doc_world \<Rightarrow> doc_world" where
  "nativeCloseDocument docPtr s =
     (if docPtr = 0 then s
      else
        let s1 = log_calls [FPDF_CloseDocument docPtr]
                   (s\<lparr>open_documents := (open_documents s)(docPtr := None)\<rparr>)
        in case g_docBuffers s1 docPtr of
             None \<Rightarrow> s1
           | Some buf \<Rightarrow> (delete_array buf s1)\<lparr>g_docBuffers := (g_docBuffers s1)(docPtr := None)\<rparr>)"

text \<open>
  A caller's history is a list of calls, each with what surrounded it. The environment
  keeps its side of the bargain when the allocator hands out a block that is not in use
  (the throwing \<^verbatim>\<open>new\<close> of the bytes route never hands out 0) and the loader returns
  either 0 or a handle that no live document has.
\<close>

datatype jni_call =
    OpenDocument open_env jint "string option"
  | OpenMemDocument open_env "jbyte list" "string option"
  | OpenDocumentPath open_env string "string option"
  | CloseDocument jlong

fun step :: "jni_call \<Rightarrow> doc_world \<Rightarrow> doc_world" where
  "step (OpenDocument env fd password) s = snd (nativeOpenDocument env fd password s)"
| "step (OpenMemDocument env data password) s = snd (nativeOpenMemDocument env data password s)"
| "step (OpenDocumentPath env path password) s = snd (nativeOpenDocumentPath env path password s)"
| "step (CloseDocument docPtr) s = nativeCloseDocument docPtr s"

fun run :: "jni_call list \<Rightarrow> doc_world \<Rightarrow> doc_world" where
  "run [] s = s"
| "run (c # cs) s = run cs (step c s)"

definition fresh_handle :: "doc_world \<Rightarrow> jlong \<Rightarrow> bool" where
  "fresh_handle s h = (h = 0 \<or> open_documents s h = None)"

definition fresh_block :: "doc_world \<Rightarrow> jlong \<Rightarrow> bool" where
  "fresh_block s p = (p \<notin> allocated s)"

fun environment_sound :: "jni_call \<Rightarrow> doc_world \<Rightarrow> bool" where
  "environment_sound (OpenDocument env fd password) s =
     (fresh_block s (new_block env) \<and>
      (case fst (read_loop fd (reads env) (nat (lseek_end env)) []) of
         None \<Rightarrow> True
       | Some bytes \<Rightarrow>
           fresh_handle s (load_mem env bytes (to_int32 (lseek_end env)) password)))"
| "environment_sound (OpenMemDocument env data password) s =
     (new_block env \<noteq> 0 \<and> fresh_block s (new_block env) \<and>
      fresh_handle s (load_mem env data (int (length data)) password))"
| "environment_sound (OpenDocumentPath env path password) s =
     fresh_handle s (load_path env path password)"
| "environment_sound (CloseDocument docPtr) s = True"

fun sound_history :: "jni_call list \<Rightarrow> doc_world \<Rightarrow> bool" where
  "sound_history [] s = True"
| "sound_history (c # cs) s = (environment_sound c s \<and> sound_history cs (step c s))"

text \<open>The two counts of the ownership claim.\<close>

definition buffered_documents :: "doc_world \<Rightarrow> jlong set" where
  "buffered_documents s =
     {h. open_documents s h = Some ViaBytes \<or> open_documents s h = Some ViaDescriptor}"

definition outstanding_buffers :: "doc_world \<Rightarrow> nat" where
  "outstanding_buffers s = card (allocated s)"

text \<open>
  The ownership invariant: the table has an entry exactly for the live documents opened
  from bytes or from a descriptor, every registered buffer is still allocated, every
  allocated buffer is registered under exactly one handle, nothing was freed twice, and
  neither the null handle nor the null block takes part.
\<close>

definition ownership_inv :: "doc_world \<Rightarrow> bool" where
  "ownership_inv s =
     ((\<forall>h. (g_docBuffers s h \<noteq> None) = (h \<in> buffered_documents s)) \<and>
      (\<forall>h b. g_docBuffers s h = Some b \<longrightarrow> b \<in> allocated s) \<and>
      (\<forall>b\<in>allocated s. \<exists>!h. g_docBuffers s h = Some b) \<and>
      \<not> double_free s \<and>
      open_documents s 0 = None \<and>
      0 \<notin> allocated s)"

text \<open>The four components the ownership claims speak about are the same in two states.\<close>

definition ownership_unchanged :: "doc_world \<Rightarrow> doc_world \<Rightarrow> bool" where
  "ownership_unchanged s s' =
     (g_docBuffers s' = g_docBuffers s \<and> allocated s' = allocated s \<and>
      double_free s' = double_free s \<and> open_documents s' = open_documents s)"

text \<open>What a logged \<^verbatim>\<open>read\<close> returned (0 for any other call).\<close>

fun read_returned :: "doc_call \<Rightarrow> int" where
  "read_returned (Read fd n r) = r"
| "read_returned c = 0"

text \<open>
  A run of \<^verbatim>\<open>read\<close> calls on one descriptor in which each call asks for what the calls
  before it left of \<open>remaining\<close> bytes.
\<close>

fun asks_for_rest :: "jint \<Rightarrow> nat \<Rightarrow> doc_call list \<Rightarrow> bool" where
  "asks_for_rest fd remaining [] = True"
| "asks_for_rest fd remaining (Read fd' n r # cs) =
     (fd' = fd \<and> n = remaining \<and> asks_for_rest fd (remaining - nat r) cs)"
| "asks_for_rest fd remaining (c # cs) = False"

fun is_load_call :: "doc_call \<Rightarrow> bool" where
  "is_load_call (FPDF_LoadMemDocument b bytes n pw) = True"
| "is_load_call c = False"

fun loaded_bytes :: "doc_call \<Rightarrow> jbyte list" where
  "loaded_bytes (FPDF_LoadMemDocument b bytes n pw) = bytes"
| "loaded_bytes c = []"

fun loaded_size :: "doc_call \<Rightarrow> int" where
  "loaded_size (FPDF_LoadMemDocument b bytes n pw) = n"
| "loaded_size c = 0"

text \<open>
  What a descriptor can deliver: the bytes its successive \<^verbatim>\<open>read\<close> calls have at hand,
  up to the first call that fails or finds the end of the file.
\<close>

fun available :: "read_result list \<Rightarrow> jbyte list" where
  "available [] = []"
| "available (ReadError # rest) = []"
| "available (ReadData bs # rest) = (if bs = [] then [] else bs @ available rest)"

text \<open>
  A sample environment: the descriptor holds five bytes and delivers them in two
  pieces, the allocator hands out the block 64, and the loader accepts any bytes with
  the password "secret", giving the handle 9.
\<close>

definition sample_env :: open_env where
  "sample_env =
     \<lparr>lseek_end = 5, new_block = 64,
      reads = [ReadData [1, 2, 3], ReadData [4, 5]],
      load_mem = (\<lambda>bytes n pw. if pw = Some ''secret'' then 9 else 0),
      load_path = (\<lambda>path pw. if pw = Some ''secret'' then 10 else 0)\<rparr>"

text \<open>The same descriptor, cut short: after three bytes it is at its end.\<close>

definition truncated_env :: open_env where
  "truncated_env = sample_env\<lparr>reads := [ReadData [1, 2, 3]]\<rparr>"

text \<open>A state with two references held.\<close>

definition two_references :: lib_world where
  "two_references = \<lparr>libraryReferenceCount = 2, pdfium_alive = True,
      lifecycle_calls = [FPDF_InitLibraryWithConfig]\<rparr>"

text \<open>
  A sample history: a document opened from bytes (handle 9, block 64), one opened by
  path (handle 10), an open from bytes refused for its password (block 65), and the
  close of the document opened by path.
\<close>

definition sample_history :: "jni_call list" where
  "sample_history =
     [OpenMemDocument sample_env [1, 2] (Some ''secret''),
      OpenDocumentPath sample_env ''a.pdf'' (Some ''secret''),
      OpenMemDocument (sample_env\<lparr>new_block := 65\<rparr>) [1, 2] (Some ''guess''),
      CloseDocument 10]"


section \<open>Properties\<close>

subsection \<open>Library lifecycle\<close>

lemma word32_of_nat_zero: "n < 2 ^ 32 \<Longrightarrow> ((word_of_nat n :: 32 word) = 0) = (n = 0)"
proof
  assume b: "n < 2 ^ 32" and z: "(word_of_nat n :: 32 word) = 0"
  from z have "2 ^ 32 dvd n" by (simp add: word_of_nat_eq_0_iff)
  with b show "n = 0" by (auto dest: dvd_imp_le)
qed simp

lemma init_first:
  "libraryReferenceCount s = 0 \<Longrightarrow>
   nativeInitLibrary s = s\<lparr>libraryReferenceCount := 1, pdfium_alive := True,
      lifecycle_calls := lifecycle_calls s @ [FPDF_InitLibraryWithConfig]\<rparr>"
  by (simp add: nativeInitLibrary_def)

lemma init_again:
  "libraryReferenceCount s \<noteq> 0 \<Longrightarrow>
   nativeInitLibrary s = s\<lparr>libraryReferenceCount := libraryReferenceCount s + 1\<rparr>"
  by (simp add: nativeInitLibrary_def)

lemma destroy_last:
  "libraryReferenceCount s = 1 \<Longrightarrow>
   nativeDestroyLibrary s = s\<lparr>libraryReferenceCount := 0, pdfium_alive := False,
      lifecycle_calls := lifecycle_calls s @ [FPDF_DestroyLibrary]\<rparr>"
  by (simp add: nativeDestroyLibrary_def)

lemma destroy_not_last:
  "libraryReferenceCount s \<noteq> 1 \<Longrightarrow>
   nativeDestroyLibrary s = s\<lparr>libraryReferenceCount := libraryReferenceCount s - 1\<rparr>"
  by (simp add: nativeDestroyLibrary_def)

lemma inits: "0 < n \<Longrightarrow> n < 2 ^ 32 \<Longrightarrow>
   (nativeInitLibrary ^^ n) initial_lib_world =
     \<lparr>libraryReferenceCount = word_of_nat n, pdfium_alive = True,
      lifecycle_calls = [FPDF_InitLibraryWithConfig]\<rparr>"
proof (induction n)
  case 0
  then show ?case by simp
next
  case (Suc n)
  show ?case
  proof (cases "n = 0")
    case True
    then show ?thesis by (simp add: init_first initial_lib_world_def)
  next
    case False
    with Suc have ih: "(nativeInitLibrary ^^ n) initial_lib_world =
      \<lparr>libraryReferenceCount = word_of_nat n, pdfium_alive = True,
      lifecycle_calls = [FPDF_InitLibraryWithConfig]\<rparr>" by simp
    from False Suc.prems have nz: "(word_of_nat n :: 32 word) \<noteq> 0"
      by (simp add: word32_of_nat_zero)
    have "(nativeInitLibrary ^^ Suc n) initial_lib_world =
        nativeInitLibrary ((nativeInitLibrary ^^ n) initial_lib_world)" by simp
    also have "\<dots> = \<lparr>libraryReferenceCount = word_of_nat n + 1, pdfium_alive = True,
      lifecycle_calls = [FPDF_InitLibraryWithConfig]\<rparr>"
      unfolding ih using nz by (simp add: init_again)
    finally show ?thesis by (simp add: add.commute)
  qed
qed

lemma shutdowns: "m < n \<Longrightarrow> n < 2 ^ 32 \<Longrightarrow>
   (nativeDestroyLibrary ^^ m)
      \<lparr>libraryReferenceCount = word_of_nat n, pdfium_alive = True, lifecycle_calls = cs\<rparr> =
     \<lparr>libraryReferenceCount = word_of_nat (n - m), pdfium_alive = True, lifecycle_calls = cs\<rparr>"
proof (induction m)
  case 0
  then show ?case by simp
next
  case (Suc m)
  then have ih: "(nativeDestroyLibrary ^^ m)
      \<lparr>libraryReferenceCount = word_of_nat n, pdfium_alive = True, lifecycle_calls = cs\<rparr> =
     \<lparr>libraryReferenceCount = word_of_nat (n - m), pdfium_alive = True, lifecycle_calls = cs\<rparr>"
    by simp
  define k where "k = n - Suc m"
  from Suc.prems have k: "n - m = Suc k" "k \<noteq> 0" "k < 2 ^ 32" by (simp_all add: k_def)
  from word32_of_nat_zero[OF k(3)] k(2) have knz: "(word_of_nat k :: 32 word) \<noteq> 0" by blast
  have eq: "(word_of_nat (n - m) :: 32 word) = word_of_nat k + 1" unfolding k(1) by simp
  from knz have ne1: "(word_of_nat k + 1 :: 32 word) \<noteq> 1" by simp
  have "(nativeDestroyLibrary ^^ Suc m)
      \<lparr>libraryReferenceCount = word_of_nat n, pdfium_alive = True, lifecycle_calls = cs\<rparr> =
      nativeDestroyLibrary \<lparr>libraryReferenceCount = word_of_nat k + 1, pdfium_alive = True, lifecycle_calls = cs\<rparr>"
    using ih unfolding eq by simp
  also have "\<dots> = \<lparr>libraryReferenceCount = word_of_nat k, pdfium_alive = True, lifecycle_calls = cs\<rparr>"
    using ne1 by (simp add: destroy_not_last)
  finally show ?case unfolding k_def .
qed

lemma shutdowns_all: "0 < n \<Longrightarrow> n < 2 ^ 32 \<Longrightarrow>
   (nativeDestroyLibrary ^^ n)
      \<lparr>libraryReferenceCount = word_of_nat n, pdfium_alive = True, lifecycle_calls = cs\<rparr> =
     \<lparr>libraryReferenceCount = 0, pdfium_alive = False,
      lifecycle_calls = cs @ [FPDF_DestroyLibrary]\<rparr>"
proof -
  assume n: "0 < n" "n < 2 ^ 32"
  then obtain m where m: "n = Suc m" by (cases n) auto
  with n have "m < n" by simp
  from shutdowns[OF this n(2), of cs] m
  have "(nativeDestroyLibrary ^^ m)
      \<lparr>libraryReferenceCount = word_of_nat n, pdfium_alive = True, lifecycle_calls = cs\<rparr> =
     \<lparr>libraryReferenceCount = 1, pdfium_alive = True, lifecycle_calls = cs\<rparr>" by simp
  then have "(nativeDestroyLibrary ^^ Suc m)
      \<lparr>libraryReferenceCount = word_of_nat n, pdfium_alive = True, lifecycle_calls = cs\<rparr> =
      nativeDestroyLibrary \<lparr>libraryReferenceCount = 1, pdfium_alive = True, lifecycle_calls = cs\<rparr>"
    by simp
  also have "\<dots> = \<lparr>libraryReferenceCount = 0, pdfium_alive = False,
      lifecycle_calls = cs @ [FPDF_DestroyLibrary]\<rparr>"
    by (simp add: destroy_last)
  finally show ?thesis unfolding m .
qed

text \<open>
  Claim C9. Starting from the count 0, the library is initialised by the call of
  \<^verbatim>\<open>nativeInitLibrary\<close> that finds the count at 0 and by no other; a call that finds
  another count only adds 1 to it; the library is destroyed by the call of
  \<^verbatim>\<open>nativeDestroyLibrary\<close> that finds the count at 1 (and so brings it to 0) and by no
  other. Hence after \<open>n\<close> init calls and then \<open>m \<le> n\<close> shutdown calls the library has
  been initialised once, it is still alive exactly when \<open>m < n\<close>, it has been destroyed
  (once, by the last call) exactly when \<open>m = n\<close>, and the count is \<open>n - m\<close>. The counter
  is a signed 32-bit integer, so \<open>n\<close> stays below \<open>2 ^ 31\<close>.
\<close>

theorem library_reference_count:
  assumes "0 < n" and "m \<le> n" and "n < 2 ^ 31"
  shows "lifecycle_calls (nativeInitLibrary s) =
           (if libraryReferenceCount s = 0
            then lifecycle_calls s @ [FPDF_InitLibraryWithConfig] else lifecycle_calls s)
       \<and> (libraryReferenceCount s \<noteq> 0 \<longrightarrow>
            nativeInitLibrary s = s\<lparr>libraryReferenceCount := libraryReferenceCount s + 1\<rparr>)
       \<and> lifecycle_calls (nativeDestroyLibrary s) =
           (if libraryReferenceCount s = 1
            then lifecycle_calls s @ [FPDF_DestroyLibrary] else lifecycle_calls s)
       \<and> lifecycle_calls ((nativeDestroyLibrary ^^ m) ((nativeInitLibrary ^^ n) initial_lib_world)) =
           (if m = n then [FPDF_InitLibraryWithConfig, FPDF_DestroyLibrary]
            else [FPDF_InitLibraryWithConfig])
       \<and> pdfium_alive ((nativeDestroyLibrary ^^ m) ((nativeInitLibrary ^^ n) initial_lib_world)) =
           (m < n)
       \<and> libraryReferenceCount
           ((nativeDestroyLibrary ^^ m) ((nativeInitLibrary ^^ n) initial_lib_world)) =
           word_of_nat (n - m)"
proof -
  from assms have n32: "n < 2 ^ 32" by simp
  have a: "lifecycle_calls (nativeInitLibrary s) =
           (if libraryReferenceCount s = 0
            then lifecycle_calls s @ [FPDF_InitLibraryWithConfig] else lifecycle_calls s)"
    by (simp add: init_first init_again)
  have b: "libraryReferenceCount s \<noteq> 0 \<longrightarrow>
            nativeInitLibrary s = s\<lparr>libraryReferenceCount := libraryReferenceCount s + 1\<rparr>"
    by (simp add: init_again)
  have c: "lifecycle_calls (nativeDestroyLibrary s) =
           (if libraryReferenceCount s = 1
            then lifecycle_calls s @ [FPDF_DestroyLibrary] else lifecycle_calls s)"
    by (simp add: destroy_last destroy_not_last)
  let ?final = "(nativeDestroyLibrary ^^ m) ((nativeInitLibrary ^^ n) initial_lib_world)"
  have d: "?final = (if m = n
       then \<lparr>libraryReferenceCount = 0, pdfium_alive = False,
             lifecycle_calls = [FPDF_InitLibraryWithConfig, FPDF_DestroyLibrary]\<rparr>
       else \<lparr>libraryReferenceCount = word_of_nat (n - m), pdfium_alive = True,
             lifecycle_calls = [FPDF_InitLibraryWithConfig]\<rparr>)"
  proof (cases "m = n")
    case True
    with shutdowns_all[OF assms(1) n32, of "[FPDF_InitLibraryWithConfig]"] inits[OF assms(1) n32]
    show ?thesis by simp
  next
    case False
    with assms have "m < n" by simp
    from shutdowns[OF this n32, of "[FPDF_InitLibraryWithConfig]"] inits[OF assms(1) n32] False
    show ?thesis by simp
  qed
  from assms(2) have e: "lifecycle_calls ?final =
           (if m = n then [FPDF_InitLibraryWithConfig, FPDF_DestroyLibrary]
            else [FPDF_InitLibraryWithConfig])"
     and f: "pdfium_alive ?final = (m < n)"
     and g: "libraryReferenceCount ?final = word_of_nat (n - m)"
    unfolding d by auto
  from a b c e f g show ?thesis by blast
qed

theorem library_reference_count_witness:
  "(0::nat) < 3 \<and> (2::nat) \<le> 3 \<and> (3::nat) < 2 ^ 31
   \<and> libraryReferenceCount two_references \<noteq> 0
   \<and> nativeInitLibrary two_references = two_references\<lparr>libraryReferenceCount := 3\<rparr>
   \<and> lifecycle_calls ((nativeDestroyLibrary ^^ 2) ((nativeInitLibrary ^^ 3) initial_lib_world)) =
        [FPDF_InitLibraryWithConfig]
   \<and> pdfium_alive ((nativeDestroyLibrary ^^ 2) ((nativeInitLibrary ^^ 3) initial_lib_world))
   \<and> libraryReferenceCount
        ((nativeDestroyLibrary ^^ 2) ((nativeInitLibrary ^^ 3) initial_lib_world)) = 1"
proof -
  have h: "(0::nat) < 3" "(2::nat) \<le> 3" "(3::nat) < 2 ^ 31" by simp_all
  have nz: "libraryReferenceCount two_references \<noteq> 0" by (simp add: two_references_def)
  from library_reference_count[OF h, of two_references] nz h
  show ?thesis by (simp add: two_references_def)
qed

subsection \<open>Page size by index\<close>

text \<open>
  Claim C10. With a null document handle \<^verbatim>\<open>nativeGetPageSizeByIndex\<close> returns null.
  With any other handle it returns two numbers: 595 and 842 when the library's query
  reports failure (whatever the query left in its two output variables), and what the
  query stored in the two variables when it reports success, so the default is
  substituted on failure and only then.
\<close>

theorem page_size_falls_back_to_a4:
  "nativeGetPageSizeByIndex lib 0 i = None \<and>
   (docPtr \<noteq> 0 \<longrightarrow>
      nativeGetPageSizeByIndex lib docPtr i =
        Some (if fst (lib docPtr i (0, 0)) = 0 then [595, 842]
              else [fst (snd (lib docPtr i (0, 0))), snd (snd (lib docPtr i (0, 0)))]))"
  by (simp add: nativeGetPageSizeByIndex_def split: prod.splits)

theorem page_size_falls_back_to_a4_witness:
  "(5 :: jlong) \<noteq> 0 \<and>
   nativeGetPageSizeByIndex (\<lambda>d i init. (0, 12, 13)) 0 3 = None \<and>
   nativeGetPageSizeByIndex (\<lambda>d i init. (0, 12, 13)) 5 3 = Some [595, 842]"
  using page_size_falls_back_to_a4[of "\<lambda>d i init. (0, 12, 13)" 3 5] by simp

subsection \<open>Null handles\<close>

text \<open>
  Claim C3. On a null handle \<^verbatim>\<open>nativeGetPageCount\<close>, \<^verbatim>\<open>nativeGetPageObjectType\<close> and
  \<^verbatim>\<open>nativeSetObjectFillColor\<close> return their sentinel without calling the library. The
  six path operations have no such check: each of them hands the null handle to the
  library.
\<close>

theorem path_operations_pass_null_handle:
  "nativeGetPageCount pdfium 0 = (0, []) \<and>
   nativeGetPageObjectType pdfium 0 = (- 1, []) \<and>
   nativeSetObjectFillColor 0 r g b a = [] \<and>
   snd (nativePathMoveTo pdfium 0 x y) = [FPDFPath_MoveTo 0 x y] \<and>
   snd (nativePathLineTo pdfium 0 x y) = [FPDFPath_LineTo 0 x y] \<and>
   snd (nativePathBezierTo pdfium 0 x1 y1 x2 y2 x3 y3) = [FPDFPath_BezierTo 0 x1 y1 x2 y2 x3 y3] \<and>
   snd (nativePathClose pdfium 0) = [FPDFPath_Close 0] \<and>
   snd (nativePathSetDrawMode pdfium 0 fillMode False) = [FPDFPath_SetDrawMode 0 fillMode 0] \<and>
   snd (nativePathSetStrokeWidth pdfium 0 w) = [FPDFPageObj_SetStrokeWidth 0 w]"
  by (simp add: nativeGetPageCount_def nativeGetPageObjectType_def nativeSetObjectFillColor_def
      nativePathMoveTo_def nativePathLineTo_def nativePathBezierTo_def nativePathClose_def
      nativePathSetDrawMode_def nativePathSetStrokeWidth_def Let_def)

subsection \<open>Rendering into a surface\<close>

text \<open>
  Claim C6. When the surface's pixel format is not \<^verbatim>\<open>ANDROID_BITMAP_FORMAT_RGBA_8888\<close>,
  \<^verbatim>\<open>nativeRenderPageBitmap\<close> leaves the surface as it was, pixels included, and calls
  nothing but the query for the surface's description: the pixels are not locked, no
  library bitmap is created, nothing is filled, converted or rendered.
\<close>

theorem unsupported_format_is_skipped:
  assumes "format (info bmp) \<noteq> ANDROID_BITMAP_FORMAT_RGBA_8888"
  shows "fst (nativeRenderPageBitmap pdfium pagePtr (Some bmp) startX startY drawWidth drawHeight
              renderAnnot) = Some bmp
       \<and> set (snd (nativeRenderPageBitmap pdfium pagePtr (Some bmp) startX startY drawWidth
              drawHeight renderAnnot)) \<subseteq> {AndroidBitmap_getInfo}"
  using assms by (simp add: nativeRenderPageBitmap_def)

theorem unsupported_format_is_skipped_witness:
  "format (info rgb565_surface) \<noteq> ANDROID_BITMAP_FORMAT_RGBA_8888
   \<and> fst (nativeRenderPageBitmap sample_raster 5 (Some rgb565_surface) 0 0 2 2 True) =
       Some rgb565_surface
   \<and> snd (nativeRenderPageBitmap sample_raster 5 (Some rgb565_surface) 0 0 2 2 True) =
       [AndroidBitmap_getInfo]"
proof -
  have h: "format (info rgb565_surface) \<noteq> ANDROID_BITMAP_FORMAT_RGBA_8888"
    by (simp add: rgb565_surface_def ANDROID_BITMAP_FORMAT_RGBA_8888_def
        ANDROID_BITMAP_FORMAT_RGB_565_def)
  have c: "snd (nativeRenderPageBitmap sample_raster 5 (Some rgb565_surface) 0 0 2 2 True) =
       [AndroidBitmap_getInfo]"
    using h by (simp add: nativeRenderPageBitmap_def rgb565_surface_def
        ANDROID_BITMAP_RESULT_SUCCESS_def)
  from unsupported_format_is_skipped[OF h, of sample_raster 5 0 0 2 2 True] h c
  show ?thesis by simp
qed

lemma reverse_flag_kept:
  "(FPDF_REVERSE_BYTE_ORDER OR FPDF_ANNOT) AND FPDF_REVERSE_BYTE_ORDER = FPDF_REVERSE_BYTE_ORDER"
  by (simp add: FPDF_REVERSE_BYTE_ORDER_def FPDF_ANNOT_def)

lemma annot_flag_set:
  "(FPDF_REVERSE_BYTE_ORDER OR FPDF_ANNOT) AND FPDF_ANNOT \<noteq> 0"
  by (simp add: FPDF_REVERSE_BYTE_ORDER_def FPDF_ANNOT_def)

lemma annot_flag_nonzero: "FPDF_ANNOT \<noteq> 0"
  by (simp add: FPDF_ANNOT_def)

lemma annot_flag_clear: "FPDF_REVERSE_BYTE_ORDER AND FPDF_ANNOT = 0"
  by (simp add: FPDF_REVERSE_BYTE_ORDER_def FPDF_ANNOT_def)

text \<open>
  Claim C7. On a non-null page and a surface that is described, not empty, in the
  accepted format, locked and wrapped with success, \<^verbatim>\<open>nativeRenderPageBitmap\<close> fills
  the whole surface (the rectangle from (0, 0) with the surface's width and height, so
  every pixel of the target region too) with opaque white, and only then calls the
  rasterizer, on the filled pixels; the flags it passes have the byte-order-reversal bit
  set, and the annotation bit set exactly when \<open>renderAnnot\<close> is true.
\<close>

theorem render_fills_white_then_rasterizes:
  assumes "pagePtr \<noteq> 0"
    and "getInfo_result bmp = ANDROID_BITMAP_RESULT_SUCCESS"
    and "width (info bmp) \<noteq> 0" and "height (info bmp) \<noteq> 0"
    and "format (info bmp) = ANDROID_BITMAP_FORMAT_RGBA_8888"
    and "lockPixels_result bmp = ANDROID_BITMAP_RESULT_SUCCESS"
    and "create_bitmap pdfium (width (info bmp)) (height (info bmp)) FPDFBitmap_BGRA
           (stride (info bmp)) = b"
    and "b \<noteq> 0"
  shows "\<exists>flags.
           nativeRenderPageBitmap pdfium pagePtr (Some bmp) startX startY drawWidth drawHeight
             renderAnnot =
             (Some (bmp\<lparr>pixels :=
                      render_page pdfium
                        (fill_rect pdfium (pixels bmp) 0 0 (width (info bmp)) (height (info bmp))
                           opaque_white)
                        pagePtr startX startY drawWidth drawHeight 0 flags\<rparr>),
              [AndroidBitmap_getInfo, AndroidBitmap_lockPixels,
               FPDFBitmap_CreateEx (width (info bmp)) (height (info bmp)) FPDFBitmap_BGRA
                 (stride (info bmp)),
               FPDFBitmap_FillRect b 0 0 (width (info bmp)) (height (info bmp)) opaque_white,
               FPDF_RenderPageBitmap b pagePtr startX startY drawWidth drawHeight 0 flags,
               FPDFBitmap_Destroy b, AndroidBitmap_unlockPixels])
         \<and> flags AND FPDF_REVERSE_BYTE_ORDER = FPDF_REVERSE_BYTE_ORDER
         \<and> (flags AND FPDF_ANNOT \<noteq> 0) = renderAnnot"
proof (cases renderAnnot)
  case True
  with assms show ?thesis
    by (intro exI[of _ "FPDF_REVERSE_BYTE_ORDER OR FPDF_ANNOT"])
       (simp add: nativeRenderPageBitmap_def Let_def reverse_flag_kept annot_flag_set
          annot_flag_nonzero)
next
  case False
  with assms show ?thesis
    by (intro exI[of _ "FPDF_REVERSE_BYTE_ORDER"])
       (simp add: nativeRenderPageBitmap_def Let_def annot_flag_clear)
qed

theorem render_fills_white_then_rasterizes_witness:
  "(5 :: jlong) \<noteq> 0
   \<and> getInfo_result rgba_surface = ANDROID_BITMAP_RESULT_SUCCESS
   \<and> width (info rgba_surface) \<noteq> 0 \<and> height (info rgba_surface) \<noteq> 0
   \<and> format (info rgba_surface) = ANDROID_BITMAP_FORMAT_RGBA_8888
   \<and> lockPixels_result rgba_surface = ANDROID_BITMAP_RESULT_SUCCESS
   \<and> create_bitmap sample_raster (width (info rgba_surface)) (height (info rgba_surface))
        FPDFBitmap_BGRA (stride (info rgba_surface)) = 7
   \<and> (7 :: jlong) \<noteq> 0
   \<and> (\<exists>flags.
         nativeRenderPageBitmap sample_raster 5 (Some rgba_surface) 0 0 2 2 True =
           (Some (rgba_surface\<lparr>pixels := [flags, opaque_white, opaque_white, opaque_white]\<rparr>),
            [AndroidBitmap_getInfo, AndroidBitmap_lockPixels,
             FPDFBitmap_CreateEx 2 2 FPDFBitmap_BGRA 8,
             FPDFBitmap_FillRect 7 0 0 2 2 opaque_white,
             FPDF_RenderPageBitmap 7 5 0 0 2 2 0 flags,
             FPDFBitmap_Destroy 7, AndroidBitmap_unlockPixels])
         \<and> flags AND FPDF_REVERSE_BYTE_ORDER = FPDF_REVERSE_BYTE_ORDER
         \<and> flags AND FPDF_ANNOT \<noteq> 0)"
proof -
  have h: "(5 :: jlong) \<noteq> 0"
    "getInfo_result rgba_surface = ANDROID_BITMAP_RESULT_SUCCESS"
    "width (info rgba_surface) \<noteq> 0" "height (info rgba_surface) \<noteq> 0"
    "format (info rgba_surface) = ANDROID_BITMAP_FORMAT_RGBA_8888"
    "lockPixels_result rgba_surface = ANDROID_BITMAP_RESULT_SUCCESS"
    "create_bitmap sample_raster (width (info rgba_surface)) (height (info rgba_surface))
        FPDFBitmap_BGRA (stride (info rgba_surface)) = 7"
    "(7 :: jlong) \<noteq> 0"
    by (simp_all add: rgba_surface_def sample_raster_def ANDROID_BITMAP_RESULT_SUCCESS_def)
  from render_fills_white_then_rasterizes[OF h, of 0 0 2 2 True]
  obtain flags where f:
    "nativeRenderPageBitmap sample_raster 5 (Some rgba_surface) 0 0 2 2 True =
             (Some (rgba_surface\<lparr>pixels :=
                      render_page sample_raster
                        (fill_rect sample_raster (pixels rgba_surface) 0 0 (width (info rgba_surface)) (height (info rgba_surface))
                           opaque_white)
                        5 0 0 2 2 0 flags\<rparr>),
              [AndroidBitmap_getInfo, AndroidBitmap_lockPixels,
               FPDFBitmap_CreateEx (width (info rgba_surface)) (height (info rgba_surface)) FPDFBitmap_BGRA
                 (stride (info rgba_surface)),
               FPDFBitmap_FillRect 7 0 0 (width (info rgba_surface)) (height (info rgba_surface)) opaque_white,
               FPDF_RenderPageBitmap 7 5 0 0 2 2 0 flags,
               FPDFBitmap_Destroy 7, AndroidBitmap_unlockPixels])"
    "flags AND FPDF_REVERSE_BYTE_ORDER = FPDF_REVERSE_BYTE_ORDER"
    "flags AND FPDF_ANNOT \<noteq> 0"
    by auto
  have "render_page sample_raster
          (fill_rect sample_raster (pixels rgba_surface) 0 0 (width (info rgba_surface))
             (height (info rgba_surface)) opaque_white) 5 0 0 2 2 0 flags =
        [flags, opaque_white, opaque_white, opaque_white]"
    by (simp add: sample_raster_def rgba_surface_def)
  with f have "nativeRenderPageBitmap sample_raster 5 (Some rgba_surface) 0 0 2 2 True =
           (Some (rgba_surface\<lparr>pixels := [flags, opaque_white, opaque_white, opaque_white]\<rparr>),
            [AndroidBitmap_getInfo, AndroidBitmap_lockPixels,
             FPDFBitmap_CreateEx 2 2 FPDFBitmap_BGRA 8,
             FPDFBitmap_FillRect 7 0 0 2 2 opaque_white,
             FPDF_RenderPageBitmap 7 5 0 0 2 2 0 flags,
             FPDFBitmap_Destroy 7, AndroidBitmap_unlockPixels])"
    by (simp add: rgba_surface_def)
  with f(2,3) h show ?thesis by blast
qed


subsection \<open>Strings by size query and fill\<close>

lemma to_int32_fits: "- (2 ^ 31) \<le> i \<Longrightarrow> i < 2 ^ 31 \<Longrightarrow> to_int32 i = i"
  by (simp add: to_int32_def int_word_sint)

lemma NewString_written:
  "0 \<le> len \<Longrightarrow> nat len \<le> length w \<Longrightarrow>
   NewString (store_units w buffer) len = JString (map Some (take (nat len) w))"
  by (simp add: NewString_def store_units_def take_map)

lemma NewString_not_null: "NewString buffer len \<noteq> JNull"
  by (simp add: NewString_def)

lemma NewString_negative: "len < 0 \<Longrightarrow> NewString buffer len = JniAbort"
  by (simp add: NewString_def)

lemma NewStringUTF_terminated:
  assumes "w \<noteq> []" and "last w = 0" and "0 \<notin> set (butlast w)"
  shows "NewStringUTF (map Some w) = JStringUTF (map Some (butlast w))"
proof -
  from assms(1,2) have w: "w = butlast w @ [0]" by (metis append_butlast_last_id)
  have m: "map Some w = map Some (butlast w) @ [Some 0]" by (subst w) simp
  have n: "\<forall>c\<in>set (map Some (butlast w)). c \<noteq> Some 0" using assms(3) by auto
  have "takeWhile (\<lambda>c. c \<noteq> Some 0) (map Some (butlast w) @ [Some 0]) =
          map Some (butlast w) @ takeWhile (\<lambda>c. c \<noteq> Some 0) [Some 0]"
    by (rule takeWhile_append2) (use n in blast)
  then have t: "takeWhile (\<lambda>c. c \<noteq> Some 0) (map Some w) = map Some (butlast w)"
    unfolding m by simp
  have s: "Some 0 \<in> set (map Some w)" unfolding m by simp
  from t s show ?thesis by (simp add: NewStringUTF_def)
qed

lemma replicate_two: "replicate 2 x = [x, x]"
  by (simp add: numeral_2_eq_2)

text \<open>
  Claim C2 fails as stated, in four ways. When the fill call stores fewer bytes than
  the size query announced (here 4 of 10), the UTF-16 queries do not return the empty
  string; they return \<open>size / 2 - 1 = 4\<close> units, of which the last two were never
  written. \<^verbatim>\<open>nativeGetLinkURI\<close> answers a size of 0 with the null reference, not with the
  empty string. When the library announces and writes \<open>2 ^ 32 + 2\<close> bytes, the length
  \<open>2 ^ 31\<close> reaches \<^verbatim>\<open>NewString\<close> as a negative \<^verbatim>\<open>jsize\<close>. And when the six bytes
  written for a byte-string query have a NUL before the last, \<^verbatim>\<open>NewStringUTF\<close> stops
  there: the string has one unit, not \<open>6 - 1\<close>.
\<close>

theorem string_protocol_counterexample:
  "nativeGetMetaText (\<lambda>d t. short_fill) 1 ''Title'' =
     (JString [Some 0x61, Some 0, None, None], [SizeQuery, Fill 10])
   \<and> written_bytes 2 short_fill 10 = 4
   \<and> units_read (fst (nativeGetMetaText (\<lambda>d t. short_fill) 1 ''Title'')) = 4
   \<and> \<not> reads_only_written (fst (nativeGetMetaText (\<lambda>d t. short_fill) 1 ''Title''))
   \<and> fst (nativeGetMetaText (\<lambda>d t. short_fill) 1 ''Title'') \<noteq> NewStringUTF_empty
   \<and> nativeGetPageLabel 64 (\<lambda>d i. short_fill) 1 0 =
     (JString [Some 0x61, Some 0, None, None], [SizeQuery, Fill 20])
   \<and> nativeGetFormFieldValue (\<lambda>f a. short_fill) 1 1 =
     (JString [Some 0x61, Some 0, None, None], [SizeQuery, Fill 10])
   \<and> needed_bytes (absent_field :: jbyte text_query) = 0
   \<and> nativeGetLinkURI (\<lambda>l. 1) (\<lambda>d a. absent_field) 1 1 = (JNull, [HandleLookup, SizeQuery])
   \<and> needed_bytes oversize_fill = 2 ^ 32 + 2
   \<and> written_bytes 2 oversize_fill (2 ^ 32 + 2) = 2 ^ 32 + 2
   \<and> fst (nativeGetMetaText (\<lambda>d t. oversize_fill) 1 ''Title'') = JniAbort
   \<and> written_bytes 1 utf16_bytes 6 = 6
   \<and> nativeGetSignatureReason (\<lambda>s. utf16_bytes) 1 =
       (JStringUTF [Some 0x48], [SizeQuery, Fill 6])
   \<and> units_read (fst (nativeGetSignatureReason (\<lambda>s. utf16_bytes) 1)) = 1"
proof -
  have s: "nativeGetMetaText (\<lambda>d t. short_fill) 1 ''Title'' =
     (JString [Some 0x61, Some 0, None, None], [SizeQuery, Fill 10])"
    "written_bytes 2 short_fill 10 = 4"
    "nativeGetPageLabel 64 (\<lambda>d i. short_fill) 1 0 =
     (JString [Some 0x61, Some 0, None, None], [SizeQuery, Fill 20])"
    "nativeGetFormFieldValue (\<lambda>f a. short_fill) 1 1 =
     (JString [Some 0x61, Some 0, None, None], [SizeQuery, Fill 10])"
    by (simp_all add: nativeGetMetaText_def nativeGetPageLabel_def nativeGetFormFieldValue_def
        short_fill_def Let_def fill_buffer_def units_stored_def written_bytes_def
        store_units_def NewString_def to_int32_def replicate_two)
  have u: "units_read (fst (nativeGetMetaText (\<lambda>d t. short_fill) 1 ''Title'')) = 4"
    "\<not> reads_only_written (fst (nativeGetMetaText (\<lambda>d t. short_fill) 1 ''Title''))"
    "fst (nativeGetMetaText (\<lambda>d t. short_fill) 1 ''Title'') \<noteq> NewStringUTF_empty"
    unfolding s by (simp_all add: NewStringUTF_empty_def)
  have l: "needed_bytes (absent_field :: jbyte text_query) = 0"
    "nativeGetLinkURI (\<lambda>l. 1) (\<lambda>d a. absent_field) 1 1 = (JNull, [HandleLookup, SizeQuery])"
    by (simp_all add: nativeGetLinkURI_def absent_field_def)
  have n: "needed_bytes oversize_fill = 2 ^ 32 + 2" by (simp add: oversize_fill_def)
  have w: "written_bytes 2 oversize_fill (2 ^ 32 + 2) = 2 ^ 32 + 2"
    by (simp add: oversize_fill_def written_bytes_def units_stored_def)
  have "to_int32 (int (needed_bytes oversize_fill div 2) - 1) < 0"
    unfolding n by (simp add: to_int32_def)
  then have o: "fst (nativeGetMetaText (\<lambda>d t. oversize_fill) 1 ''Title'') = JniAbort"
    using n by (simp add: nativeGetMetaText_def Let_def NewString_negative del: replicate.simps)
  have b: "written_bytes 1 utf16_bytes 6 = 6"
    "nativeGetSignatureReason (\<lambda>s. utf16_bytes) 1 =
       (JStringUTF [Some 0x48], [SizeQuery, Fill 6])"
    by (simp_all add: nativeGetSignatureReason_def utf16_bytes_def Let_def fill_buffer_def
        units_stored_def written_bytes_def store_units_def NewStringUTF_def)
  have c: "units_read (fst (nativeGetSignatureReason (\<lambda>s. utf16_bytes) 1)) = 1"
    unfolding b by simp
  from s(1,2) u s(3,4) l n w o b c show ?thesis by (intro conjI)
qed

text \<open>The three shapes of the code keep the protocol as far as it is stated.\<close>

lemma wide_protocol_holds:
  fixes q :: "jchar text_query"
  assumes out: "outcome =
      (if needed_bytes q \<le> threshold then (NewStringUTF_empty, before @ [SizeQuery])
       else (NewString (fill_buffer 2 q (buflen (needed_bytes q)) (replicate cap None))
               (to_int32 (int (needed_bytes q div 2) - 1)),
             before @ [SizeQuery, Fill (buflen (needed_bytes q))]))"
  shows "wide_protocol threshold buflen before q outcome"
proof -
  let ?n = "needed_bytes q"
  let ?w = "units_stored 2 q (buflen ?n)"
  have a: "?n \<le> threshold \<longrightarrow> outcome = (NewStringUTF_empty, before @ [SizeQuery])"
    using out by simp
  have b: "threshold < ?n \<longrightarrow> snd outcome = before @ [SizeQuery, Fill (buflen ?n)]"
    using out by simp
  have c: "threshold < ?n \<and> written_bytes 2 q (buflen ?n) = ?n \<and> ?n div 2 - 1 < 2 ^ 31 \<longrightarrow>
             units_read (fst outcome) = written_bytes 2 q (buflen ?n) div 2 - 1 \<and>
             reads_only_written (fst outcome)"
  proof
    assume h: "threshold < ?n \<and> written_bytes 2 q (buflen ?n) = ?n \<and> ?n div 2 - 1 < 2 ^ 31"
    then have t: "threshold < ?n" and w: "2 * length ?w = ?n" and f: "?n div 2 - 1 < 2 ^ 31"
      by (simp_all add: written_bytes_def)
    from t w have l: "?n div 2 = length ?w" "1 \<le> length ?w" by arith+
    define len where "len = int (?n div 2) - 1"
    from l have len0: "0 \<le> len" unfolding len_def by linarith
    from l have lenn: "nat len = length ?w - 1" unfolding len_def by linarith
    from f l have "int (length ?w - 1) < 2 ^ 31" by simp
    with l have lenb: "len < 2 ^ 31" by (simp add: len_def)
    from len0 lenb have fits: "to_int32 len = len" by (intro to_int32_fits) simp_all
    from lenn have le: "nat len \<le> length ?w" by simp
    from t have nt: "\<not> ?n \<le> threshold" by simp
    have "fst outcome = NewString (store_units ?w (replicate cap None)) len"
      unfolding out len_def[symmetric] fits using nt by (simp add: fill_buffer_def)
    also have "\<dots> = JString (map Some (take (nat len) ?w))"
      by (rule NewString_written[OF len0 le])
    finally have r: "fst outcome = JString (map Some (take (length ?w - 1) ?w))"
      unfolding lenn .
    have u: "units_read (fst outcome) = length ?w - 1" unfolding r by simp
    have v: "reads_only_written (fst outcome)" unfolding r by auto
    from u v show "units_read (fst outcome) = written_bytes 2 q (buflen ?n) div 2 - 1 \<and>
             reads_only_written (fst outcome)"
      by (simp add: written_bytes_def)
  qed
  from a b c show ?thesis unfolding wide_protocol_def Let_def by (intro conjI)
qed

lemma byte_protocol_holds:
  fixes q :: "jbyte text_query"
  assumes out: "outcome =
      (if needed_bytes q = 0 then (absent, before @ [SizeQuery])
       else (NewStringUTF (fill_buffer 1 q (needed_bytes q) (replicate (needed_bytes q) None)),
             before @ [SizeQuery, Fill (needed_bytes q)]))"
  shows "byte_protocol absent before q outcome"
proof -
  let ?n = "needed_bytes q"
  let ?w = "units_stored 1 q ?n"
  have a: "?n = 0 \<longrightarrow> outcome = (absent, before @ [SizeQuery])"
    using out by simp
  have b: "0 < ?n \<longrightarrow> snd outcome = before @ [SizeQuery, Fill ?n]"
    using out by simp
  have c: "0 < ?n \<and> written_bytes 1 q ?n = ?n \<and> last ?w = 0 \<and> 0 \<notin> set (butlast ?w) \<longrightarrow>
             units_read (fst outcome) = written_bytes 1 q ?n div 1 - 1 \<and>
             reads_only_written (fst outcome)"
  proof
    assume h: "0 < ?n \<and> written_bytes 1 q ?n = ?n \<and> last ?w = 0 \<and> 0 \<notin> set (butlast ?w)"
    then have t: "0 < ?n" and w: "length ?w = ?n" and z: "last ?w = 0"
      and i: "0 \<notin> set (butlast ?w)"
      by (simp_all add: written_bytes_def)
    from t w have ne: "?w \<noteq> []" by auto
    have "fill_buffer 1 q ?n (replicate ?n None) = map Some ?w"
      using w by (simp add: fill_buffer_def store_units_def)
    with t out have "fst outcome = NewStringUTF (map Some ?w)" by simp
    with NewStringUTF_terminated[OF ne z i]
    have r: "fst outcome = JStringUTF (map Some (butlast ?w))" by simp
    have u: "units_read (fst outcome) = length ?w - 1" unfolding r by simp
    have v: "reads_only_written (fst outcome)" unfolding r by auto
    from u v show "units_read (fst outcome) = written_bytes 1 q ?n div 1 - 1 \<and>
             reads_only_written (fst outcome)"
      by (simp add: written_bytes_def)
  qed
  from a b c show ?thesis unfolding byte_protocol_def Let_def by (intro conjI)
qed

lemma url_protocol_holds:
  assumes out: "outcome =
      (if sint (url_size q) \<le> 0 then (NewStringUTF_empty, [SizeQuery])
       else (NewString (store_units (take (nat (sint (url_size q))) (url_units q))
                          (replicate (nat (sint (url_size q))) None))
               (sint (url_size q) - 1),
             [SizeQuery, Fill (nat (sint (url_size q)))]))"
  shows "url_protocol q outcome"
proof -
  let ?n = "sint (url_size q)"
  let ?w = "take (nat ?n) (url_units q)"
  have a: "?n \<le> 0 \<longrightarrow> outcome = (NewStringUTF_empty, [SizeQuery])"
    using out by simp
  have b: "0 < ?n \<longrightarrow> snd outcome = [SizeQuery, Fill (nat ?n)]"
    using out by simp
  have c: "0 < ?n \<and> 2 * length ?w = 2 * nat ?n \<longrightarrow>
             units_read (fst outcome) = 2 * length ?w div 2 - 1 \<and> reads_only_written (fst outcome)"
  proof
    assume h: "0 < ?n \<and> 2 * length ?w = 2 * nat ?n"
    then have t: "0 < ?n" and w: "length ?w = nat ?n" by simp_all
    from t have len0: "0 \<le> ?n - 1" by simp
    from t w have le: "nat (?n - 1) \<le> length ?w" by simp
    from t have nt: "\<not> ?n \<le> 0" by simp
    have "fst outcome = NewString (store_units ?w (replicate (nat ?n) None)) (?n - 1)"
      unfolding out using nt by simp
    also have "\<dots> = JString (map Some (take (nat (?n - 1)) ?w))"
      by (rule NewString_written[OF len0 le])
    finally have r: "fst outcome = JString (map Some (take (nat (?n - 1)) ?w))" .
    have u: "units_read (fst outcome) = length ?w - 1" unfolding r using t w by simp
    have v: "reads_only_written (fst outcome)" unfolding r by auto
    from u v show "units_read (fst outcome) = 2 * length ?w div 2 - 1 \<and>
             reads_only_written (fst outcome)"
      by simp
  qed
  from a b c show ?thesis unfolding url_protocol_def Let_def by (intro conjI)
qed

text \<open>Each of the twenty-two functions has one of the three shapes.\<close>

lemma meta_text_protocol:
  "docPtr \<noteq> 0 \<Longrightarrow>
     wide_protocol 0 (\<lambda>n. n) [] (FPDF_GetMetaText docPtr tag)
       (nativeGetMetaText FPDF_GetMetaText docPtr tag)"
  by (rule wide_protocol_holds[where cap = "needed_bytes (FPDF_GetMetaText docPtr tag)"]) (simp add: nativeGetMetaText_def Let_def)

lemma page_label_protocol:
  "docPtr \<noteq> 0 \<Longrightarrow>
     wide_protocol 0 (\<lambda>n. (n * 2) mod 2 ^ ulong_bits) [] (FPDF_GetPageLabel docPtr pageIndex)
       (nativeGetPageLabel ulong_bits FPDF_GetPageLabel docPtr pageIndex)"
  by (rule wide_protocol_holds[where cap = "needed_bytes (FPDF_GetPageLabel docPtr pageIndex)"]) (simp add: nativeGetPageLabel_def Let_def NewString_not_null)

lemma bookmark_title_protocol:
  "bookmarkPtr \<noteq> 0 \<Longrightarrow>
     wide_protocol 0 (\<lambda>n. n) [] (FPDFBookmark_GetTitle bookmarkPtr)
       (nativeGetBookmarkTitle FPDFBookmark_GetTitle bookmarkPtr)"
  by (rule wide_protocol_holds[where cap = "needed_bytes (FPDFBookmark_GetTitle bookmarkPtr)"]) (simp add: nativeGetBookmarkTitle_def Let_def)

lemma link_uri_protocol:
  "docPtr \<noteq> 0 \<and> linkPtr \<noteq> 0 \<and> FPDFLink_GetAction linkPtr \<noteq> 0 \<Longrightarrow>
     byte_protocol JNull [HandleLookup] (FPDFAction_GetURIPath docPtr (FPDFLink_GetAction linkPtr))
       (nativeGetLinkURI FPDFLink_GetAction FPDFAction_GetURIPath docPtr linkPtr)"
  by (rule byte_protocol_holds) (simp add: nativeGetLinkURI_def Let_def)

lemma form_field_name_protocol:
  "annotPtr \<noteq> 0 \<Longrightarrow>
     wide_protocol 2 (\<lambda>n. n) [] (FPDFAnnot_GetFormFieldName formPtr annotPtr)
       (nativeGetFormFieldName FPDFAnnot_GetFormFieldName formPtr annotPtr)"
  by (rule wide_protocol_holds[where cap = "needed_bytes (FPDFAnnot_GetFormFieldName formPtr annotPtr) div 2"]) (simp add: nativeGetFormFieldName_def Let_def)

lemma form_field_value_protocol:
  "annotPtr \<noteq> 0 \<Longrightarrow>
     wide_protocol 2 (\<lambda>n. n) [] (FPDFAnnot_GetFormFieldValue formPtr annotPtr)
       (nativeGetFormFieldValue FPDFAnnot_GetFormFieldValue formPtr annotPtr)"
  by (rule wide_protocol_holds[where cap = "needed_bytes (FPDFAnnot_GetFormFieldValue formPtr annotPtr) div 2"]) (simp add: nativeGetFormFieldValue_def Let_def)

lemma option_label_protocol:
  "annotPtr \<noteq> 0 \<Longrightarrow>
     wide_protocol 2 (\<lambda>n. n) [] (FPDFAnnot_GetOptionLabel formPtr annotPtr index)
       (nativeGetFormFieldOptionLabel FPDFAnnot_GetOptionLabel formPtr annotPtr index)"
  by (rule wide_protocol_holds[where cap = "needed_bytes (FPDFAnnot_GetOptionLabel formPtr annotPtr index) div 2"]) (simp add: nativeGetFormFieldOptionLabel_def Let_def)

lemma attachment_name_protocol:
  "docPtr \<noteq> 0 \<and> FPDFDoc_GetAttachment docPtr index \<noteq> 0 \<Longrightarrow>
     wide_protocol 0 (\<lambda>n. n) [HandleLookup] (FPDFAttachment_GetName (FPDFDoc_GetAttachment docPtr index))
       (nativeGetAttachmentName FPDFDoc_GetAttachment FPDFAttachment_GetName docPtr index)"
  by (rule wide_protocol_holds[where cap = "needed_bytes (FPDFAttachment_GetName (FPDFDoc_GetAttachment docPtr index))"]) (simp add: nativeGetAttachmentName_def Let_def)

lemma struct_type_protocol:
  "structElemPtr \<noteq> 0 \<Longrightarrow>
     wide_protocol 0 (\<lambda>n. n) [] (FPDF_StructElement_GetType structElemPtr)
       (nativeStructElementGetType FPDF_StructElement_GetType structElemPtr)"
  by (rule wide_protocol_holds[where cap = "needed_bytes (FPDF_StructElement_GetType structElemPtr)"]) (simp add: nativeStructElementGetType_def Let_def)

lemma struct_alt_text_protocol:
  "structElemPtr \<noteq> 0 \<Longrightarrow>
     wide_protocol 0 (\<lambda>n. n) [] (FPDF_StructElement_GetAltText structElemPtr)
       (nativeStructElementGetAltText FPDF_StructElement_GetAltText structElemPtr)"
  by (rule wide_protocol_holds[where cap = "needed_bytes (FPDF_StructElement_GetAltText structElemPtr)"]) (simp add: nativeStructElementGetAltText_def Let_def)

lemma signature_reason_protocol:
  "sigObjPtr \<noteq> 0 \<Longrightarrow>
     byte_protocol NewStringUTF_empty [] (FPDFSignatureObj_GetReason sigObjPtr)
       (nativeGetSignatureReason FPDFSignatureObj_GetReason sigObjPtr)"
  by (rule byte_protocol_holds) (simp add: nativeGetSignatureReason_def Let_def)

lemma signature_time_protocol:
  "sigObjPtr \<noteq> 0 \<Longrightarrow>
     byte_protocol NewStringUTF_empty [] (FPDFSignatureObj_GetTime sigObjPtr)
       (nativeGetSignatureTime FPDFSignatureObj_GetTime sigObjPtr)"
  by (rule byte_protocol_holds) (simp add: nativeGetSignatureTime_def Let_def)

lemma web_link_url_protocol:
  "pageLinksPtr \<noteq> 0 \<Longrightarrow>
     url_protocol (FPDFLink_GetURL pageLinksPtr index)
       (nativeGetWebLinkURL FPDFLink_GetURL pageLinksPtr index)"
  by (rule url_protocol_holds) (simp add: nativeGetWebLinkURL_def Let_def)

lemma annot_contents_protocol:
  "annotPtr \<noteq> 0 \<Longrightarrow>
     wide_protocol 2 (\<lambda>n. n) [] (FPDFAnnot_GetStringValue annotPtr ''Contents'')
       (nativeGetAnnotContents FPDFAnnot_GetStringValue annotPtr)"
  by (rule wide_protocol_holds[where cap = "needed_bytes (FPDFAnnot_GetStringValue annotPtr ''Contents'') div 2"]) (simp add: nativeGetAnnotContents_def Let_def)

lemma annot_author_protocol:
  "annotPtr \<noteq> 0 \<Longrightarrow>
     wide_protocol 2 (\<lambda>n. n) [] (FPDFAnnot_GetStringValue annotPtr ''T'')
       (nativeGetAnnotAuthor FPDFAnnot_GetStringValue annotPtr)"
  by (rule wide_protocol_holds[where cap = "needed_bytes (FPDFAnnot_GetStringValue annotPtr ''T'') div 2"]) (simp add: nativeGetAnnotAuthor_def Let_def)

lemma annot_subject_protocol:
  "annotPtr \<noteq> 0 \<Longrightarrow>
     wide_protocol 2 (\<lambda>n. n) [] (FPDFAnnot_GetStringValue annotPtr ''Subj'')
       (nativeGetAnnotSubject FPDFAnnot_GetStringValue annotPtr)"
  by (rule wide_protocol_holds[where cap = "needed_bytes (FPDFAnnot_GetStringValue annotPtr ''Subj'') div 2"]) (simp add: nativeGetAnnotSubject_def Let_def)

lemma annot_modification_date_protocol:
  "annotPtr \<noteq> 0 \<Longrightarrow>
     wide_protocol 2 (\<lambda>n. n) [] (FPDFAnnot_GetStringValue annotPtr ''M'')
       (nativeGetAnnotModificationDate FPDFAnnot_GetStringValue annotPtr)"
  by (rule wide_protocol_holds[where cap = "needed_bytes (FPDFAnnot_GetStringValue annotPtr ''M'') div 2"]) (simp add: nativeGetAnnotModificationDate_def Let_def)

lemma annot_creation_date_protocol:
  "annotPtr \<noteq> 0 \<Longrightarrow>
     wide_protocol 2 (\<lambda>n. n) [] (FPDFAnnot_GetStringValue annotPtr ''CreationDate'')
       (nativeGetAnnotCreationDate FPDFAnnot_GetStringValue annotPtr)"
  by (rule wide_protocol_holds[where cap = "needed_bytes (FPDFAnnot_GetStringValue annotPtr ''CreationDate'') div 2"]) (simp add: nativeGetAnnotCreationDate_def Let_def)

lemma option_value_protocol:
  "annotPtr \<noteq> 0 \<Longrightarrow>
     wide_protocol 2 (\<lambda>n. n) [] (FPDFAnnot_GetOptionLabel formPtr annotPtr index)
       (nativeGetFormFieldOptionValue FPDFAnnot_GetOptionLabel formPtr annotPtr index)"
  by (rule wide_protocol_holds[where cap = "needed_bytes (FPDFAnnot_GetOptionLabel formPtr annotPtr index) div 2"]) (simp add: nativeGetFormFieldOptionValue_def Let_def)

lemma action_file_path_protocol:
  "actionPtr \<noteq> 0 \<Longrightarrow>
     byte_protocol NewStringUTF_empty [] (FPDFAction_GetFilePath actionPtr)
       (nativeGetActionFilePath FPDFAction_GetFilePath actionPtr)"
  by (rule byte_protocol_holds) (simp add: nativeGetActionFilePath_def Let_def)

lemma default_value_protocol:
  "formPtr \<noteq> 0 \<and> annotPtr \<noteq> 0 \<Longrightarrow>
     wide_protocol 2 (\<lambda>n. n) [] (FPDFAnnot_GetFormFieldValue formPtr annotPtr)
       (nativeGetFormFieldDefaultValue FPDFAnnot_GetFormFieldValue formPtr annotPtr)"
  by (rule wide_protocol_holds[where cap = "needed_bytes (FPDFAnnot_GetFormFieldValue formPtr annotPtr) div 2"]) (simp add: nativeGetFormFieldDefaultValue_def Let_def)

lemma xfa_packet_name_protocol:
  "docPtr \<noteq> 0 \<Longrightarrow>
     byte_protocol NewStringUTF_empty [] (FPDF_GetXFAPacketName docPtr index)
       (nativeGetXFAPacketName FPDF_GetXFAPacketName docPtr index)"
  by (rule byte_protocol_holds) (simp add: nativeGetXFAPacketName_def Let_def)

text \<open>
  Claim C2, amended. Every string-returning query that uses the two-phase protocol,
  called with the handles it tests not null (and, where it first looks a handle up, with
  that lookup answered): when the size query answers 0 \<^emph>\<open>or, in the form-field and
  annotation queries, anything up to 2, and in \<^verbatim>\<open>nativeGetWebLinkURL\<close> anything up to 0\<close>,
  no second call is made and the result is the empty string, \<^emph>\<open>except in
  \<^verbatim>\<open>nativeGetLinkURI\<close>, where it is the null reference\<close>; otherwise exactly one fill
  call follows; and \<^emph>\<open>when that fill call writes exactly the bytes announced\<close>, the
  result is made of \<open>writtenBytes / unitSize - 1\<close> units (its length, for a UTF-16
  string; the bytes \<^verbatim>\<open>NewStringUTF\<close> decodes, for a byte string) and every one of them
  had been written \<^emph>\<open>provided that \<^verbatim>\<open>size / 2 - 1\<close> fits the 32-bit length of
  \<^verbatim>\<open>NewString\<close>, and that a byte string has no NUL before its last byte\<close>.
  \<open>wide_protocol\<close>, \<open>byte_protocol\<close> and \<open>url_protocol\<close> say this for the three kinds of
  query.
\<close>

theorem two_phase_string_protocol:
  "(docPtr \<noteq> 0 \<longrightarrow>
            wide_protocol 0 (\<lambda>n. n) [] (FPDF_GetMetaText docPtr tag)
              (nativeGetMetaText FPDF_GetMetaText docPtr tag))
       \<and> (docPtr \<noteq> 0 \<longrightarrow>
            wide_protocol 0 (\<lambda>n. (n * 2) mod 2 ^ ulong_bits) [] (FPDF_GetPageLabel docPtr pageIndex)
              (nativeGetPageLabel ulong_bits FPDF_GetPageLabel docPtr pageIndex))
       \<and> (bookmarkPtr \<noteq> 0 \<longrightarrow>
            wide_protocol 0 (\<lambda>n. n) [] (FPDFBookmark_GetTitle bookmarkPtr)
              (nativeGetBookmarkTitle FPDFBookmark_GetTitle bookmarkPtr))
       \<and> (docPtr \<noteq> 0 \<and> linkPtr \<noteq> 0 \<and> FPDFLink_GetAction linkPtr \<noteq> 0 \<longrightarrow>
            byte_protocol JNull [HandleLookup] (FPDFAction_GetURIPath docPtr (FPDFLink_GetAction linkPtr))
              (nativeGetLinkURI FPDFLink_GetAction FPDFAction_GetURIPath docPtr linkPtr))
       \<and> (annotPtr \<noteq> 0 \<longrightarrow>
            wide_protocol 2 (\<lambda>n. n) [] (FPDFAnnot_GetFormFieldName formPtr annotPtr)
              (nativeGetFormFieldName FPDFAnnot_GetFormFieldName formPtr annotPtr))
       \<and> (annotPtr \<noteq> 0 \<longrightarrow>
            wide_protocol 2 (\<lambda>n. n) [] (FPDFAnnot_GetFormFieldValue formPtr annotPtr)
              (nativeGetFormFieldValue FPDFAnnot_GetFormFieldValue formPtr annotPtr))
       \<and> (annotPtr \<noteq> 0 \<longrightarrow>
            wide_protocol 2 (\<lambda>n. n) [] (FPDFAnnot_GetOptionLabel formPtr annotPtr index)
              (nativeGetFormFieldOptionLabel FPDFAnnot_GetOptionLabel formPtr annotPtr index))
       \<and> (docPtr \<noteq> 0 \<and> FPDFDoc_GetAttachment docPtr index \<noteq> 0 \<longrightarrow>
            wide_protocol 0 (\<lambda>n. n) [HandleLookup] (FPDFAttachment_GetName (FPDFDoc_GetAttachment docPtr index))
              (nativeGetAttachmentName FPDFDoc_GetAttachment FPDFAttachment_GetName docPtr index))
       \<and> (structElemPtr \<noteq> 0 \<longrightarrow>
            wide_protocol 0 (\<lambda>n. n) [] (FPDF_StructElement_GetType structElemPtr)
              (nativeStructElementGetType FPDF_StructElement_GetType structElemPtr))
       \<and> (structElemPtr \<noteq> 0 \<longrightarrow>
            wide_protocol 0 (\<lambda>n. n) [] (FPDF_StructElement_GetAltText structElemPtr)
              (nativeStructElementGetAltText FPDF_StructElement_GetAltText structElemPtr))
       \<and> (sigObjPtr \<noteq> 0 \<longrightarrow>
            byte_protocol NewStringUTF_empty [] (FPDFSignatureObj_GetReason sigObjPtr)
              (nativeGetSignatureReason FPDFSignatureObj_GetReason sigObjPtr))
       \<and> (sigObjPtr \<noteq> 0 \<longrightarrow>
            byte_protocol NewStringUTF_empty [] (FPDFSignatureObj_GetTime sigObjPtr)
              (nativeGetSignatureTime FPDFSignatureObj_GetTime sigObjPtr))
       \<and> (pageLinksPtr \<noteq> 0 \<longrightarrow>
            url_protocol (FPDFLink_GetURL pageLinksPtr index)
              (nativeGetWebLinkURL FPDFLink_GetURL pageLinksPtr index))
       \<and> (annotPtr \<noteq> 0 \<longrightarrow>
            wide_protocol 2 (\<lambda>n. n) [] (FPDFAnnot_GetStringValue annotPtr ''Contents'')
              (nativeGetAnnotContents FPDFAnnot_GetStringValue annotPtr))
       \<and> (annotPtr \<noteq> 0 \<longrightarrow>
            wide_protocol 2 (\<lambda>n. n) [] (FPDFAnnot_GetStringValue annotPtr ''T'')
              (nativeGetAnnotAuthor FPDFAnnot_GetStringValue annotPtr))
       \<and> (annotPtr \<noteq> 0 \<longrightarrow>
            wide_protocol 2 (\<lambda>n. n) [] (FPDFAnnot_GetStringValue annotPtr ''Subj'')
              (nativeGetAnnotSubject FPDFAnnot_GetStringValue annotPtr))
       \<and> (annotPtr \<noteq> 0 \<longrightarrow>
            wide_protocol 2 (\<lambda>n. n) [] (FPDFAnnot_GetStringValue annotPtr ''M'')
              (nativeGetAnnotModificationDate FPDFAnnot_GetStringValue annotPtr))
       \<and> (annotPtr \<noteq> 0 \<longrightarrow>
            wide_protocol 2 (\<lambda>n. n) [] (FPDFAnnot_GetStringValue annotPtr ''CreationDate'')
              (nativeGetAnnotCreationDate FPDFAnnot_GetStringValue annotPtr))
       \<and> (annotPtr \<noteq> 0 \<longrightarrow>
            wide_protocol 2 (\<lambda>n. n) [] (FPDFAnnot_GetOptionLabel formPtr annotPtr index)
              (nativeGetFormFieldOptionValue FPDFAnnot_GetOptionLabel formPtr annotPtr index))
       \<and> (actionPtr \<noteq> 0 \<longrightarrow>
            byte_protocol NewStringUTF_empty [] (FPDFAction_GetFilePath actionPtr)
              (nativeGetActionFilePath FPDFAction_GetFilePath actionPtr))
       \<and> (formPtr \<noteq> 0 \<and> annotPtr \<noteq> 0 \<longrightarrow>
            wide_protocol 2 (\<lambda>n. n) [] (FPDFAnnot_GetFormFieldValue formPtr annotPtr)
              (nativeGetFormFieldDefaultValue FPDFAnnot_GetFormFieldValue formPtr annotPtr))
       \<and> (docPtr \<noteq> 0 \<longrightarrow>
            byte_protocol NewStringUTF_empty [] (FPDF_GetXFAPacketName docPtr index)
              (nativeGetXFAPacketName FPDF_GetXFAPacketName docPtr index))"
proof -
  have p1: "docPtr \<noteq> 0 \<longrightarrow>
            wide_protocol 0 (\<lambda>n. n) [] (FPDF_GetMetaText docPtr tag)
              (nativeGetMetaText FPDF_GetMetaText docPtr tag)"
    by (intro impI meta_text_protocol)
  have p2: "docPtr \<noteq> 0 \<longrightarrow>
            wide_protocol 0 (\<lambda>n. (n * 2) mod 2 ^ ulong_bits) [] (FPDF_GetPageLabel docPtr pageIndex)
              (nativeGetPageLabel ulong_bits FPDF_GetPageLabel docPtr pageIndex)"
    by (intro impI page_label_protocol)
  have p3: "bookmarkPtr \<noteq> 0 \<longrightarrow>
            wide_protocol 0 (\<lambda>n. n) [] (FPDFBookmark_GetTitle bookmarkPtr)
              (nativeGetBookmarkTitle FPDFBookmark_GetTitle bookmarkPtr)"
    by (intro impI bookmark_title_protocol)
  have p4: "docPtr \<noteq> 0 \<and> linkPtr \<noteq> 0 \<and> FPDFLink_GetAction linkPtr \<noteq> 0 \<longrightarrow>
            byte_protocol JNull [HandleLookup] (FPDFAction_GetURIPath docPtr (FPDFLink_GetAction linkPtr))
              (nativeGetLinkURI FPDFLink_GetAction FPDFAction_GetURIPath docPtr linkPtr)"
    by (intro impI link_uri_protocol)
  have p5: "annotPtr \<noteq> 0 \<longrightarrow>
            wide_protocol 2 (\<lambda>n. n) [] (FPDFAnnot_GetFormFieldName formPtr annotPtr)
              (nativeGetFormFieldName FPDFAnnot_GetFormFieldName formPtr annotPtr)"
    by (intro impI form_field_name_protocol)
  have p6: "annotPtr \<noteq> 0 \<longrightarrow>
            wide_protocol 2 (\<lambda>n. n) [] (FPDFAnnot_GetFormFieldValue formPtr annotPtr)
              (nativeGetFormFieldValue FPDFAnnot_GetFormFieldValue formPtr annotPtr)"
    by (intro impI form_field_value_protocol)
  have p7: "annotPtr \<noteq> 0 \<longrightarrow>
            wide_protocol 2 (\<lambda>n. n) [] (FPDFAnnot_GetOptionLabel formPtr annotPtr index)
              (nativeGetFormFieldOptionLabel FPDFAnnot_GetOptionLabel formPtr annotPtr index)"
    by (intro impI option_label_protocol)
  have p8: "docPtr \<noteq> 0 \<and> FPDFDoc_GetAttachment docPtr index \<noteq> 0 \<longrightarrow>
            wide_protocol 0 (\<lambda>n. n) [HandleLookup] (FPDFAttachment_GetName (FPDFDoc_GetAttachment docPtr index))
              (nativeGetAttachmentName FPDFDoc_GetAttachment FPDFAttachment_GetName docPtr index)"
    by (intro impI attachment_name_protocol)
  have p9: "structElemPtr \<noteq> 0 \<longrightarrow>
            wide_protocol 0 (\<lambda>n. n) [] (FPDF_StructElement_GetType structElemPtr)
              (nativeStructElementGetType FPDF_StructElement_GetType structElemPtr)"
    by (intro impI struct_type_protocol)
  have p10: "structElemPtr \<noteq> 0 \<longrightarrow>
            wide_protocol 0 (\<lambda>n. n) [] (FPDF_StructElement_GetAltText structElemPtr)
              (nativeStructElementGetAltText FPDF_StructElement_GetAltText structElemPtr)"
    by (intro impI struct_alt_text_protocol)
  have p11: "sigObjPtr \<noteq> 0 \<longrightarrow>
            byte_protocol NewStringUTF_empty [] (FPDFSignatureObj_GetReason sigObjPtr)
              (nativeGetSignatureReason FPDFSignatureObj_GetReason sigObjPtr)"
    by (intro impI signature_reason_protocol)
  have p12: "sigObjPtr \<noteq> 0 \<longrightarrow>
            byte_protocol NewStringUTF_empty [] (FPDFSignatureObj_GetTime sigObjPtr)
              (nativeGetSignatureTime FPDFSignatureObj_GetTime sigObjPtr)"
    by (intro impI signature_time_protocol)
  have p13: "pageLinksPtr \<noteq> 0 \<longrightarrow>
            url_protocol (FPDFLink_GetURL pageLinksPtr index)
              (nativeGetWebLinkURL FPDFLink_GetURL pageLinksPtr index)"
    by (intro impI web_link_url_protocol)
  have p14: "annotPtr \<noteq> 0 \<longrightarrow>
            wide_protocol 2 (\<lambda>n. n) [] (FPDFAnnot_GetStringValue annotPtr ''Contents'')
              (nativeGetAnnotContents FPDFAnnot_GetStringValue annotPtr)"
    by (intro impI annot_contents_protocol)
  have p15: "annotPtr \<noteq> 0 \<longrightarrow>
            wide_protocol 2 (\<lambda>n. n) [] (FPDFAnnot_GetStringValue annotPtr ''T'')
              (nativeGetAnnotAuthor FPDFAnnot_GetStringValue annotPtr)"
    by (intro impI annot_author_protocol)
  have p16: "annotPtr \<noteq> 0 \<longrightarrow>
            wide_protocol 2 (\<lambda>n. n) [] (FPDFAnnot_GetStringValue annotPtr ''Subj'')
              (nativeGetAnnotSubject FPDFAnnot_GetStringValue annotPtr)"
    by (intro impI annot_subject_protocol)
  have p17: "annotPtr \<noteq> 0 \<longrightarrow>
            wide_protocol 2 (\<lambda>n. n) [] (FPDFAnnot_GetStringValue annotPtr ''M'')
              (nativeGetAnnotModificationDate FPDFAnnot_GetStringValue annotPtr)"
    by (intro impI annot_modification_date_protocol)
  have p18: "annotPtr \<noteq> 0 \<longrightarrow>
            wide_protocol 2 (\<lambda>n. n) [] (FPDFAnnot_GetStringValue annotPtr ''CreationDate'')
              (nativeGetAnnotCreationDate FPDFAnnot_GetStringValue annotPtr)"
    by (intro impI annot_creation_date_protocol)
  have p19: "annotPtr \<noteq> 0 \<longrightarrow>
            wide_protocol 2 (\<lambda>n. n) [] (FPDFAnnot_GetOptionLabel formPtr annotPtr index)
              (nativeGetFormFieldOptionValue FPDFAnnot_GetOptionLabel formPtr annotPtr index)"
    by (intro impI option_value_protocol)
  have p20: "actionPtr \<noteq> 0 \<longrightarrow>
            byte_protocol NewStringUTF_empty [] (FPDFAction_GetFilePath actionPtr)
              (nativeGetActionFilePath FPDFAction_GetFilePath actionPtr)"
    by (intro impI action_file_path_protocol)
  have p21: "formPtr \<noteq> 0 \<and> annotPtr \<noteq> 0 \<longrightarrow>
            wide_protocol 2 (\<lambda>n. n) [] (FPDFAnnot_GetFormFieldValue formPtr annotPtr)
              (nativeGetFormFieldDefaultValue FPDFAnnot_GetFormFieldValue formPtr annotPtr)"
    by (intro impI default_value_protocol)
  have p22: "docPtr \<noteq> 0 \<longrightarrow>
            byte_protocol NewStringUTF_empty [] (FPDF_GetXFAPacketName docPtr index)
              (nativeGetXFAPacketName FPDF_GetXFAPacketName docPtr index)"
    by (intro impI xfa_packet_name_protocol)
  from p1 p2 p3 p4 p5 p6 p7 p8 p9 p10 p11 p12 p13 p14 p15 p16 p17 p18 p19 p20 p21 p22
  show ?thesis by (intro conjI)
qed

theorem two_phase_string_protocol_witness:
  "(1 :: jlong) \<noteq> 0
   \<and> needed_bytes (absent_field :: jchar text_query) = 0
   \<and> nativeGetMetaText (\<lambda>d t. absent_field) 1 ''Title'' = (NewStringUTF_empty, [SizeQuery])
   \<and> nativeGetPageLabel 64 (\<lambda>d i. absent_field) 1 0 = (NewStringUTF_empty, [SizeQuery])
   \<and> nativeGetAnnotContents (\<lambda>a k. absent_field) 1 = (NewStringUTF_empty, [SizeQuery])
   \<and> nativeGetAttachmentName (\<lambda>d i. 1) (\<lambda>a. absent_field) 1 0 =
       (NewStringUTF_empty, [HandleLookup, SizeQuery])
   \<and> needed_bytes (absent_field :: jbyte text_query) = 0
   \<and> nativeGetSignatureReason (\<lambda>s. absent_field) 1 = (NewStringUTF_empty, [SizeQuery])
   \<and> nativeGetLinkURI (\<lambda>l. 1) (\<lambda>d a. absent_field) 1 1 = (JNull, [HandleLookup, SizeQuery])
   \<and> needed_bytes exact_fill = 6
   \<and> written_bytes 2 exact_fill 6 = 6
   \<and> written_bytes 2 exact_fill 12 = 6
   \<and> snd (nativeGetMetaText (\<lambda>d t. exact_fill) 1 ''Title'') = [SizeQuery, Fill 6]
   \<and> units_read (fst (nativeGetMetaText (\<lambda>d t. exact_fill) 1 ''Title'')) = 2
   \<and> reads_only_written (fst (nativeGetMetaText (\<lambda>d t. exact_fill) 1 ''Title''))
   \<and> snd (nativeGetPageLabel 64 (\<lambda>d i. exact_fill) 1 0) = [SizeQuery, Fill 12]
   \<and> units_read (fst (nativeGetPageLabel 64 (\<lambda>d i. exact_fill) 1 0)) = 2
   \<and> reads_only_written (fst (nativeGetPageLabel 64 (\<lambda>d i. exact_fill) 1 0))
   \<and> snd (nativeGetAnnotContents (\<lambda>a k. exact_fill) 1) = [SizeQuery, Fill 6]
   \<and> units_read (fst (nativeGetAnnotContents (\<lambda>a k. exact_fill) 1)) = 2
   \<and> reads_only_written (fst (nativeGetAnnotContents (\<lambda>a k. exact_fill) 1))
   \<and> needed_bytes exact_bytes = 3
   \<and> written_bytes 1 exact_bytes 3 = 3
   \<and> last (units_stored 1 exact_bytes 3) = 0
   \<and> 0 \<notin> set (butlast (units_stored 1 exact_bytes 3))
   \<and> snd (nativeGetSignatureReason (\<lambda>s. exact_bytes) 1) = [SizeQuery, Fill 3]
   \<and> units_read (fst (nativeGetSignatureReason (\<lambda>s. exact_bytes) 1)) = 2
   \<and> reads_only_written (fst (nativeGetSignatureReason (\<lambda>s. exact_bytes) 1))
   \<and> snd (nativeGetLinkURI (\<lambda>l. 1) (\<lambda>d a. exact_bytes) 1 1) =
       [HandleLookup, SizeQuery, Fill 3]
   \<and> units_read (fst (nativeGetLinkURI (\<lambda>l. 1) (\<lambda>d a. exact_bytes) 1 1)) = 2
   \<and> sint (url_size exact_url) = 3
   \<and> length (take 3 (url_units exact_url)) = 3
   \<and> snd (nativeGetWebLinkURL (\<lambda>p i. exact_url) 1 0) = [SizeQuery, Fill 3]
   \<and> units_read (fst (nativeGetWebLinkURL (\<lambda>p i. exact_url) 1 0)) = 2
   \<and> reads_only_written (fst (nativeGetWebLinkURL (\<lambda>p i. exact_url) 1 0))"
proof -
  have h: "(1 :: jlong) \<noteq> 0" by simp
  have a: "needed_bytes (absent_field :: jchar text_query) = 0"
    "needed_bytes (absent_field :: jbyte text_query) = 0"
    by (simp_all add: absent_field_def)
  have e: "needed_bytes exact_fill = 6"
    "written_bytes 2 exact_fill 6 = 6" "written_bytes 2 exact_fill 12 = 6"
    by (simp_all add: exact_fill_def written_bytes_def units_stored_def)
  have b: "needed_bytes exact_bytes = 3" "written_bytes 1 exact_bytes 3 = 3"
    "last (units_stored 1 exact_bytes 3) = 0"
    "0 \<notin> set (butlast (units_stored 1 exact_bytes 3))"
    by (simp_all add: exact_bytes_def written_bytes_def units_stored_def)
  have u: "sint (url_size exact_url) = 3" "length (take 3 (url_units exact_url)) = 3"
    by (simp_all add: exact_url_def)
  note absent = two_phase_string_protocol[where docPtr = 1 and bookmarkPtr = 1
      and linkPtr = 1 and annotPtr = 1 and formPtr = 1 and structElemPtr = 1
      and sigObjPtr = 1 and pageLinksPtr = 1 and actionPtr = 1
      and FPDF_GetMetaText = "\<lambda>d t. absent_field" and tag = "''Title''"
      and FPDF_GetPageLabel = "\<lambda>d i. absent_field" and pageIndex = 0 and ulong_bits = 64
      and FPDFAnnot_GetStringValue = "\<lambda>a k. absent_field"
      and FPDFDoc_GetAttachment = "\<lambda>d i. 1" and FPDFAttachment_GetName = "\<lambda>a. absent_field"
      and index = 0
      and FPDFSignatureObj_GetReason = "\<lambda>s. absent_field"
      and FPDFLink_GetAction = "\<lambda>l. 1" and FPDFAction_GetURIPath = "\<lambda>d a. absent_field"]
  note exact = two_phase_string_protocol[where docPtr = 1 and bookmarkPtr = 1
      and linkPtr = 1 and annotPtr = 1 and formPtr = 1 and structElemPtr = 1
      and sigObjPtr = 1 and pageLinksPtr = 1 and actionPtr = 1
      and FPDF_GetMetaText = "\<lambda>d t. exact_fill" and tag = "''Title''"
      and FPDF_GetPageLabel = "\<lambda>d i. exact_fill" and pageIndex = 0 and ulong_bits = 64
      and FPDFAnnot_GetStringValue = "\<lambda>a k. exact_fill"
      and FPDFSignatureObj_GetReason = "\<lambda>s. exact_bytes"
      and FPDFLink_GetAction = "\<lambda>l. 1" and FPDFAction_GetURIPath = "\<lambda>d a. exact_bytes"
      and FPDFLink_GetURL = "\<lambda>p i. exact_url" and index = 0]
  from absent a
  have r1: "nativeGetMetaText (\<lambda>d t. absent_field) 1 ''Title'' = (NewStringUTF_empty, [SizeQuery])"
    "nativeGetPageLabel 64 (\<lambda>d i. absent_field) 1 0 = (NewStringUTF_empty, [SizeQuery])"
    "nativeGetAnnotContents (\<lambda>a k. absent_field) 1 = (NewStringUTF_empty, [SizeQuery])"
    "nativeGetAttachmentName (\<lambda>d i. 1) (\<lambda>a. absent_field) 1 0 =
       (NewStringUTF_empty, [HandleLookup, SizeQuery])"
    "nativeGetSignatureReason (\<lambda>s. absent_field) 1 = (NewStringUTF_empty, [SizeQuery])"
    "nativeGetLinkURI (\<lambda>l. 1) (\<lambda>d a. absent_field) 1 1 = (JNull, [HandleLookup, SizeQuery])"
    by (simp_all add: wide_protocol_def byte_protocol_def Let_def)
  from exact e
  have r2: "snd (nativeGetMetaText (\<lambda>d t. exact_fill) 1 ''Title'') = [SizeQuery, Fill 6]"
    "units_read (fst (nativeGetMetaText (\<lambda>d t. exact_fill) 1 ''Title'')) = 2"
    "reads_only_written (fst (nativeGetMetaText (\<lambda>d t. exact_fill) 1 ''Title''))"
    "snd (nativeGetPageLabel 64 (\<lambda>d i. exact_fill) 1 0) = [SizeQuery, Fill 12]"
    "units_read (fst (nativeGetPageLabel 64 (\<lambda>d i. exact_fill) 1 0)) = 2"
    "reads_only_written (fst (nativeGetPageLabel 64 (\<lambda>d i. exact_fill) 1 0))"
    "snd (nativeGetAnnotContents (\<lambda>a k. exact_fill) 1) = [SizeQuery, Fill 6]"
    "units_read (fst (nativeGetAnnotContents (\<lambda>a k. exact_fill) 1)) = 2"
    "reads_only_written (fst (nativeGetAnnotContents (\<lambda>a k. exact_fill) 1))"
    by (simp_all add: wide_protocol_def Let_def)
  from exact b
  have r3: "snd (nativeGetSignatureReason (\<lambda>s. exact_bytes) 1) = [SizeQuery, Fill 3]"
    "units_read (fst (nativeGetSignatureReason (\<lambda>s. exact_bytes) 1)) = 2"
    "reads_only_written (fst (nativeGetSignatureReason (\<lambda>s. exact_bytes) 1))"
    "snd (nativeGetLinkURI (\<lambda>l. 1) (\<lambda>d a. exact_bytes) 1 1) =
       [HandleLookup, SizeQuery, Fill 3]"
    "units_read (fst (nativeGetLinkURI (\<lambda>l. 1) (\<lambda>d a. exact_bytes) 1 1)) = 2"
    by (simp_all add: byte_protocol_def Let_def)
  from exact u
  have r4: "snd (nativeGetWebLinkURL (\<lambda>p i. exact_url) 1 0) = [SizeQuery, Fill 3]"
    "units_read (fst (nativeGetWebLinkURL (\<lambda>p i. exact_url) 1 0)) = 2"
    "reads_only_written (fst (nativeGetWebLinkURL (\<lambda>p i. exact_url) 1 0))"
    by (simp_all add: url_protocol_def Let_def)
  from h a(1) r1(1-4) a(2) r1(5,6) e r2 b r3 u r4 show ?thesis by (intro conjI)
qed

subsection \<open>Progressive rendering\<close>

lemma rasterize_without_pause: "fst (rasterize None n k) = FPDF_RENDER_DONE"
  by (induction n arbitrary: k) simp_all

lemma cooperative_pauses_only_when_asked: "pauses_only_when_asked cooperative_pdfium"
  by (simp add: pauses_only_when_asked_def cooperative_pdfium_def terminal_status_def
      rasterize_without_pause)

text \<open>
  Claim C8 fails as stated. The exported calls have no parameter for a pause predicate
  and pass the null pointer in its place. With a rasterizer that would stop after its
  first step when given a predicate that always answers yes, the exported start call
  runs the three steps to the end in one go: it returns "done", no continue call is
  needed and no predicate is asked.
\<close>

theorem pause_predicate_is_not_honoured_counterexample:
  "fst (render_start cooperative_pdfium (Some always_pause) three_steps) =
     FPDF_RENDER_TOBECONTINUED
   \<and> nativeRenderPageBitmapStart sample_raster cooperative_pdfium (Some rgba_surface) 5
        0 0 2 2 0 0 three_steps =
       (FPDF_RENDER_DONE, \<lparr>work_left = 0, questions_asked = 0\<rparr>,
        [AndroidBitmap_getInfo, AndroidBitmap_lockPixels,
         FPDFBitmap_CreateEx 2 2 FPDFBitmap_BGRA 8,
         FPDFBitmap_FillRect 7 0 0 2 2 opaque_white,
         FPDF_RenderPageBitmap_Start 7 5 0 0 2 2 0 0 None,
         FPDFBitmap_Destroy 7, AndroidBitmap_unlockPixels])"
  by (simp add: cooperative_pdfium_def always_pause_def three_steps_def
      nativeRenderPageBitmapStart_def sample_raster_def rgba_surface_def
      ANDROID_BITMAP_RESULT_SUCCESS_def numeral_3_eq_3)

lemma start_calls_pass_no_pause:
  "list_all (\<lambda>c. pause_passed c = None)
     (snd (snd (nativeRenderPageBitmapStart pdfium prog bitmap pagePtr startX startY
        drawWidth drawHeight rot flags r)))"
  by (simp add: nativeRenderPageBitmapStart_def Let_def split: option.splits prod.splits)

lemma start_status:
  "fst (nativeRenderPageBitmapStart pdfium prog bitmap pagePtr startX startY
        drawWidth drawHeight rot flags r) = FPDF_RENDER_FAILED \<or>
   fst (nativeRenderPageBitmapStart pdfium prog bitmap pagePtr startX startY
        drawWidth drawHeight rot flags r) = fst (render_start prog None r)"
  by (simp add: nativeRenderPageBitmapStart_def Let_def split: option.splits prod.splits)

lemma continue_status:
  "fst (nativeRenderPageContinue prog pagePtr r) = FPDF_RENDER_FAILED \<or>
   fst (nativeRenderPageContinue prog pagePtr r) = fst (render_continue prog None r)"
  by (simp add: nativeRenderPageContinue_def Let_def split: prod.splits)

text \<open>
  Claim C8, amended. \<^verbatim>\<open>nativeRenderPageBitmapStart\<close> and \<^verbatim>\<open>nativeRenderPageContinue\<close>
  hand no pause predicate to the library, whatever the caller holds; so with a library
  that pauses only when a predicate asks for it, a single start call ends in a terminal
  status (done or failed), and so does any continue call.
\<close>

theorem progressive_render_passes_no_pause:
  assumes "pauses_only_when_asked prog"
  shows "terminal_status (fst (nativeRenderPageBitmapStart pdfium prog bitmap pagePtr
           startX startY drawWidth drawHeight rot flags r))
       \<and> terminal_status (fst (nativeRenderPageContinue prog pagePtr r))
       \<and> list_all (\<lambda>c. pause_passed c = None)
           (snd (snd (nativeRenderPageBitmapStart pdfium prog bitmap pagePtr startX startY
              drawWidth drawHeight rot flags r)))
       \<and> list_all (\<lambda>c. pause_passed c = None)
           (snd (snd (nativeRenderPageContinue prog pagePtr r)))"
proof -
  from assms have t: "terminal_status (fst (render_start prog None r))"
    "terminal_status (fst (render_continue prog None r))"
    by (simp_all add: pauses_only_when_asked_def)
  have f: "terminal_status FPDF_RENDER_FAILED" by (simp add: terminal_status_def)
  from start_status[of pdfium prog bitmap pagePtr startX startY drawWidth drawHeight rot flags r]
    t(1) f
  have a: "terminal_status (fst (nativeRenderPageBitmapStart pdfium prog bitmap pagePtr
           startX startY drawWidth drawHeight rot flags r))" by auto
  from continue_status[of prog pagePtr r] t(2) f
  have b: "terminal_status (fst (nativeRenderPageContinue prog pagePtr r))" by auto
  have c: "list_all (\<lambda>c. pause_passed c = None)
           (snd (snd (nativeRenderPageContinue prog pagePtr r)))"
    by (simp add: nativeRenderPageContinue_def Let_def split: prod.splits)
  from a b c start_calls_pass_no_pause[of pdfium prog bitmap pagePtr startX startY drawWidth
      drawHeight rot flags r]
  show ?thesis by simp
qed

theorem progressive_render_passes_no_pause_witness:
  "pauses_only_when_asked cooperative_pdfium
   \<and> terminal_status (fst (nativeRenderPageBitmapStart sample_raster cooperative_pdfium
        (Some rgba_surface) 5 0 0 2 2 0 0 three_steps))
   \<and> terminal_status (fst (nativeRenderPageContinue cooperative_pdfium 5 three_steps))
   \<and> list_all (\<lambda>c. pause_passed c = None)
        (snd (snd (nativeRenderPageBitmapStart sample_raster cooperative_pdfium
           (Some rgba_surface) 5 0 0 2 2 0 0 three_steps)))
   \<and> list_all (\<lambda>c. pause_passed c = None)
        (snd (snd (nativeRenderPageContinue cooperative_pdfium 5 three_steps)))"
  using progressive_render_passes_no_pause[OF cooperative_pauses_only_when_asked,
      of sample_raster "Some rgba_surface" 5 0 0 2 2 0 0 three_steps]
    cooperative_pauses_only_when_asked
  by simp

subsection \<open>Documents and their source buffers\<close>

lemma log_calls_fields [simp]:
  "g_docBuffers (log_calls cs s) = g_docBuffers s"
  "allocated (log_calls cs s) = allocated s"
  "double_free (log_calls cs s) = double_free s"
  "open_documents (log_calls cs s) = open_documents s"
  "doc_calls (log_calls cs s) = doc_calls s @ cs"
  by (simp_all add: log_calls_def)

lemma new_array_fields [simp]:
  "g_docBuffers (new_array p n s) = g_docBuffers s"
  "allocated (new_array p n s) = (if p = 0 then allocated s else insert p (allocated s))"
  "double_free (new_array p n s) = double_free s"
  "open_documents (new_array p n s) = open_documents s"
  "doc_calls (new_array p n s) = doc_calls s @ [NewArray n]"
  by (simp_all add: new_array_def)

lemma delete_array_fields [simp]:
  "g_docBuffers (delete_array p s) = g_docBuffers s"
  "allocated (delete_array p s) = (if p = 0 then allocated s else allocated s - {p})"
  "double_free (delete_array p s) = (double_free s \<or> (p \<noteq> 0 \<and> p \<notin> allocated s))"
  "open_documents (delete_array p s) = open_documents s"
  "doc_calls (delete_array p s) = doc_calls s @ [DeleteArray p]"
  by (simp_all add: delete_array_def)

lemma open_mem_refused:
  assumes "load_mem env data (int (length data)) password = 0" and "new_block env \<notin> allocated s"
  shows "fst (nativeOpenMemDocument env data password s) = 0"
    and "ownership_unchanged s (snd (nativeOpenMemDocument env data password s))"
  using assms by (auto simp add: nativeOpenMemDocument_def Let_def ownership_unchanged_def)

lemma open_mem_accepted:
  assumes "load_mem env data (int (length data)) password \<noteq> 0" and "new_block env \<noteq> 0"
  shows "fst (nativeOpenMemDocument env data password s) = load_mem env data (int (length data)) password"
    and "g_docBuffers (snd (nativeOpenMemDocument env data password s)) =
           (g_docBuffers s)(load_mem env data (int (length data)) password \<mapsto> new_block env)"
    and "allocated (snd (nativeOpenMemDocument env data password s)) =
           insert (new_block env) (allocated s)"
    and "double_free (snd (nativeOpenMemDocument env data password s)) = double_free s"
    and "open_documents (snd (nativeOpenMemDocument env data password s)) =
           (open_documents s)(load_mem env data (int (length data)) password \<mapsto> ViaBytes)"
  using assms by (simp_all add: nativeOpenMemDocument_def Let_def)

lemma open_path_refused:
  assumes "load_path env path password = 0"
  shows "fst (nativeOpenDocumentPath env path password s) = 0"
    and "ownership_unchanged s (snd (nativeOpenDocumentPath env path password s))"
  using assms by (simp_all add: nativeOpenDocumentPath_def Let_def ownership_unchanged_def)

lemma open_path_accepted:
  assumes "load_path env path password \<noteq> 0"
  shows "fst (nativeOpenDocumentPath env path password s) = load_path env path password"
    and "g_docBuffers (snd (nativeOpenDocumentPath env path password s)) = g_docBuffers s"
    and "allocated (snd (nativeOpenDocumentPath env path password s)) = allocated s"
    and "double_free (snd (nativeOpenDocumentPath env path password s)) = double_free s"
    and "open_documents (snd (nativeOpenDocumentPath env path password s)) =
           (open_documents s)(load_path env path password \<mapsto> ViaPath)"
  using assms by (simp_all add: nativeOpenDocumentPath_def Let_def)

text \<open>The descriptor route, by the way it ends.\<close>

lemma open_fd_empty:
  assumes "lseek_end env \<le> 0"
  shows "nativeOpenDocument env fd password s = (0, log_calls [Lseek fd] s)"
  using assms by (simp add: nativeOpenDocument_def Let_def)

lemma open_fd_no_memory:
  assumes "0 < lseek_end env" and "new_block env = 0"
  shows "nativeOpenDocument env fd password s =
           (0, new_array 0 (nat (lseek_end env)) (log_calls [Lseek fd, Lseek fd] s))"
  using assms by (simp add: nativeOpenDocument_def Let_def log_calls_def)

lemma open_fd_read_failed:
  assumes "0 < lseek_end env" and "new_block env \<noteq> 0"
    and "read_loop fd (reads env) (nat (lseek_end env)) [] = (None, rcalls)"
  shows "nativeOpenDocument env fd password s =
           (0, delete_array (new_block env)
                 (log_calls rcalls
                    (new_array (new_block env) (nat (lseek_end env))
                       (log_calls [Lseek fd, Lseek fd] s))))"
  using assms by (simp add: nativeOpenDocument_def Let_def log_calls_def)

lemma open_fd_load_refused:
  assumes "0 < lseek_end env" and "new_block env \<noteq> 0"
    and "read_loop fd (reads env) (nat (lseek_end env)) [] = (Some bytes, rcalls)"
    and "load_mem env bytes (to_int32 (lseek_end env)) password = 0"
  shows "nativeOpenDocument env fd password s =
           (0, delete_array (new_block env)
                 (log_calls (rcalls @ [FPDF_LoadMemDocument (new_block env) bytes (to_int32 (lseek_end env)) password])
                    (new_array (new_block env) (nat (lseek_end env))
                       (log_calls [Lseek fd, Lseek fd] s))))"
  using assms by (simp add: nativeOpenDocument_def Let_def log_calls_def)

lemma open_fd_accepted:
  assumes "0 < lseek_end env" and "new_block env \<noteq> 0"
    and "read_loop fd (reads env) (nat (lseek_end env)) [] = (Some bytes, rcalls)"
    and "load_mem env bytes (to_int32 (lseek_end env)) password \<noteq> 0"
  shows "fst (nativeOpenDocument env fd password s) = load_mem env bytes (to_int32 (lseek_end env)) password"
    and "g_docBuffers (snd (nativeOpenDocument env fd password s)) =
           (g_docBuffers s)(load_mem env bytes (to_int32 (lseek_end env)) password \<mapsto> new_block env)"
    and "allocated (snd (nativeOpenDocument env fd password s)) =
           insert (new_block env) (allocated s)"
    and "double_free (snd (nativeOpenDocument env fd password s)) = double_free s"
    and "open_documents (snd (nativeOpenDocument env fd password s)) =
           (open_documents s)(load_mem env bytes (to_int32 (lseek_end env)) password \<mapsto> ViaDescriptor)"
    and "doc_calls (snd (nativeOpenDocument env fd password s)) =
           doc_calls s @ [Lseek fd, Lseek fd, NewArray (nat (lseek_end env))] @ rcalls @
             [FPDF_LoadMemDocument (new_block env) bytes (to_int32 (lseek_end env)) password,
              PageCountQuery (load_mem env bytes (to_int32 (lseek_end env)) password)]"
  using assms by (simp_all add: nativeOpenDocument_def Let_def)

lemma open_fd_zero_unchanged:
  assumes "new_block env \<notin> allocated s"
    and "fst (nativeOpenDocument env fd password s) = 0"
  shows "ownership_unchanged s (snd (nativeOpenDocument env fd password s))"
proof (cases "lseek_end env \<le> 0")
  case True
  then show ?thesis by (simp add: open_fd_empty ownership_unchanged_def)
next
  case False
  then have pos: "0 < lseek_end env" by simp
  show ?thesis
  proof (cases "new_block env = 0")
    case True
    with pos show ?thesis by (simp add: open_fd_no_memory ownership_unchanged_def)
  next
    case nz: False
    obtain filled rcalls where
      rl: "read_loop fd (reads env) (nat (lseek_end env)) [] = (filled, rcalls)"
      by (cases "read_loop fd (reads env) (nat (lseek_end env)) []") auto
    show ?thesis
    proof (cases filled)
      case None
      with rl assms(1) nz show ?thesis
        by (simp add: open_fd_read_failed[OF pos nz] ownership_unchanged_def) 
    next
      case (Some bytes)
      show ?thesis
      proof (cases "load_mem env bytes (to_int32 (lseek_end env)) password = 0")
        case True
        with rl Some assms(1) nz show ?thesis
          by (simp add: open_fd_load_refused[OF pos nz] ownership_unchanged_def)
      next
        case False
        with open_fd_accepted(1)[OF pos nz _ False, of fd rcalls s] rl Some assms(2)
        show ?thesis by simp
      qed
    qed
  qed
qed


lemma inv_unchanged:
  "ownership_unchanged s s' \<Longrightarrow> ownership_inv s \<Longrightarrow> ownership_inv s'"
  by (simp add: ownership_unchanged_def ownership_inv_def buffered_documents_def)

lemma inv_unregistered:
  assumes "ownership_inv s" and "open_documents s h = None"
  shows "g_docBuffers s h = None"
proof -
  from assms(2) have "h \<notin> buffered_documents s" by (simp add: buffered_documents_def)
  with assms(1) show ?thesis unfolding ownership_inv_def by blast
qed

lemma inv_register:
  assumes inv: "ownership_inv s"
    and b: "b \<notin> allocated s" "b \<noteq> 0"
    and h: "h \<noteq> 0" "open_documents s h = None"
    and r: "r = ViaBytes \<or> r = ViaDescriptor"
    and s': "g_docBuffers s' = (g_docBuffers s)(h \<mapsto> b)"
      "allocated s' = insert b (allocated s)"
      "double_free s' = double_free s"
      "open_documents s' = (open_documents s)(h \<mapsto> r)"
  shows "ownership_inv s'"
proof -
  from inv have i1: "\<And>x. (g_docBuffers s x \<noteq> None) = (x \<in> buffered_documents s)"
    and i2: "\<And>x y. g_docBuffers s x = Some y \<Longrightarrow> y \<in> allocated s"
    and i3: "\<And>y. y \<in> allocated s \<Longrightarrow> \<exists>!x. g_docBuffers s x = Some y"
    and i4: "\<not> double_free s" "open_documents s 0 = None" "0 \<notin> allocated s"
    unfolding ownership_inv_def by blast+
  have hn: "g_docBuffers s h = None" by (rule inv_unregistered[OF inv h(2)])
  have c1: "\<forall>x. (g_docBuffers s' x \<noteq> None) = (x \<in> buffered_documents s')"
    using i1 r by (auto simp add: s' buffered_documents_def)
  have c2: "\<forall>x y. g_docBuffers s' x = Some y \<longrightarrow> y \<in> allocated s'"
    using i2 by (auto simp add: s')
  have c3: "\<forall>y\<in>allocated s'. \<exists>!x. g_docBuffers s' x = Some y"
  proof
    fix y assume "y \<in> allocated s'"
    then consider "y = b" | "y \<in> allocated s" "y \<noteq> b" using b(1) by (auto simp add: s')
    then show "\<exists>!x. g_docBuffers s' x = Some y"
    proof cases
      case 1
      have "g_docBuffers s' h = Some y" using 1 by (simp add: s')
      moreover have "\<And>x. g_docBuffers s' x = Some y \<Longrightarrow> x = h"
        using 1 b(1) i2 by (auto simp add: s' split: if_splits)
      ultimately show ?thesis by blast
    next
      case 2
      from i3[OF 2(1)] obtain x where x: "g_docBuffers s x = Some y"
        "\<And>z. g_docBuffers s z = Some y \<Longrightarrow> z = x" by blast
      from x(1) hn have "x \<noteq> h" by auto
      with x(1) have "g_docBuffers s' x = Some y" by (simp add: s')
      moreover have "\<And>z. g_docBuffers s' z = Some y \<Longrightarrow> z = x"
        using x(2) 2(2) by (auto simp add: s' split: if_splits)
      ultimately show ?thesis by blast
    qed
  qed
  have c4: "\<not> double_free s'" "open_documents s' 0 = None" "0 \<notin> allocated s'"
    using i4 b(2) h(1) by (auto simp add: s')
  from c1 c2 c3 c4 show ?thesis unfolding ownership_inv_def by blast
qed

lemma inv_path:
  assumes inv: "ownership_inv s"
    and h: "h \<noteq> 0" "open_documents s h = None"
    and s': "g_docBuffers s' = g_docBuffers s"
      "allocated s' = allocated s"
      "double_free s' = double_free s"
      "open_documents s' = (open_documents s)(h \<mapsto> ViaPath)"
  shows "ownership_inv s'"
proof -
  have hn: "g_docBuffers s h = None" by (rule inv_unregistered[OF inv h(2)])
  have "buffered_documents s' = buffered_documents s"
    using h(2) by (auto simp add: buffered_documents_def s')
  with inv hn h show ?thesis
    unfolding ownership_inv_def by (simp add: s')
qed

lemma close_null: "nativeCloseDocument 0 s = s"
  by (simp add: nativeCloseDocument_def)

lemma close_unregistered:
  assumes "docPtr \<noteq> 0" and "g_docBuffers s docPtr = None"
  shows "g_docBuffers (nativeCloseDocument docPtr s) = g_docBuffers s"
    and "allocated (nativeCloseDocument docPtr s) = allocated s"
    and "double_free (nativeCloseDocument docPtr s) = double_free s"
    and "open_documents (nativeCloseDocument docPtr s) = (open_documents s)(docPtr := None)"
  using assms by (simp_all add: nativeCloseDocument_def Let_def)

lemma close_registered:
  assumes "docPtr \<noteq> 0" and "g_docBuffers s docPtr = Some b"
  shows "g_docBuffers (nativeCloseDocument docPtr s) = (g_docBuffers s)(docPtr := None)"
    and "allocated (nativeCloseDocument docPtr s) =
           (if b = 0 then allocated s else allocated s - {b})"
    and "double_free (nativeCloseDocument docPtr s) =
           (double_free s \<or> (b \<noteq> 0 \<and> b \<notin> allocated s))"
    and "open_documents (nativeCloseDocument docPtr s) = (open_documents s)(docPtr := None)"
  using assms by (simp_all add: nativeCloseDocument_def Let_def)

lemma inv_close:
  assumes inv: "ownership_inv s"
  shows "ownership_inv (nativeCloseDocument h s)"
proof (cases "h = 0")
  case True
  with inv show ?thesis by (simp add: close_null)
next
  case hz: False
  from inv have i1: "\<And>x. (g_docBuffers s x \<noteq> None) = (x \<in> buffered_documents s)"
    and i2: "\<And>x y. g_docBuffers s x = Some y \<Longrightarrow> y \<in> allocated s"
    and i3: "\<And>y. y \<in> allocated s \<Longrightarrow> \<exists>!x. g_docBuffers s x = Some y"
    and i4: "\<not> double_free s" "open_documents s 0 = None" "0 \<notin> allocated s"
    unfolding ownership_inv_def by blast+
  let ?s = "nativeCloseDocument h s"
  show ?thesis
  proof (cases "g_docBuffers s h")
    case None
    note f = close_unregistered[OF hz None]
    from None i1 have nb: "h \<notin> buffered_documents s" by blast
    have "buffered_documents ?s = buffered_documents s"
      using nb by (auto simp add: buffered_documents_def f)
    with inv show ?thesis unfolding ownership_inv_def by (simp add: f)
  next
    case (Some b)
    note f = close_registered[OF hz Some]
    from i2[OF Some] have ba: "b \<in> allocated s" .
    with i4 have bz: "b \<noteq> 0" by auto
    have bd: "buffered_documents ?s = buffered_documents s - {h}"
      by (auto simp add: buffered_documents_def f)
    have c1: "\<forall>x. (g_docBuffers ?s x \<noteq> None) = (x \<in> buffered_documents ?s)"
      using i1 by (auto simp add: f bd)
    have c2: "\<forall>x y. g_docBuffers ?s x = Some y \<longrightarrow> y \<in> allocated ?s"
    proof (intro allI impI)
      fix x y assume a: "g_docBuffers ?s x = Some y"
      then have xh: "x \<noteq> h" and xy: "g_docBuffers s x = Some y"
        by (auto simp add: f split: if_splits)
      from i3[OF ba] Some xy xh have "y \<noteq> b" by auto
      with i2[OF xy] bz show "y \<in> allocated ?s" by (simp add: f)
    qed
    have c3: "\<forall>y\<in>allocated ?s. \<exists>!x. g_docBuffers ?s x = Some y"
    proof
      fix y assume "y \<in> allocated ?s"
      with bz have y: "y \<in> allocated s" "y \<noteq> b" by (auto simp add: f)
      from i3[OF y(1)] obtain x where x: "g_docBuffers s x = Some y"
        "\<And>z. g_docBuffers s z = Some y \<Longrightarrow> z = x" by blast
      from x(1) Some y(2) have "x \<noteq> h" by auto
      with x(1) have "g_docBuffers ?s x = Some y" by (simp add: f)
      moreover have "\<And>z. g_docBuffers ?s z = Some y \<Longrightarrow> z = x"
        using x(2) by (auto simp add: f split: if_splits)
      ultimately show "\<exists>!x. g_docBuffers ?s x = Some y" by blast
    qed
    have c4: "\<not> double_free ?s" "open_documents ?s 0 = None" "0 \<notin> allocated ?s"
      using i4 ba bz by (auto simp add: f)
    from c1 c2 c3 c4 show ?thesis unfolding ownership_inv_def by blast
  qed
qed

lemma inv_initial: "ownership_inv initial_doc_world"
  by (simp add: ownership_inv_def initial_doc_world_def buffered_documents_def)

lemma inv_step:
  assumes inv: "ownership_inv s" and ok: "environment_sound c s"
  shows "ownership_inv (step c s)"
proof (cases c)
  case (OpenDocument env fd password)
  from ok have fb: "new_block env \<notin> allocated s"
    by (simp add: OpenDocument fresh_block_def)
  show ?thesis
  proof (cases "fst (nativeOpenDocument env fd password s) = 0")
    case True
    from inv_unchanged[OF open_fd_zero_unchanged[OF fb True] inv]
    show ?thesis by (simp add: OpenDocument)
  next
    case nz: False
    have pos: "0 < lseek_end env"
    proof (rule ccontr)
      assume "\<not> 0 < lseek_end env"
      then have "lseek_end env \<le> 0" by simp
      from open_fd_empty[OF this] nz show False by simp
    qed
    have bz: "new_block env \<noteq> 0"
    proof
      assume "new_block env = 0"
      from open_fd_no_memory[OF pos this] nz show False by simp
    qed
    obtain filled rcalls where
      rl: "read_loop fd (reads env) (nat (lseek_end env)) [] = (filled, rcalls)"
      by (cases "read_loop fd (reads env) (nat (lseek_end env)) []") auto
    have "filled \<noteq> None"
    proof
      assume "filled = None"
      with rl open_fd_read_failed[OF pos bz, of fd rcalls password s] nz show False by simp
    qed
    then obtain bytes where bytes: "filled = Some bytes" by auto
    have lz: "load_mem env bytes (to_int32 (lseek_end env)) password \<noteq> 0"
    proof
      assume "load_mem env bytes (to_int32 (lseek_end env)) password = 0"
      with rl bytes open_fd_load_refused[OF pos bz, of fd bytes rcalls password s] nz
      show False by simp
    qed
    from rl bytes have rl': "read_loop fd (reads env) (nat (lseek_end env)) [] = (Some bytes, rcalls)"
      by simp
    note f = open_fd_accepted[OF pos bz rl' lz, of s]
    from ok rl' lz have fh: "open_documents s (load_mem env bytes (to_int32 (lseek_end env)) password) = None"
      by (simp add: OpenDocument fresh_handle_def)
    from inv_register[OF inv fb bz lz fh _ f(2) f(3) f(4) f(5)]
    show ?thesis by (simp add: OpenDocument)
  qed
next
  case (OpenMemDocument env data password)
  from ok have fb: "new_block env \<notin> allocated s" and bz: "new_block env \<noteq> 0"
    and fh: "fresh_handle s (load_mem env data (int (length data)) password)"
    by (simp_all add: OpenMemDocument fresh_block_def)
  show ?thesis
  proof (cases "load_mem env data (int (length data)) password = 0")
    case True
    from inv_unchanged[OF open_mem_refused(2)[OF True fb] inv]
    show ?thesis by (simp add: OpenMemDocument)
  next
    case False
    note f = open_mem_accepted[OF False bz, of s]
    from fh False have "open_documents s (load_mem env data (int (length data)) password) = None"
      by (simp add: fresh_handle_def)
    from inv_register[OF inv fb bz False this _ f(2) f(3) f(4) f(5)]
    show ?thesis by (simp add: OpenMemDocument)
  qed
next
  case (OpenDocumentPath env path password)
  from ok have fh: "fresh_handle s (load_path env path password)"
    by (simp add: OpenDocumentPath)
  show ?thesis
  proof (cases "load_path env path password = 0")
    case True
    from inv_unchanged[OF open_path_refused(2)[OF True] inv]
    show ?thesis by (simp add: OpenDocumentPath)
  next
    case False
    note f = open_path_accepted[OF False, of s]
    from fh False have "open_documents s (load_path env path password) = None"
      by (simp add: fresh_handle_def)
    from inv_path[OF inv False this f(2) f(3) f(4) f(5)]
    show ?thesis by (simp add: OpenDocumentPath)
  qed
next
  case (CloseDocument h)
  from inv_close[OF inv] show ?thesis by (simp add: CloseDocument)
qed

lemma inv_run:
  "ownership_inv s \<Longrightarrow> sound_history cs s \<Longrightarrow> ownership_inv (run cs s)"
  by (induction cs arbitrary: s) (simp_all add: inv_step)

lemma inv_counts:
  assumes inv: "ownership_inv s"
  shows "outstanding_buffers s = card (buffered_documents s)"
proof -
  from inv have i1: "\<And>x. (g_docBuffers s x \<noteq> None) = (x \<in> buffered_documents s)"
    and i2: "\<And>x y. g_docBuffers s x = Some y \<Longrightarrow> y \<in> allocated s"
    and i3: "\<And>y. y \<in> allocated s \<Longrightarrow> \<exists>!x. g_docBuffers s x = Some y"
    unfolding ownership_inv_def by blast+
  have "bij_betw (\<lambda>h. the (g_docBuffers s h)) (buffered_documents s) (allocated s)"
    unfolding bij_betw_def
  proof
    show "inj_on (\<lambda>h. the (g_docBuffers s h)) (buffered_documents s)"
    proof (rule inj_onI)
      fix x y assume x: "x \<in> buffered_documents s" and y: "y \<in> buffered_documents s"
        and e: "the (g_docBuffers s x) = the (g_docBuffers s y)"
      from x y i1 obtain bx by' where b: "g_docBuffers s x = Some bx" "g_docBuffers s y = Some by'"
        by (metis not_None_eq)
      with e have "bx = by'" by simp
      with b i3[OF i2[OF b(1)]] show "x = y" by auto
    qed
    show "(\<lambda>h. the (g_docBuffers s h)) ` buffered_documents s = allocated s"
    proof (intro set_eqI iffI)
      fix y assume "y \<in> (\<lambda>h. the (g_docBuffers s h)) ` buffered_documents s"
      then obtain x where x: "x \<in> buffered_documents s" "y = the (g_docBuffers s x)" by auto
      from x(1) i1 obtain b where "g_docBuffers s x = Some b" by (metis not_None_eq)
      with x(2) i2 show "y \<in> allocated s" by auto
    next
      fix y assume "y \<in> allocated s"
      from i3[OF this] obtain x where x: "g_docBuffers s x = Some y" by blast
      with i1[of x] have "x \<in> buffered_documents s" by simp
      with x show "y \<in> (\<lambda>h. the (g_docBuffers s h)) ` buffered_documents s" by force
    qed
  qed
  from bij_betw_same_card[OF this] show ?thesis by (simp add: outstanding_buffers_def)
qed

lemma sys_read_le: "sys_read r n = (k, got) \<Longrightarrow> k \<le> int n"
  by (cases r) auto

lemma sys_read_length: "sys_read r n = (k, got) \<Longrightarrow> 0 < k \<Longrightarrow> length got = nat k"
  by (cases r) auto

lemma read_loop_stop: "read_loop fd script 0 buf = (Some buf, [])"
  by (cases script) simp_all

lemma read_loop_eof:
  "remaining \<noteq> 0 \<Longrightarrow> read_loop fd [] remaining buf = (None, [Read fd remaining 0])"
  by simp

lemma read_loop_fail:
  "remaining \<noteq> 0 \<Longrightarrow> sys_read r remaining = (k, got) \<Longrightarrow> k \<le> 0 \<Longrightarrow>
   read_loop fd (r # rest) remaining buf = (None, [Read fd remaining k])"
  by simp

lemma read_loop_more:
  "remaining \<noteq> 0 \<Longrightarrow> sys_read r remaining = (k, got) \<Longrightarrow> 0 < k \<Longrightarrow>
   read_loop fd rest (remaining - nat k) (buf @ got) = (res, cs) \<Longrightarrow>
   read_loop fd (r # rest) remaining buf = (res, Read fd remaining k # cs)"
  by simp


lemma read_loop_done:
  "read_loop fd script remaining buf = (Some bytes, calls) \<Longrightarrow>
     length bytes = length buf + remaining \<and>
     (\<forall>c\<in>set calls. 0 < read_returned c) \<and>
     sum_list (map read_returned calls) = int remaining"
proof (induction script arbitrary: remaining buf bytes calls)
  case Nil
  show ?case
  proof (cases "remaining = 0")
    case True
    with Nil read_loop_stop[of fd "[]" buf] show ?thesis by simp
  next
    case False
    from read_loop_eof[OF False, of fd buf] Nil show ?thesis by simp
  qed
next
  case (Cons r rest)
  show ?case
  proof (cases "remaining = 0")
    case True
    with Cons.prems read_loop_stop[of fd "r # rest" buf] show ?thesis by simp
  next
    case False
    obtain k got where sr: "sys_read r remaining = (k, got)" by (cases "sys_read r remaining")
    have kpos: "0 < k"
    proof (rule ccontr)
      assume "\<not> 0 < k"
      then have "k \<le> 0" by simp
      from read_loop_fail[OF False sr this, of fd rest buf] Cons.prems show False by simp
    qed
    obtain res cs where rl:
      "read_loop fd rest (remaining - nat k) (buf @ got) = (res, cs)"
      by (cases "read_loop fd rest (remaining - nat k) (buf @ got)")
    from read_loop_more[OF False sr kpos rl] Cons.prems
    have res: "res = Some bytes" and calls: "calls = Read fd remaining k # cs" by simp_all
    from rl res have "read_loop fd rest (remaining - nat k) (buf @ got) = (Some bytes, cs)"
      by simp
    from Cons.IH[OF this]
    have ih: "length bytes = length (buf @ got) + (remaining - nat k)"
      "\<forall>c\<in>set cs. 0 < read_returned c"
      "sum_list (map read_returned cs) = int (remaining - nat k)" by blast+
    from sys_read_le[OF sr] sys_read_length[OF sr kpos]
    have b: "k \<le> int remaining" "length got = nat k" .
    from ih(1) b kpos have l: "length bytes = length buf + remaining" by simp
    from ih(2) kpos have p: "\<forall>c\<in>set calls. 0 < read_returned c" by (simp add: calls)
    from ih(3) b kpos have t: "sum_list (map read_returned calls) = int remaining"
      by (simp add: calls)
    from l p t show ?thesis by blast
  qed
qed

lemma read_loop_failed:
  "read_loop fd script remaining buf = (None, calls) \<Longrightarrow>
     calls \<noteq> [] \<and> read_returned (last calls) \<le> 0 \<and>
     (\<forall>c\<in>set (butlast calls). 0 < read_returned c)"
proof (induction script arbitrary: remaining buf calls)
  case Nil
  show ?case
  proof (cases "remaining = 0")
    case True
    with Nil read_loop_stop[of fd "[]" buf] show ?thesis by simp
  next
    case False
    from read_loop_eof[OF False, of fd buf] Nil have "calls = [Read fd remaining 0]" by simp
    then show ?thesis by simp
  qed
next
  case (Cons r rest)
  show ?case
  proof (cases "remaining = 0")
    case True
    with Cons.prems read_loop_stop[of fd "r # rest" buf] show ?thesis by simp
  next
    case False
    obtain k got where sr: "sys_read r remaining = (k, got)" by (cases "sys_read r remaining")
    show ?thesis
    proof (cases "k \<le> 0")
      case True
      from read_loop_fail[OF False sr True, of fd rest buf] Cons.prems
      have "calls = [Read fd remaining k]" by simp
      with True show ?thesis by simp
    next
      case nk: False
      then have kpos: "0 < k" by simp
      obtain res cs where rl:
        "read_loop fd rest (remaining - nat k) (buf @ got) = (res, cs)"
        by (cases "read_loop fd rest (remaining - nat k) (buf @ got)")
      from read_loop_more[OF False sr kpos rl] Cons.prems
      have res: "res = None" and calls: "calls = Read fd remaining k # cs" by simp_all
      from rl res have "read_loop fd rest (remaining - nat k) (buf @ got) = (None, cs)" by simp
      from Cons.IH[OF this]
      have ih: "cs \<noteq> []" "read_returned (last cs) \<le> 0"
        "\<forall>c\<in>set (butlast cs). 0 < read_returned c" by blast+
      from ih kpos show ?thesis by (simp add: calls)
    qed
  qed
qed

lemma read_loop_only_reads:
  "read_loop fd script remaining buf = (res, calls) \<Longrightarrow> \<forall>c\<in>set calls. \<not> is_load_call c"
proof (induction script arbitrary: remaining buf res calls)
  case Nil
  show ?case
  proof (cases "remaining = 0")
    case True
    with Nil read_loop_stop[of fd "[]" buf] show ?thesis by simp
  next
    case False
    from read_loop_eof[OF False, of fd buf] Nil have "calls = [Read fd remaining 0]" by simp
    then show ?thesis by simp
  qed
next
  case (Cons r rest)
  show ?case
  proof (cases "remaining = 0")
    case True
    with Cons.prems read_loop_stop[of fd "r # rest" buf] show ?thesis by simp
  next
    case False
    obtain k got where sr: "sys_read r remaining = (k, got)" by (cases "sys_read r remaining")
    show ?thesis
    proof (cases "k \<le> 0")
      case True
      from read_loop_fail[OF False sr True, of fd rest buf] Cons.prems
      have "calls = [Read fd remaining k]" by simp
      then show ?thesis by simp
    next
      case nk: False
      then have kpos: "0 < k" by simp
      obtain res' cs where rl:
        "read_loop fd rest (remaining - nat k) (buf @ got) = (res', cs)"
        by (cases "read_loop fd rest (remaining - nat k) (buf @ got)")
      from read_loop_more[OF False sr kpos rl] Cons.prems
      have calls: "calls = Read fd remaining k # cs" by simp
      from Cons.IH[OF rl] show ?thesis by (simp add: calls)
    qed
  qed
qed

text \<open>
  Claim C1. Take any history of open and close calls in which the environment keeps its
  side (the allocator hands out blocks that are not in use, the loader returns 0 or a
  handle no live document has). In the state it ends in, the number of outstanding
  buffers equals the number of live documents opened from bytes or from a descriptor;
  the table has an entry exactly for those documents, so none for a document opened by
  path; a registered buffer is still allocated (it was not freed before the close);
  every allocated buffer is registered under exactly one handle; nothing was freed
  twice; and closing a registered handle frees its buffer, removes the entry and frees
  nothing twice.
\<close>

theorem buffer_ownership:
  assumes "sound_history calls initial_doc_world"
    and "s = run calls initial_doc_world"
  shows "outstanding_buffers s = card (buffered_documents s)
       \<and> (\<forall>h. (\<exists>b. g_docBuffers s h = Some b) = (h \<in> buffered_documents s))
       \<and> (\<forall>h. open_documents s h = Some ViaPath \<longrightarrow> g_docBuffers s h = None)
       \<and> (\<forall>h b. g_docBuffers s h = Some b \<longrightarrow> b \<in> allocated s)
       \<and> (\<forall>b\<in>allocated s. \<exists>!h. g_docBuffers s h = Some b)
       \<and> \<not> double_free s
       \<and> (\<forall>h b. g_docBuffers s h = Some b \<longrightarrow>
             allocated (nativeCloseDocument h s) = allocated s - {b}
           \<and> g_docBuffers (nativeCloseDocument h s) = (g_docBuffers s)(h := None)
           \<and> \<not> double_free (nativeCloseDocument h s))"
proof -
  from inv_run[OF inv_initial assms(1)] assms(2) have inv: "ownership_inv s" by simp
  then have i1: "\<And>x. (g_docBuffers s x \<noteq> None) = (x \<in> buffered_documents s)"
    and i2: "\<And>x y. g_docBuffers s x = Some y \<Longrightarrow> y \<in> allocated s"
    and i3: "\<forall>y\<in>allocated s. \<exists>!x. g_docBuffers s x = Some y"
    and i4: "\<not> double_free s" "open_documents s 0 = None" "0 \<notin> allocated s"
    unfolding ownership_inv_def by blast+
  have a: "outstanding_buffers s = card (buffered_documents s)" by (rule inv_counts[OF inv])
  have b: "\<forall>h. (\<exists>b. g_docBuffers s h = Some b) = (h \<in> buffered_documents s)"
    using i1 by auto
  have c: "\<forall>h. open_documents s h = Some ViaPath \<longrightarrow> g_docBuffers s h = None"
  proof (intro allI impI)
    fix h assume "open_documents s h = Some ViaPath"
    then have "h \<notin> buffered_documents s" by (simp add: buffered_documents_def)
    with i1[of h] show "g_docBuffers s h = None" by simp
  qed
  have d: "\<forall>h b. g_docBuffers s h = Some b \<longrightarrow> b \<in> allocated s" using i2 by blast
  have e: "\<forall>h b. g_docBuffers s h = Some b \<longrightarrow>
             allocated (nativeCloseDocument h s) = allocated s - {b}
           \<and> g_docBuffers (nativeCloseDocument h s) = (g_docBuffers s)(h := None)
           \<and> \<not> double_free (nativeCloseDocument h s)"
  proof (intro allI impI)
    fix h b assume r: "g_docBuffers s h = Some b"
    from i2[OF r] have ba: "b \<in> allocated s" .
    with i4 have bz: "b \<noteq> 0" by auto
    have hz: "h \<noteq> 0"
    proof
      assume "h = 0"
      with i4(2) have "h \<notin> buffered_documents s" by (simp add: buffered_documents_def)
      with i1[of h] r show False by simp
    qed
    from close_registered[OF hz r] ba bz i4(1)
    show "allocated (nativeCloseDocument h s) = allocated s - {b}
           \<and> g_docBuffers (nativeCloseDocument h s) = (g_docBuffers s)(h := None)
           \<and> \<not> double_free (nativeCloseDocument h s)" by simp
  qed
  from a b c d i3 i4(1) e show ?thesis by blast
qed

theorem buffer_ownership_witness:
  "sound_history sample_history initial_doc_world
   \<and> outstanding_buffers (run sample_history initial_doc_world) =
       card (buffered_documents (run sample_history initial_doc_world))
   \<and> g_docBuffers (run sample_history initial_doc_world) 9 = Some 64
   \<and> g_docBuffers (run sample_history initial_doc_world) 10 = None
   \<and> allocated (run sample_history initial_doc_world) = {64}
   \<and> \<not> double_free (run sample_history initial_doc_world)"
proof -
  let ?e = sample_env and ?e' = "sample_env\<lparr>new_block := 65\<rparr>"
  let ?s0 = initial_doc_world
  let ?s1 = "snd (nativeOpenMemDocument ?e [1, 2] (Some ''secret'') ?s0)"
  let ?s2 = "snd (nativeOpenDocumentPath ?e ''a.pdf'' (Some ''secret'') ?s1)"
  let ?s3 = "snd (nativeOpenMemDocument ?e' [1, 2] (Some ''guess'') ?s2)"
  let ?s4 = "nativeCloseDocument 10 ?s3"
  have run: "run sample_history ?s0 = ?s4" by (simp add: sample_history_def)
  have l1: "load_mem ?e [1, 2] n (Some ''secret'') = 9"
    and l3: "load_mem ?e' [1, 2] n (Some ''guess'') = 0" for n
    by (simp_all add: sample_env_def)
  have b1: "new_block ?e = 64"
    and l2: "load_path ?e ''a.pdf'' (Some ''secret'') = 10"
    and b3: "new_block ?e' = 65"
    by (simp_all add: sample_env_def)
  have s0: "allocated ?s0 = {}" "open_documents ?s0 = Map.empty"
    "g_docBuffers ?s0 = Map.empty" "double_free ?s0 = False"
    by (simp_all add: initial_doc_world_def)
  have n1: "load_mem ?e [1, 2] (int (length [1, 2 :: jbyte])) (Some ''secret'') \<noteq> 0"
    "new_block ?e \<noteq> 0"
    unfolding l1 b1 by simp_all
  have s1: "g_docBuffers ?s1 = [9 \<mapsto> 64]" "allocated ?s1 = {64}"
    "double_free ?s1 = False" "open_documents ?s1 = [9 \<mapsto> ViaBytes]"
    unfolding open_mem_accepted[OF n1] l1 b1 s0 by simp_all
  have n2: "load_path ?e ''a.pdf'' (Some ''secret'') \<noteq> 0" unfolding l2 by simp
  have s2: "g_docBuffers ?s2 = [9 \<mapsto> 64]" "allocated ?s2 = {64}"
    "double_free ?s2 = False" "open_documents ?s2 = [9 \<mapsto> ViaBytes, 10 \<mapsto> ViaPath]"
    unfolding open_path_accepted[OF n2] l2 s1 by simp_all
  have f3: "new_block ?e' \<notin> allocated ?s2" unfolding b3 s2 by simp
  from open_mem_refused(2)[OF l3 f3]
  have s3: "g_docBuffers ?s3 = [9 \<mapsto> 64]" "allocated ?s3 = {64}"
    "double_free ?s3 = False" "open_documents ?s3 = [9 \<mapsto> ViaBytes, 10 \<mapsto> ViaPath]"
    unfolding ownership_unchanged_def s2 by simp_all
  have n4: "(10 :: jlong) \<noteq> 0" "g_docBuffers ?s3 10 = None" unfolding s3 by simp_all
  have s4: "g_docBuffers ?s4 = [9 \<mapsto> 64]" "allocated ?s4 = {64}"
    "double_free ?s4 = False"
    unfolding close_unregistered[OF n4] s3 by simp_all
  have h1: "environment_sound (OpenMemDocument ?e [1, 2] (Some ''secret'')) ?s0"
    by (simp add: fresh_block_def fresh_handle_def l1 b1 s0)
  have h2: "environment_sound (OpenDocumentPath ?e ''a.pdf'' (Some ''secret'')) ?s1"
    by (simp add: fresh_handle_def l2 s1)
  have h3: "environment_sound (OpenMemDocument ?e' [1, 2] (Some ''guess'')) ?s2"
    using l3 b3 by (simp add: fresh_block_def fresh_handle_def s2)
  have h: "sound_history sample_history initial_doc_world"
    unfolding sample_history_def using h1 h2 h3 by simp
  from buffer_ownership[OF h refl]
  have c: "outstanding_buffers (run sample_history initial_doc_world) =
       card (buffered_documents (run sample_history initial_doc_world))" by (rule conjunct1)
  have r: "g_docBuffers (run sample_history initial_doc_world) 9 = Some 64"
    "g_docBuffers (run sample_history initial_doc_world) 10 = None"
    "allocated (run sample_history initial_doc_world) = {64}"
    "\<not> double_free (run sample_history initial_doc_world)"
    unfolding run s4 by simp_all
  from h c r show ?thesis by (intro conjI)
qed

lemma sample_reads:
  "read_loop 3 (reads sample_env) (nat (lseek_end sample_env)) [] =
     (Some [1, 2, 3, 4, 5], [Read 3 5 3, Read 3 2 2])"
  by code_simp

lemma truncated_reads:
  "read_loop 3 (reads truncated_env) (nat (lseek_end truncated_env)) [] =
     (None, [Read 3 5 3, Read 3 2 0])"
  by code_simp

text \<open>
  Claim C4. When the loader refuses the document (it returns 0, as for a wrong password
  or malformed bytes), each open operation returns 0, the ownership table, the set of
  allocated blocks and the library's live documents are what they were before the call,
  and on the two routes that copy the bytes the last call made is the release of the
  block allocated for the attempt. For the descriptor route the same state is left by
  every call that returns 0, whatever made it fail. The allocator is assumed to hand
  out a block that is not in use.
\<close>

theorem failed_open_registers_nothing:
  assumes "new_block env \<notin> allocated s"
  shows "(load_mem env data (int (length data)) password = 0 \<longrightarrow>
            fst (nativeOpenMemDocument env data password s) = 0
          \<and> g_docBuffers (snd (nativeOpenMemDocument env data password s)) = g_docBuffers s
          \<and> allocated (snd (nativeOpenMemDocument env data password s)) = allocated s
          \<and> double_free (snd (nativeOpenMemDocument env data password s)) = double_free s
          \<and> open_documents (snd (nativeOpenMemDocument env data password s)) = open_documents s
          \<and> doc_calls (snd (nativeOpenMemDocument env data password s)) =
              doc_calls s @ [NewArray (length data),
                             FPDF_LoadMemDocument (new_block env) data (int (length data)) password,
                             DeleteArray (new_block env)])
       \<and> (0 < lseek_end env \<and> new_block env \<noteq> 0 \<and>
          read_loop fd (reads env) (nat (lseek_end env)) [] = (Some bytes, rcalls) \<and>
          load_mem env bytes (to_int32 (lseek_end env)) password = 0 \<longrightarrow>
            fst (nativeOpenDocument env fd password s) = 0
          \<and> doc_calls (snd (nativeOpenDocument env fd password s)) =
              doc_calls s @ [Lseek fd, Lseek fd, NewArray (nat (lseek_end env))] @ rcalls @
                [FPDF_LoadMemDocument (new_block env) bytes (to_int32 (lseek_end env)) password,
                 DeleteArray (new_block env)])
       \<and> (fst (nativeOpenDocument env fd password s) = 0 \<longrightarrow>
            g_docBuffers (snd (nativeOpenDocument env fd password s)) = g_docBuffers s
          \<and> allocated (snd (nativeOpenDocument env fd password s)) = allocated s
          \<and> double_free (snd (nativeOpenDocument env fd password s)) = double_free s
          \<and> open_documents (snd (nativeOpenDocument env fd password s)) = open_documents s)
       \<and> (load_path env path password = 0 \<longrightarrow>
            fst (nativeOpenDocumentPath env path password s) = 0
          \<and> g_docBuffers (snd (nativeOpenDocumentPath env path password s)) = g_docBuffers s
          \<and> allocated (snd (nativeOpenDocumentPath env path password s)) = allocated s
          \<and> double_free (snd (nativeOpenDocumentPath env path password s)) = double_free s
          \<and> open_documents (snd (nativeOpenDocumentPath env path password s)) =
              open_documents s)"
proof -
  have a: "load_mem env data (int (length data)) password = 0 \<longrightarrow>
            fst (nativeOpenMemDocument env data password s) = 0
          \<and> g_docBuffers (snd (nativeOpenMemDocument env data password s)) = g_docBuffers s
          \<and> allocated (snd (nativeOpenMemDocument env data password s)) = allocated s
          \<and> double_free (snd (nativeOpenMemDocument env data password s)) = double_free s
          \<and> open_documents (snd (nativeOpenMemDocument env data password s)) = open_documents s
          \<and> doc_calls (snd (nativeOpenMemDocument env data password s)) =
              doc_calls s @ [NewArray (length data),
                             FPDF_LoadMemDocument (new_block env) data (int (length data)) password,
                             DeleteArray (new_block env)]"
  proof
    assume z: "load_mem env data (int (length data)) password = 0"
    from open_mem_refused[OF z assms]
    have u: "fst (nativeOpenMemDocument env data password s) = 0"
      "ownership_unchanged s (snd (nativeOpenMemDocument env data password s))" .
    have c: "doc_calls (snd (nativeOpenMemDocument env data password s)) =
              doc_calls s @ [NewArray (length data),
                             FPDF_LoadMemDocument (new_block env) data (int (length data)) password,
                             DeleteArray (new_block env)]"
      using z by (simp add: nativeOpenMemDocument_def Let_def)
    from u c show "fst (nativeOpenMemDocument env data password s) = 0
          \<and> g_docBuffers (snd (nativeOpenMemDocument env data password s)) = g_docBuffers s
          \<and> allocated (snd (nativeOpenMemDocument env data password s)) = allocated s
          \<and> double_free (snd (nativeOpenMemDocument env data password s)) = double_free s
          \<and> open_documents (snd (nativeOpenMemDocument env data password s)) = open_documents s
          \<and> doc_calls (snd (nativeOpenMemDocument env data password s)) =
              doc_calls s @ [NewArray (length data),
                             FPDF_LoadMemDocument (new_block env) data (int (length data)) password,
                             DeleteArray (new_block env)]"
      by (simp add: ownership_unchanged_def)
  qed
  have b: "0 < lseek_end env \<and> new_block env \<noteq> 0 \<and>
          read_loop fd (reads env) (nat (lseek_end env)) [] = (Some bytes, rcalls) \<and>
          load_mem env bytes (to_int32 (lseek_end env)) password = 0 \<longrightarrow>
            fst (nativeOpenDocument env fd password s) = 0
          \<and> doc_calls (snd (nativeOpenDocument env fd password s)) =
              doc_calls s @ [Lseek fd, Lseek fd, NewArray (nat (lseek_end env))] @ rcalls @
                [FPDF_LoadMemDocument (new_block env) bytes (to_int32 (lseek_end env)) password,
                 DeleteArray (new_block env)]"
  proof
    assume h: "0 < lseek_end env \<and> new_block env \<noteq> 0 \<and>
          read_loop fd (reads env) (nat (lseek_end env)) [] = (Some bytes, rcalls) \<and>
          load_mem env bytes (to_int32 (lseek_end env)) password = 0"
    then have h1: "0 < lseek_end env" and h2: "new_block env \<noteq> 0"
      and h3: "read_loop fd (reads env) (nat (lseek_end env)) [] = (Some bytes, rcalls)"
      and h4: "load_mem env bytes (to_int32 (lseek_end env)) password = 0" by blast+
    show "fst (nativeOpenDocument env fd password s) = 0
          \<and> doc_calls (snd (nativeOpenDocument env fd password s)) =
              doc_calls s @ [Lseek fd, Lseek fd, NewArray (nat (lseek_end env))] @ rcalls @
                [FPDF_LoadMemDocument (new_block env) bytes (to_int32 (lseek_end env)) password,
                 DeleteArray (new_block env)]"
      unfolding open_fd_load_refused[OF h1 h2 h3 h4] by simp
  qed
  have c: "fst (nativeOpenDocument env fd password s) = 0 \<longrightarrow>
            g_docBuffers (snd (nativeOpenDocument env fd password s)) = g_docBuffers s
          \<and> allocated (snd (nativeOpenDocument env fd password s)) = allocated s
          \<and> double_free (snd (nativeOpenDocument env fd password s)) = double_free s
          \<and> open_documents (snd (nativeOpenDocument env fd password s)) = open_documents s"
    using open_fd_zero_unchanged[OF assms, of fd password]
    by (simp add: ownership_unchanged_def)
  have d: "load_path env path password = 0 \<longrightarrow>
            fst (nativeOpenDocumentPath env path password s) = 0
          \<and> g_docBuffers (snd (nativeOpenDocumentPath env path password s)) = g_docBuffers s
          \<and> allocated (snd (nativeOpenDocumentPath env path password s)) = allocated s
          \<and> double_free (snd (nativeOpenDocumentPath env path password s)) = double_free s
          \<and> open_documents (snd (nativeOpenDocumentPath env path password s)) =
              open_documents s"
    using open_path_refused[of env path password s]
    by (simp add: ownership_unchanged_def)
  from a b c d show ?thesis by (intro conjI)
qed

theorem failed_open_registers_nothing_witness:
  "new_block sample_env \<notin> allocated initial_doc_world
   \<and> load_mem sample_env [1, 2] 2 (Some ''guess'') = 0
   \<and> fst (nativeOpenMemDocument sample_env [1, 2] (Some ''guess'') initial_doc_world) = 0
   \<and> g_docBuffers (snd (nativeOpenMemDocument sample_env [1, 2] (Some ''guess'')
        initial_doc_world)) = Map.empty
   \<and> allocated (snd (nativeOpenMemDocument sample_env [1, 2] (Some ''guess'')
        initial_doc_world)) = {}
   \<and> doc_calls (snd (nativeOpenMemDocument sample_env [1, 2] (Some ''guess'')
        initial_doc_world)) =
       [NewArray 2, FPDF_LoadMemDocument 64 [1, 2] 2 (Some ''guess''), DeleteArray 64]
   \<and> 0 < lseek_end sample_env \<and> new_block sample_env \<noteq> 0
   \<and> read_loop 3 (reads sample_env) (nat (lseek_end sample_env)) [] =
       (Some [1, 2, 3, 4, 5], [Read 3 5 3, Read 3 2 2])
   \<and> load_mem sample_env [1, 2, 3, 4, 5] 5 (Some ''guess'') = 0
   \<and> fst (nativeOpenDocument sample_env 3 (Some ''guess'') initial_doc_world) = 0
   \<and> doc_calls (snd (nativeOpenDocument sample_env 3 (Some ''guess'') initial_doc_world)) =
       [Lseek 3, Lseek 3, NewArray 5, Read 3 5 3, Read 3 2 2,
        FPDF_LoadMemDocument 64 [1, 2, 3, 4, 5] 5 (Some ''guess''), DeleteArray 64]
   \<and> g_docBuffers (snd (nativeOpenDocument sample_env 3 (Some ''guess'') initial_doc_world)) =
       Map.empty
   \<and> allocated (snd (nativeOpenDocument sample_env 3 (Some ''guess'') initial_doc_world)) = {}
   \<and> load_path sample_env ''a.pdf'' (Some ''guess'') = 0
   \<and> fst (nativeOpenDocumentPath sample_env ''a.pdf'' (Some ''guess'') initial_doc_world) = 0
   \<and> g_docBuffers (snd (nativeOpenDocumentPath sample_env ''a.pdf'' (Some ''guess'')
        initial_doc_world)) = Map.empty"
proof -
  have f: "new_block sample_env \<notin> allocated initial_doc_world"
    by (simp add: initial_doc_world_def)
  have e: "load_mem sample_env [1, 2] 2 (Some ''guess'') = 0"
    "load_mem sample_env [1, 2, 3, 4, 5] 5 (Some ''guess'') = 0"
    "load_path sample_env ''a.pdf'' (Some ''guess'') = 0"
    "0 < lseek_end sample_env" "new_block sample_env \<noteq> 0"
    "new_block sample_env = 64" "nat (lseek_end sample_env) = 5"
    "to_int32 (lseek_end sample_env) = 5"
    by (simp_all add: sample_env_def to_int32_def)
  have i: "g_docBuffers initial_doc_world = Map.empty" "allocated initial_doc_world = {}"
    "doc_calls initial_doc_world = []"
    by (simp_all add: initial_doc_world_def)
  note t = failed_open_registers_nothing[OF f, of "[1, 2]" "Some ''guess''" 3
      "[1, 2, 3, 4, 5]" "[Read 3 5 3, Read 3 2 2]" "''a.pdf''"]
  from t e(1) have m: "fst (nativeOpenMemDocument sample_env [1, 2] (Some ''guess'') initial_doc_world) = 0"
    "g_docBuffers (snd (nativeOpenMemDocument sample_env [1, 2] (Some ''guess'')
        initial_doc_world)) = Map.empty"
    "allocated (snd (nativeOpenMemDocument sample_env [1, 2] (Some ''guess'')
        initial_doc_world)) = {}"
    "doc_calls (snd (nativeOpenMemDocument sample_env [1, 2] (Some ''guess'')
        initial_doc_world)) =
       [NewArray 2, FPDF_LoadMemDocument 64 [1, 2] 2 (Some ''guess''), DeleteArray 64]"
    by (simp_all add: i e(6))
  from t e(2,4,5) sample_reads
  have d: "fst (nativeOpenDocument sample_env 3 (Some ''guess'') initial_doc_world) = 0"
    "doc_calls (snd (nativeOpenDocument sample_env 3 (Some ''guess'') initial_doc_world)) =
       [Lseek 3, Lseek 3, NewArray 5, Read 3 5 3, Read 3 2 2,
        FPDF_LoadMemDocument 64 [1, 2, 3, 4, 5] 5 (Some ''guess''), DeleteArray 64]"
    by (simp_all add: i e(6,7,8))
  from t d(1)
  have d': "g_docBuffers (snd (nativeOpenDocument sample_env 3 (Some ''guess'') initial_doc_world)) =
       Map.empty"
    "allocated (snd (nativeOpenDocument sample_env 3 (Some ''guess'') initial_doc_world)) = {}"
    by (simp_all add: i)
  from t e(3)
  have p: "fst (nativeOpenDocumentPath sample_env ''a.pdf'' (Some ''guess'') initial_doc_world) = 0"
    "g_docBuffers (snd (nativeOpenDocumentPath sample_env ''a.pdf'' (Some ''guess'')
        initial_doc_world)) = Map.empty"
    by (simp_all add: i)
  from f e(1-5) m sample_reads d d' p show ?thesis by (intro conjI)
qed

lemma read_loop_asks_for_rest:
  "read_loop fd script remaining buf = (res, calls) \<Longrightarrow> asks_for_rest fd remaining calls"
proof (induction script arbitrary: remaining buf res calls)
  case Nil
  show ?case
  proof (cases "remaining = 0")
    case True
    with Nil read_loop_stop[of fd "[]" buf] show ?thesis by simp
  next
    case False
    from read_loop_eof[OF False, of fd buf] Nil have "calls = [Read fd remaining 0]" by simp
    then show ?thesis by simp
  qed
next
  case (Cons r rest)
  show ?case
  proof (cases "remaining = 0")
    case True
    with Cons.prems read_loop_stop[of fd "r # rest" buf] show ?thesis by simp
  next
    case False
    obtain k got where sr: "sys_read r remaining = (k, got)" by (cases "sys_read r remaining")
    show ?thesis
    proof (cases "k \<le> 0")
      case True
      from read_loop_fail[OF False sr True, of fd rest buf] Cons.prems
      have "calls = [Read fd remaining k]" by simp
      then show ?thesis by simp
    next
      case nk: False
      then have kpos: "0 < k" by simp
      obtain res' cs where rl:
        "read_loop fd rest (remaining - nat k) (buf @ got) = (res', cs)"
        by (cases "read_loop fd rest (remaining - nat k) (buf @ got)")
      from read_loop_more[OF False sr kpos rl] Cons.prems
      have calls: "calls = Read fd remaining k # cs" by simp
      from Cons.IH[OF rl] show ?thesis by (simp add: calls)
    qed
  qed
qed

text \<open>
  What the loop gathers is decided by the descriptor alone: it succeeds exactly when the
  descriptor can deliver the bytes asked for before a \<^verbatim>\<open>read\<close> fails or finds the end
  of the file, and it then holds the first of the bytes delivered, in their order.
\<close>

lemma read_loop_available:
  "fst (read_loop fd script remaining buf) =
     (if remaining \<le> length (available script)
      then Some (buf @ take remaining (available script)) else None)"
proof (induction script arbitrary: remaining buf)
  case Nil
  show ?case
  proof (cases "remaining = 0")
    case True
    then show ?thesis by (simp add: read_loop_stop)
  next
    case False
    from read_loop_eof[OF False, of fd buf] False show ?thesis by simp
  qed
next
  case (Cons r rest)
  show ?case
  proof (cases "remaining = 0")
    case True
    then show ?thesis by (simp add: read_loop_stop)
  next
    case nz: False
    show ?thesis
    proof (cases r)
      case ReadError
      have sr: "sys_read r remaining = (- 1, [])" by (simp add: ReadError)
      have "read_loop fd (r # rest) remaining buf = (None, [Read fd remaining (- 1)])"
        by (rule read_loop_fail[OF nz sr]) simp
      then have "fst (read_loop fd (r # rest) remaining buf) = None" by simp
      with nz show ?thesis by (simp add: ReadError)
    next
      case (ReadData bs)
      show ?thesis
      proof (cases "bs = []")
        case True
        have sr: "sys_read r remaining = (0, [])" by (simp add: ReadData True)
        have "read_loop fd (r # rest) remaining buf = (None, [Read fd remaining 0])"
          by (rule read_loop_fail[OF nz sr]) simp
        then have "fst (read_loop fd (r # rest) remaining buf) = None" by simp
        with nz show ?thesis by (simp add: ReadData True)
      next
        case ne: False
        define k where "k = min remaining (length bs)"
        have sr: "sys_read r remaining = (int k, take remaining bs)"
          by (simp add: ReadData k_def)
        from nz ne have kpos: "0 < int k" by (simp add: k_def)
        obtain res cs where rl:
          "read_loop fd rest (remaining - nat (int k)) (buf @ take remaining bs) = (res, cs)"
          by (cases "read_loop fd rest (remaining - nat (int k)) (buf @ take remaining bs)")
        have "read_loop fd (r # rest) remaining buf = (res, Read fd remaining (int k) # cs)"
          by (rule read_loop_more[OF nz sr kpos rl])
        then have "fst (read_loop fd (r # rest) remaining buf) = res" by simp
        also have "res = fst (read_loop fd rest (remaining - k) (buf @ take remaining bs))"
          using rl by simp
        also have "\<dots> =
            (if remaining - k \<le> length (available rest)
             then Some ((buf @ take remaining bs) @ take (remaining - k) (available rest))
             else None)"
          by (rule Cons.IH)
        also have "\<dots> =
            (if remaining \<le> length (available (r # rest))
             then Some (buf @ take remaining (available (r # rest))) else None)"
          using ne by (auto simp add: ReadData k_def min_def)
        finally show ?thesis .
      qed
    qed
  qed
qed

lemma sample_available:
  "available (reads sample_env) = [1, 2, 3, 4, 5]"
  "available (reads truncated_env) = [1, 2, 3]"
  by (simp_all add: sample_env_def truncated_env_def)

text \<open>
  From 2 GiB on, the size the loader is told is not the file size: a descriptor of
  \<open>2 ^ 32 + 5\<close> bytes is announced to it as one of 5 bytes, one of \<open>2 ^ 31\<close> bytes as
  one of negative size.
\<close>

lemma size_argument_narrows:
  "to_int32 (2 ^ 32 + 5) = 5"
  "to_int32 (2 ^ 31) = - (2 ^ 31)"
  by (simp_all add: to_int32_def)

text \<open>
  Claim C5. \<^verbatim>\<open>nativeOpenDocument\<close>, once it has a size and a block, reads in a loop
  that asks each time for what remains. The loop gathers all the bytes exactly when the
  descriptor can deliver that many before a \<^verbatim>\<open>read\<close> fails or finds the end of the
  file, and what it gathers are the first bytes the descriptor delivers. It ends in one
  of two ways. Either every \<^verbatim>\<open>read\<close> returned more than 0 and together they returned
  the file size: then the loader is given the block, which holds exactly that many
  bytes, and is told the file size narrowed to \<^verbatim>\<open>int\<close>, which below 2 GiB is the file
  size. Or a \<^verbatim>\<open>read\<close> returned 0 (the descriptor ended short) or less (an error): then
  that call is the last \<^verbatim>\<open>read\<close> made, the block is released right after it, the
  operation returns 0 and leaves the table, the allocated blocks and the live documents
  as they were. In no case is the loader given a block that holds anything but the first
  bytes of the descriptor, as many as the file size. A \<^verbatim>\<open>read\<close> that returns some but
  not all of the bytes asked for is not an end: the loop goes on for the rest.
\<close>

theorem descriptor_read_all_or_nothing:
  assumes "0 < lseek_end env" and "new_block env \<noteq> 0" and "new_block env \<notin> allocated s"
    and "read_loop fd (reads env) (nat (lseek_end env)) [] = (filled, rcalls)"
    and "s' = snd (nativeOpenDocument env fd password s)"
  shows "filled =
           (if nat (lseek_end env) \<le> length (available (reads env))
            then Some (take (nat (lseek_end env)) (available (reads env))) else None)
       \<and> asks_for_rest fd (nat (lseek_end env)) rcalls
       \<and> (filled = None \<longrightarrow>
            fst (nativeOpenDocument env fd password s) = 0
          \<and> doc_calls s' =
              doc_calls s @ [Lseek fd, Lseek fd, NewArray (nat (lseek_end env))] @ rcalls @
                [DeleteArray (new_block env)]
          \<and> rcalls \<noteq> [] \<and> read_returned (last rcalls) \<le> 0
          \<and> (\<forall>c\<in>set (butlast rcalls). 0 < read_returned c)
          \<and> g_docBuffers s' = g_docBuffers s \<and> allocated s' = allocated s
          \<and> double_free s' = double_free s \<and> open_documents s' = open_documents s)
       \<and> (\<forall>bytes. filled = Some bytes \<longrightarrow>
            bytes = take (nat (lseek_end env)) (available (reads env))
          \<and> length bytes = nat (lseek_end env)
          \<and> (\<forall>c\<in>set rcalls. 0 < read_returned c)
          \<and> sum_list (map read_returned rcalls) = lseek_end env
          \<and> doc_calls s' =
              doc_calls s @ [Lseek fd, Lseek fd, NewArray (nat (lseek_end env))] @ rcalls @
                FPDF_LoadMemDocument (new_block env) bytes (to_int32 (lseek_end env)) password #
                (if load_mem env bytes (to_int32 (lseek_end env)) password = 0
                 then [DeleteArray (new_block env)]
                 else [PageCountQuery (load_mem env bytes (to_int32 (lseek_end env)) password)]))
       \<and> (lseek_end env < 2 ^ 31 \<longrightarrow> to_int32 (lseek_end env) = lseek_end env)
       \<and> (\<forall>c\<in>set (drop (length (doc_calls s)) (doc_calls s')).
            is_load_call c \<longrightarrow>
              loaded_bytes c = take (nat (lseek_end env)) (available (reads env))
            \<and> length (loaded_bytes c) = nat (lseek_end env)
            \<and> loaded_size c = to_int32 (lseek_end env))"
proof -
  note pos = assms(1) and bz = assms(2) and fb = assms(3) and rl = assms(4)
  let ?n = "nat (lseek_end env)"
  let ?pre = "[Lseek fd, Lseek fd, NewArray ?n]"
  let ?size = "to_int32 (lseek_end env)"
  from read_loop_only_reads[OF rl] have nl: "\<forall>c\<in>set rcalls. \<not> is_load_call c" .
  from read_loop_asks_for_rest[OF rl] have ar: "asks_for_rest fd ?n rcalls" .
  from read_loop_available[of fd "reads env" ?n "[]"] rl
  have av: "filled =
           (if ?n \<le> length (available (reads env))
            then Some (take ?n (available (reads env))) else None)"
    by simp
  have a: "filled = None \<longrightarrow>
            fst (nativeOpenDocument env fd password s) = 0
          \<and> doc_calls s' = doc_calls s @ ?pre @ rcalls @ [DeleteArray (new_block env)]
          \<and> rcalls \<noteq> [] \<and> read_returned (last rcalls) \<le> 0
          \<and> (\<forall>c\<in>set (butlast rcalls). 0 < read_returned c)
          \<and> g_docBuffers s' = g_docBuffers s \<and> allocated s' = allocated s
          \<and> double_free s' = double_free s \<and> open_documents s' = open_documents s"
  proof
    assume n: "filled = None"
    with rl have rl': "read_loop fd (reads env) ?n [] = (None, rcalls)" by simp
    note e = open_fd_read_failed[OF pos bz rl', of password s]
    from read_loop_failed[OF rl']
    have r: "rcalls \<noteq> []" "read_returned (last rcalls) \<le> 0"
      "\<forall>c\<in>set (butlast rcalls). 0 < read_returned c" by blast+
    have z: "fst (nativeOpenDocument env fd password s) = 0" unfolding e by simp
    have c: "doc_calls s' = doc_calls s @ ?pre @ rcalls @ [DeleteArray (new_block env)]"
      unfolding assms(5) e by simp
    have u: "g_docBuffers s' = g_docBuffers s" "allocated s' = allocated s"
      "double_free s' = double_free s" "open_documents s' = open_documents s"
      unfolding assms(5) e using bz fb by simp_all
    from z c r u show "fst (nativeOpenDocument env fd password s) = 0
          \<and> doc_calls s' = doc_calls s @ ?pre @ rcalls @ [DeleteArray (new_block env)]
          \<and> rcalls \<noteq> [] \<and> read_returned (last rcalls) \<le> 0
          \<and> (\<forall>c\<in>set (butlast rcalls). 0 < read_returned c)
          \<and> g_docBuffers s' = g_docBuffers s \<and> allocated s' = allocated s
          \<and> double_free s' = double_free s \<and> open_documents s' = open_documents s"
      by (intro conjI)
  qed
  have b: "\<forall>bytes. filled = Some bytes \<longrightarrow>
            bytes = take ?n (available (reads env))
          \<and> length bytes = ?n
          \<and> (\<forall>c\<in>set rcalls. 0 < read_returned c)
          \<and> sum_list (map read_returned rcalls) = lseek_end env
          \<and> doc_calls s' =
              doc_calls s @ ?pre @ rcalls @
                FPDF_LoadMemDocument (new_block env) bytes ?size password #
                (if load_mem env bytes ?size password = 0 then [DeleteArray (new_block env)]
                 else [PageCountQuery (load_mem env bytes ?size password)])"
  proof (intro allI impI)
    fix bytes assume sm: "filled = Some bytes"
    with rl have rl': "read_loop fd (reads env) ?n [] = (Some bytes, rcalls)" by simp
    from av sm have d: "bytes = take ?n (available (reads env))"
      by (simp split: if_splits)
    from read_loop_done[OF rl'] pos
    have r: "length bytes = ?n" "\<forall>c\<in>set rcalls. 0 < read_returned c"
      "sum_list (map read_returned rcalls) = lseek_end env" by simp_all
    have c: "doc_calls s' =
              doc_calls s @ ?pre @ rcalls @
                FPDF_LoadMemDocument (new_block env) bytes ?size password #
                (if load_mem env bytes ?size password = 0 then [DeleteArray (new_block env)]
                 else [PageCountQuery (load_mem env bytes ?size password)])"
    proof (cases "load_mem env bytes ?size password = 0")
      case True
      show ?thesis unfolding assms(5) open_fd_load_refused[OF pos bz rl' True] using True
        by simp
    next
      case False
      from open_fd_accepted(6)[OF pos bz rl' False, of s] False
      show ?thesis unfolding assms(5) by simp
    qed
    from d r c show "bytes = take ?n (available (reads env))
          \<and> length bytes = ?n
          \<and> (\<forall>c\<in>set rcalls. 0 < read_returned c)
          \<and> sum_list (map read_returned rcalls) = lseek_end env
          \<and> doc_calls s' =
              doc_calls s @ ?pre @ rcalls @
                FPDF_LoadMemDocument (new_block env) bytes ?size password #
                (if load_mem env bytes ?size password = 0 then [DeleteArray (new_block env)]
                 else [PageCountQuery (load_mem env bytes ?size password)])"
      by (intro conjI)
  qed
  have n: "lseek_end env < 2 ^ 31 \<longrightarrow> ?size = lseek_end env"
    using pos by (auto intro: to_int32_fits)
  have c: "\<forall>c\<in>set (drop (length (doc_calls s)) (doc_calls s')).
            is_load_call c \<longrightarrow>
              loaded_bytes c = take ?n (available (reads env))
            \<and> length (loaded_bytes c) = ?n
            \<and> loaded_size c = ?size"
  proof (cases filled)
    case None
    with a have "drop (length (doc_calls s)) (doc_calls s') =
        ?pre @ rcalls @ [DeleteArray (new_block env)]" by simp
    with nl show ?thesis by auto
  next
    case (Some bytes)
    from b Some have d: "bytes = take ?n (available (reads env))"
      and l: "length bytes = ?n"
      and dc: "doc_calls s' =
              doc_calls s @ ?pre @ rcalls @
                FPDF_LoadMemDocument (new_block env) bytes ?size password #
                (if load_mem env bytes ?size password = 0 then [DeleteArray (new_block env)]
                 else [PageCountQuery (load_mem env bytes ?size password)])"
      by blast+
    have g: "loaded_bytes (FPDF_LoadMemDocument (new_block env) bytes ?size password) =
               take ?n (available (reads env))"
      "length (loaded_bytes (FPDF_LoadMemDocument (new_block env) bytes ?size password)) = ?n"
      "loaded_size (FPDF_LoadMemDocument (new_block env) bytes ?size password) = ?size"
      using d l by simp_all
    show ?thesis unfolding dc using nl g by auto
  qed
  from av ar a b n c show ?thesis by (intro conjI)
qed

theorem descriptor_read_all_or_nothing_witness:
  "0 < lseek_end truncated_env \<and> new_block truncated_env \<noteq> 0
   \<and> new_block truncated_env \<notin> allocated initial_doc_world
   \<and> read_loop 3 (reads truncated_env) (nat (lseek_end truncated_env)) [] =
       (None, [Read 3 5 3, Read 3 2 0])
   \<and> available (reads truncated_env) = [1, 2, 3]
   \<and> fst (nativeOpenDocument truncated_env 3 (Some ''secret'') initial_doc_world) = 0
   \<and> doc_calls (snd (nativeOpenDocument truncated_env 3 (Some ''secret'') initial_doc_world)) =
       [Lseek 3, Lseek 3, NewArray 5, Read 3 5 3, Read 3 2 0, DeleteArray 64]
   \<and> allocated (snd (nativeOpenDocument truncated_env 3 (Some ''secret'') initial_doc_world)) = {}
   \<and> g_docBuffers (snd (nativeOpenDocument truncated_env 3 (Some ''secret'')
        initial_doc_world)) = Map.empty
   \<and> 0 < lseek_end sample_env \<and> new_block sample_env \<noteq> 0
   \<and> new_block sample_env \<notin> allocated initial_doc_world
   \<and> read_loop 3 (reads sample_env) (nat (lseek_end sample_env)) [] =
       (Some [1, 2, 3, 4, 5], [Read 3 5 3, Read 3 2 2])
   \<and> available (reads sample_env) = [1, 2, 3, 4, 5]
   \<and> lseek_end sample_env < 2 ^ 31
   \<and> to_int32 (lseek_end sample_env) = 5
   \<and> doc_calls (snd (nativeOpenDocument sample_env 3 (Some ''secret'') initial_doc_world)) =
       [Lseek 3, Lseek 3, NewArray 5, Read 3 5 3, Read 3 2 2,
        FPDF_LoadMemDocument 64 [1, 2, 3, 4, 5] 5 (Some ''secret''), PageCountQuery 9]"
proof -
  have t: "0 < lseek_end truncated_env" "new_block truncated_env \<noteq> 0"
    "new_block truncated_env \<notin> allocated initial_doc_world"
    by (simp_all add: truncated_env_def sample_env_def initial_doc_world_def)
  have e: "0 < lseek_end sample_env" "new_block sample_env \<noteq> 0"
    "new_block sample_env \<notin> allocated initial_doc_world"
    by (simp_all add: sample_env_def initial_doc_world_def)
  have v: "new_block truncated_env = 64" "nat (lseek_end truncated_env) = 5"
    "new_block sample_env = 64" "nat (lseek_end sample_env) = 5"
    "load_mem sample_env [1, 2, 3, 4, 5] 5 (Some ''secret'') = 9"
    by (simp_all add: truncated_env_def sample_env_def)
  have k: "lseek_end sample_env < 2 ^ 31" "lseek_end sample_env = 5"
    by (simp_all add: sample_env_def)
  have i: "g_docBuffers initial_doc_world = Map.empty" "allocated initial_doc_world = {}"
    "doc_calls initial_doc_world = []"
    by (simp_all add: initial_doc_world_def)
  from descriptor_read_all_or_nothing[OF t truncated_reads refl, of "Some ''secret''"]
  have a: "fst (nativeOpenDocument truncated_env 3 (Some ''secret'') initial_doc_world) = 0"
    "doc_calls (snd (nativeOpenDocument truncated_env 3 (Some ''secret'') initial_doc_world)) =
       [Lseek 3, Lseek 3, NewArray 5, Read 3 5 3, Read 3 2 0, DeleteArray 64]"
    "allocated (snd (nativeOpenDocument truncated_env 3 (Some ''secret'') initial_doc_world)) = {}"
    "g_docBuffers (snd (nativeOpenDocument truncated_env 3 (Some ''secret'')
        initial_doc_world)) = Map.empty"
    by (simp_all add: i v)
  note w = descriptor_read_all_or_nothing[OF e sample_reads refl, of "Some ''secret''"]
  note loaded =
    w[THEN conjunct2, THEN conjunct2, THEN conjunct2, THEN conjunct1, rule_format, OF refl]
  note narrowed =
    w[THEN conjunct2, THEN conjunct2, THEN conjunct2, THEN conjunct2, THEN conjunct1]
  from narrowed k have n: "to_int32 (lseek_end sample_env) = 5" by simp
  from loaded[THEN conjunct2, THEN conjunct2, THEN conjunct2, THEN conjunct2] n v(5)
  have b: "doc_calls (snd (nativeOpenDocument sample_env 3 (Some ''secret'') initial_doc_world)) =
       [Lseek 3, Lseek 3, NewArray 5, Read 3 5 3, Read 3 2 2,
        FPDF_LoadMemDocument 64 [1, 2, 3, 4, 5] 5 (Some ''secret''), PageCountQuery 9]"
    by (simp add: i v)
  from t truncated_reads sample_available(2) a e sample_reads sample_available(1) k(1) n b
  show ?thesis by (intro conjI)
qed

end
